theory Spec2Isabelle
  imports Main
begin

section \<open>Python values used by umake/frameworks/ide.py\<close>

text \<open>
  Python \<open>str\<close> and \<open>bytes\<close> are both character lists; a \<open>char\<close> of a \<open>str\<close> stands for
  a code point below 256. Exceptions that the source does not catch are values of
  \<open>exception\<close>; \<open>ReError\<close> is \<open>re.error\<close>.
\<close>

type_synonym bytes = string

datatype exception =
    KeyError | IndexError | TypeError | AttributeError | UnboundLocalError
  | StopIteration | UnicodeDecodeError | ValueError | PermissionError | OSError
  | ReError

datatype level = DEBUG | INFO | WARNING | ERROR

text \<open>Truth value of an optional string: \<open>None\<close> and the empty string are false.\<close>

fun truthy :: "string option \<Rightarrow> bool" where
  "truthy None = False"
| "truthy (Some s) = (s \<noteq> [])"

text \<open>
  \<open>str.isspace\<close> on one code point below 256: tab, newline, vertical tab, form feed,
  carriage return, the separators 0x1c to 0x1f, space, NEL (0x85) and the no-break
  space (0xa0).
\<close>

definition isspace :: "char \<Rightarrow> bool" where
  "isspace c = ((of_char c :: nat) \<in> {9, 10, 11, 12, 13, 28, 29, 30, 31, 32, 133, 160})"

text \<open>
  \<open>str.split()\<close> without a separator: runs of whitespace separate the tokens, and no
  empty token is produced. \<open>split_acc cur s\<close> scans \<open>s\<close> with the token read so far
  in \<open>cur\<close>.
\<close>

fun split_acc :: "string \<Rightarrow> string \<Rightarrow> string list" where
  "split_acc cur [] = (if cur = [] then [] else [cur])"
| "split_acc cur (c # cs) =
     (if isspace c then (if cur = [] then split_acc [] cs else cur # split_acc [] cs)
      else split_acc (cur @ [c]) cs)"

definition split :: "string \<Rightarrow> string list" where
  "split s = split_acc [] s"

text \<open>
  The spec's words for the digest, "the first whitespace-delimited token": skip the
  leading whitespace, then take characters up to the next whitespace. There is no token
  in a body that is empty or all whitespace.
\<close>

definition first_token :: "string \<Rightarrow> string option" where
  "first_token s =
     (case dropWhile isspace s of
        [] \<Rightarrow> None
      | r \<Rightarrow> Some (takeWhile (\<lambda>c. \<not> isspace c) r))"

section \<open>Download centre data (umake.network.download_center, umake.tools)\<close>

datatype ChecksumType = md5 | sha256

datatype checksum = Checksum ChecksumType string

type_synonym cookies = "(string \<times> string) list"

text \<open>
  Modelled from the spec: \<open>DownloadItem\<close> (the spec's DownloadRequest) is declared in
  umake/network/download_center.py, which is not part of the sources at hand: "URL,
  optional expected checksum (algorithm + digest), optional cookies, optional flag to
  ignore server-declared encoding".
\<close>

record download_item =
  item_url :: string
  item_checksum :: "checksum option"
  item_ignore_encoding :: bool
  item_cookies :: "cookies option"

definition DownloadItem :: "string \<Rightarrow> checksum option \<Rightarrow> download_item" where
  "DownloadItem u c =
     \<lparr>item_url = u, item_checksum = c, item_ignore_encoding = False, item_cookies = None\<rparr>"

text \<open>
  Modelled from the spec: \<open>DownloadResult\<close>, from the same missing module: "URL, byte
  buffer (or stream handle), final redirected URL, response cookies, optional error".
  The buffer is \<open>None\<close> when nothing was fetched.
\<close>

record download_result =
  buffer :: "bytes option"
  error :: "string option"
  final_url :: string
  cookies :: cookies

text \<open>The dictionary handed to an \<open>on_done\<close> callback, in insertion order.\<close>

type_synonym results = "(string \<times> download_result) list"

text \<open>\<open>result[key]\<close> with a key that may be \<open>None\<close>; \<open>None\<close> is KeyError.\<close>

definition lookup :: "results \<Rightarrow> string option \<Rightarrow> download_result option" where
  "lookup result key = (case key of None \<Rightarrow> None | Some k \<Rightarrow> map_of result k)"

section \<open>Effects and outcomes of a callback\<close>

text \<open>
  Modelled from the spec: \<open>create_launcher\<close> and \<open>get_application_desktop_file\<close> of
  umake/tools.py are not at hand; the spec gives the call as "create_launcher(desktop
  filename, descriptor{name, icon path, exec command, comment, categories})".
\<close>

record desktop_file =
  df_name :: string
  df_icon_path :: string
  df_exec :: string
  df_comment :: string
  df_categories :: string

text \<open>
  What a callback does to the outside, in order: a log record (the level, the message
  or format string as the source writes it, and the arguments formatted into it), the
  run of \<open>_add_to_group\<close> in a worker process of a \<open>ProcessPoolExecutor\<close> (with the
  value or the exception the future gave back), the launcher written by
  \<open>create_launcher\<close>, and a message queued by \<open>UI.delayed_display\<close>.
\<close>

datatype arg = Str string | OptStr "string option" | Bytes bytes | CookieJar cookies

datatype effect =
    Log level string "arg list"
  | WorkerProcess string string "exception + bool"
  | CreateLauncher string desktop_file
  | DelayedDisplay string

text \<open>
  Modelled from the spec: \<open>UI.return_main_screen(status_code)\<close> lives in umake/ui, which
  is not at hand. By the spec it is the single abort exit point ("log and abort the
  session (status=1)"): the callback that calls it ends there. A callback of the source
  ends in one of four ways:
  \<^item> \<open>ReturnMainScreen\<close>: it aborted the session with the given status;
  \<^item> \<open>Raised\<close>: an exception left it;
  \<^item> \<open>DownloadCenter\<close>: it handed the items to a \<open>DownloadCenter\<close> with the flag
    \<open>download\<close> and the \<open>on_done\<close> callback, which runs on the results later;
  \<^item> \<open>StartDownloadAndInstall\<close>: it called \<open>self.start_download_and_install()\<close>, which
    downloads the items of \<open>self.download_requests\<close>, the installer being as given.
  Each carries the effects of the callback up to that point.
\<close>

datatype 's outcome =
    ReturnMainScreen "effect list" nat
  | Raised "effect list" exception
  | DownloadCenter "effect list" "download_item list" bool "results \<Rightarrow> 's outcome"
  | StartDownloadAndInstall "effect list" 's

text \<open>
  The libraries the resolvers call: the HTML parser of bs4 (see the next section for the
  tree it returns), \<open>bytes.decode('utf-8')\<close> (\<open>None\<close> is UnicodeDecodeError),
  \<open>urllib.parse.urljoin\<close>, \<open>int\<close> on a string (\<open>None\<close> is ValueError), and
  \<open>re.compile\<close> on a pattern string: \<open>None\<close> is \<open>re.error\<close>, and a compiled
  pattern is given by its test \<open>preg.match(line) is not None\<close>.
\<close>

datatype node = Tag string "(string \<times> string) list" "node list" | NavigableString string

record externals =
  BeautifulSoup :: "bytes \<Rightarrow> node list"
  decode_utf8 :: "bytes \<Rightarrow> string option"
  urljoin :: "string \<Rightarrow> string \<Rightarrow> string"
  py_int :: "string \<Rightarrow> int option"
  re_compile :: "string \<Rightarrow> (string \<Rightarrow> bool) option"

text \<open>
  Modelled from the spec: the fields that \<open>BaseInstaller.__init__\<close>
  (umake/frameworks/baseinstaller.py, not at hand) keeps of its keyword arguments, and
  the session state it owns: "accumulated download requests, resolved version string
  (when applicable), resolved install path".
\<close>

record installer =
  name :: string
  description :: string
  only_on_archs :: "string list"
  download_page :: "string option"
  desktop_filename :: string
  packages_requirements :: "string list"
  need_root_access :: bool
  icon_filename :: "string option"
  download_requests :: "download_item list"
  install_path :: string
  version :: "string option"

section \<open>Eclipse\<close>

definition DOWNLOAD_URL_PAT :: "string \<Rightarrow> string \<Rightarrow> string" where
  "DOWNLOAD_URL_PAT arch suf =
     ''https://www.eclipse.org/downloads/download.php?'' @
     ''file=/technology/epp/downloads/release/luna/R/'' @
     ''eclipse-standard-luna-R-linux-gtk'' @ arch @ ''.tar.gz'' @ suf @
     ''&r=1''"

text \<open>The nested callback \<open>done\<close> of \<open>Eclipse.download_provider_page\<close> (\<open>done\<close> is a
  keyword here, hence \<open>done_cb\<close>); \<open>arch\<close> and \<open>md5_url\<close> are the variables it closes
  over. Without a value for \<open>download_url\<close> the last statement is an UnboundLocalError.\<close>

definition done_cb ::
  "externals \<Rightarrow> installer \<Rightarrow> string \<Rightarrow> string \<Rightarrow> results \<Rightarrow> installer outcome" where
  "done_cb ext self arch md5_url download_result =
     (case map_of download_result md5_url of
        None \<Rightarrow> Raised [] KeyError
      | Some res \<Rightarrow>
          if truthy (error res) then ReturnMainScreen [Log ERROR (the (error res)) []] 1
          else (case buffer res of
            None \<Rightarrow> Raised [] AttributeError
          | Some b \<Rightarrow> (case decode_utf8 ext b of
              None \<Rightarrow> Raised [] UnicodeDecodeError
            | Some text \<Rightarrow> (case split text of
                [] \<Rightarrow> Raised [] IndexError
              | md5sum # _ \<Rightarrow>
                  (let logs = [Log DEBUG ''Downloaded MD5 is {}'' [Str md5sum],
                               Log DEBUG ''Preparing to download the main archive.'' []]
                   in if arch = ''i686'' \<or> arch = ''x86_64'' then
                        (let download_url =
                               (if arch = ''i686'' then DOWNLOAD_URL_PAT '''' ''''
                                else DOWNLOAD_URL_PAT ''-x86_64'' '''')
                         in StartDownloadAndInstall logs
                              (self\<lparr>download_requests := download_requests self @
                                 [DownloadItem download_url (Some (Checksum md5 md5sum))]\<rparr>))
                      else Raised logs UnboundLocalError)))))"

text \<open>\<open>Eclipse.download_provider_page\<close>; \<open>arch\<close> is the value of
  \<open>platform.machine()\<close>.\<close>

definition download_provider_page ::
  "externals \<Rightarrow> string \<Rightarrow> installer \<Rightarrow> installer outcome" where
  "download_provider_page ext arch self =
     (let logs = [Log DEBUG ''Preparing to download MD5.'' []] in
      if arch = ''i686'' then
        DownloadCenter logs [DownloadItem (DOWNLOAD_URL_PAT '''' ''.md5'') None] False
          (done_cb ext self arch (DOWNLOAD_URL_PAT '''' ''.md5''))
      else if arch = ''x86_64'' then
        DownloadCenter logs [DownloadItem (DOWNLOAD_URL_PAT ''-x86_64'' ''.md5'') None] False
          (done_cb ext self arch (DOWNLOAD_URL_PAT ''-x86_64'' ''.md5''))
      else
        ReturnMainScreen (logs @ [Log ERROR ''Unsupported architecture: {}'' [Str arch]]) 1)"

section \<open>The parsed page (bs4)\<close>

text \<open>
  The parser gives the top-level nodes of the document. A tag has a name, its attributes
  and its children. \<open>descendants pa n\<close> lists \<open>n\<close> and the nodes below it in document
  order, each with the attributes of its parent (\<open>pa\<close> for \<open>n\<close> itself); the parent of
  a top-level node is the \<open>BeautifulSoup\<close> object, which has no attribute.
\<close>

type_synonym attrs = "(string \<times> string) list"

fun descendants :: "attrs \<Rightarrow> node \<Rightarrow> (node \<times> attrs) list" where
  "descendants pa (NavigableString s) = [(NavigableString s, pa)]"
| "descendants pa (Tag n as cs) = (Tag n as cs, pa) # concat (map (descendants as) cs)"

definition soup_descendants :: "node list \<Rightarrow> (node \<times> attrs) list" where
  "soup_descendants soup = concat (map (descendants []) soup)"

text \<open>\<open>Tag.string\<close>: the string of a tag with a single child is that child's string;
  a tag with no child or several has none.\<close>

fun tag_string :: "node \<Rightarrow> string option" where
  "tag_string (NavigableString s) = Some s"
| "tag_string (Tag n as []) = None"
| "tag_string (Tag n as [c]) = tag_string c"
| "tag_string (Tag n as (c # d # cs)) = None"

fun tag_named :: "string \<Rightarrow> node \<Rightarrow> bool" where
  "tag_named nm (NavigableString s) = False"
| "tag_named nm (Tag n as cs) = (n = nm)"

fun tag_attrs :: "node \<Rightarrow> attrs" where
  "tag_attrs (NavigableString s) = []"
| "tag_attrs (Tag n as cs) = as"

text \<open>
  \<open>soup.find_all(name, ...)\<close>: the tags of that name that pass the further test, in
  document order; \<open>soup.find\<close> is the first of them, or \<open>None\<close>.
\<close>

definition soup_find_all :: "string \<Rightarrow> (node \<Rightarrow> bool) \<Rightarrow> node list \<Rightarrow> (node \<times> attrs) list" where
  "soup_find_all nm p soup = filter (\<lambda>(t, pa). tag_named nm t \<and> p t) (soup_descendants soup)"

definition soup_find :: "string \<Rightarrow> (node \<Rightarrow> bool) \<Rightarrow> node list \<Rightarrow> (node \<times> attrs) option" where
  "soup_find nm p soup = (case soup_find_all nm p soup of [] \<Rightarrow> None | x # _ \<Rightarrow> Some x)"

text \<open>The test \<open>text="..."\<close>: the tag's string is exactly the given one.\<close>

definition text_is :: "string \<Rightarrow> node \<Rightarrow> bool" where
  "text_is s t = (tag_string t = Some s)"

text \<open>\<open>re.compile(lit).search(s)\<close> for a pattern without special characters: \<open>lit\<close>
  occurs in \<open>s\<close>.\<close>

definition startswith :: "string \<Rightarrow> string \<Rightarrow> bool" where
  "startswith s p = (take (length p) s = p)"

fun contains :: "string \<Rightarrow> string \<Rightarrow> bool" where
  "contains lit [] = (lit = [])"
| "contains lit (c # cs) = (startswith (c # cs) lit \<or> contains lit cs)"

text \<open>The test \<open>text=re.compile(lit)\<close>: the tag has a string and \<open>lit\<close> occurs in it.\<close>

definition text_search :: "string \<Rightarrow> node \<Rightarrow> bool" where
  "text_search lit t = (case tag_string t of None \<Rightarrow> False | Some s \<Rightarrow> contains lit s)"

section \<open>JetBrains\<close>

record jetbrains = installer +
  download_page_url :: string
  executable :: string

text \<open>The nested callback \<open>checksum_downloaded\<close>; \<open>download_url\<close> is the variable it
  closes over.\<close>

definition checksum_downloaded ::
  "externals \<Rightarrow> jetbrains \<Rightarrow> string \<Rightarrow> results \<Rightarrow> jetbrains outcome" where
  "checksum_downloaded ext self download_url results =
     (case results of
        [] \<Rightarrow> Raised [] StopIteration
      | (_, checksum_result) # _ \<Rightarrow>
          if truthy (error checksum_result) then
            ReturnMainScreen [Log ERROR (the (error checksum_result)) []] 1
          else (case buffer checksum_result of
            None \<Rightarrow> Raised [] AttributeError
          | Some b \<Rightarrow> (case decode_utf8 ext b of
              None \<Rightarrow> Raised [] UnicodeDecodeError
            | Some text \<Rightarrow> (case split text of
                [] \<Rightarrow> Raised [] IndexError
              | digest # _ \<Rightarrow>
                  StartDownloadAndInstall
                    [Log INFO (''Obtained SHA256 checksum: '' @ digest) []]
                    (self\<lparr>download_requests := download_requests self @
                       [(DownloadItem download_url (Some (Checksum sha256 digest)))
                          \<lparr>item_ignore_encoding := True\<rparr>]\<rparr>)))))"

text \<open>\<open>BaseJetBrains.get_metadata_and_check_license\<close>. \<open>BeautifulSoup(None)\<close> is a
  TypeError; \<open>link.attrs['href']\<close> on an anchor without that attribute a KeyError.\<close>

definition jetbrains_get_metadata_and_check_license ::
  "externals \<Rightarrow> jetbrains \<Rightarrow> results \<Rightarrow> jetbrains outcome" where
  "jetbrains_get_metadata_and_check_license ext self result =
     (let logs = [Log DEBUG ''Fetched download page, parsing.'' []] in
      case lookup result (download_page self) of
        None \<Rightarrow> Raised logs KeyError
      | Some page \<Rightarrow>
          if truthy (error page) then
            ReturnMainScreen
              (logs @ [Log ERROR ''An error occurred while downloading {}: {}''
                         [Str (download_page_url self), OptStr (error page)]]) 1
          else (case buffer page of
            None \<Rightarrow> Raised logs TypeError
          | Some b \<Rightarrow>
              (case soup_find ''a'' (text_is ''HTTPS'') (BeautifulSoup ext b) of
                 None \<Rightarrow>
                   ReturnMainScreen
                     (logs @ [Log ERROR ''Can't parse the download URL from the download page.'' []]) 1
               | Some (link, _) \<Rightarrow>
                   (case map_of (tag_attrs link) ''href'' of
                      None \<Rightarrow> Raised logs KeyError
                    | Some download_url \<Rightarrow>
                        (let checksum_url = download_url @ ''.sha256'' in
                         DownloadCenter
                           (logs @ [Log DEBUG (''Found download URL: '' @ download_url) [],
                                    Log DEBUG (''Downloading checksum first, from '' @ checksum_url) []])
                           [DownloadItem checksum_url None] False
                           (checksum_downloaded ext self download_url))))))"

section \<open>Regular expressions of the Arduino resolver\<close>

text \<open>
  The source's patterns are fixed up to \<open>self.bits\<close>, so each is translated by hand.
  \<open>\d\<close> below code point 256 is an ASCII digit; \<open>.\<close> is any character but a
  newline; \<open>$\<close> is the end of the text or the place before a final newline, and with
  \<open>re.M\<close> also the place before any newline.
\<close>

definition isdigit :: "char \<Rightarrow> bool" where
  "isdigit c = (48 \<le> (of_char c :: nat) \<and> (of_char c :: nat) \<le> 57)"

definition version_char :: "char \<Rightarrow> bool" where
  "version_char c = (isdigit c \<or> c = CHR ''.'' \<or> c = CHR ''-'' \<or> c = CHR ''r'')"

definition any_char :: "char \<Rightarrow> bool" where
  "any_char c = (c \<noteq> CHR 0x0A)"

definition end_of :: "bool \<Rightarrow> string \<Rightarrow> bool" where
  "end_of multiline s =
     (case s of [] \<Rightarrow> True | c # cs \<Rightarrow> c = CHR 0x0A \<and> (multiline \<or> cs = []))"

definition strip_prefix :: "string \<Rightarrow> string \<Rightarrow> string option" where
  "strip_prefix p s = (if startswith s p then Some (drop (length p) s) else None)"

text \<open>\<open>-linux<bits>.tar.xz$\<close> at the start of \<open>s\<close>.\<close>

definition match_linux_tail :: "bool \<Rightarrow> string \<Rightarrow> string \<Rightarrow> bool" where
  "match_linux_tail multiline bits s =
     (case strip_prefix (''-linux'' @ bits) s of
        None \<Rightarrow> False
      | Some [] \<Rightarrow> False
      | Some (c1 # s2) \<Rightarrow> any_char c1 \<and>
          (case strip_prefix ''tar'' s2 of
             None \<Rightarrow> False
           | Some [] \<Rightarrow> False
           | Some (c2 # s4) \<Rightarrow> any_char c2 \<and>
               (case strip_prefix ''xz'' s4 of
                  None \<Rightarrow> False
                | Some e \<Rightarrow> end_of multiline e)))"

text \<open>\<open>arduino-[\d\.\-r]+-linux<bits>.tar.xz$\<close> at the start of \<open>s\<close>: the class
  matches some \<open>n \<ge> 1\<close> of the characters that follow the prefix.\<close>

definition match_archive_name :: "bool \<Rightarrow> string \<Rightarrow> string \<Rightarrow> bool" where
  "match_archive_name multiline bits s =
     (case strip_prefix ''arduino-'' s of
        None \<Rightarrow> False
      | Some r \<Rightarrow>
          list_ex (\<lambda>n. match_linux_tail multiline bits (drop n r))
            [1 ..< Suc (length (takeWhile version_char r))])"

text \<open>\<open>re.compile(download_link_pat).search(s)\<close>: the pattern matches at some
  position of \<open>s\<close>.\<close>

definition search_archive_name :: "string \<Rightarrow> string \<Rightarrow> bool" where
  "search_archive_name bits s =
     list_ex (\<lambda>i. match_archive_name False bits (drop i s)) [0 ..< Suc (length s)]"

text \<open>The test \<open>href=re.compile(download_link_pat)\<close>: the tag has the attribute and
  the pattern is found in it.\<close>

definition href_search :: "string \<Rightarrow> node \<Rightarrow> bool" where
  "href_search bits t =
     (case map_of (tag_attrs t) ''href'' of
        None \<Rightarrow> False
      | Some h \<Rightarrow> search_archive_name bits h)"

text \<open>
  \<open>^(\S+)\s+arduino-[\d\.\-r]+-linux<bits>.tar.xz$\<close> at the start of \<open>s\<close>, which is the
  start of a line; the value is group 1. \<open>\S+\<close> can only take the whole run of
  non-space characters, since whitespace must follow it, and \<open>\s+\<close> the whole run of
  whitespace, since \<open>a\<close> must follow it.
\<close>

definition match_checksum_line :: "string \<Rightarrow> string \<Rightarrow> string option" where
  "match_checksum_line bits s =
     (let digest = takeWhile (\<lambda>c. \<not> isspace c) s;
          r1 = dropWhile (\<lambda>c. \<not> isspace c) s;
          r2 = dropWhile isspace r1
      in if digest \<noteq> [] \<and> takeWhile isspace r1 \<noteq> [] \<and> match_archive_name True bits r2
         then Some digest else None)"

text \<open>\<open>re.search(..., text, re.M)\<close>: the first line start where the pattern matches;
  \<open>bol\<close> says whether the scan stands at the start of a line.\<close>

fun search_checksum :: "string \<Rightarrow> bool \<Rightarrow> string \<Rightarrow> string option" where
  "search_checksum bits bol [] = None"
| "search_checksum bits bol (c # cs) =
     (case (if bol then match_checksum_line bits (c # cs) else None) of
        Some digest \<Rightarrow> Some digest
      | None \<Rightarrow> search_checksum bits (c = CHR 0x0A) cs)"

text \<open>\<open>bytes.decode('ascii')\<close>: every byte is below 128, or UnicodeDecodeError.\<close>

definition decode_ascii :: "bytes \<Rightarrow> string option" where
  "decode_ascii b = (if list_all (\<lambda>c. (of_char c :: nat) < 128) b then Some b else None)"

section \<open>The operating system, as the Arduino installer reads it\<close>

text \<open>What \<open>subprocess.check_output\<close> does: the output of a run that exits with 0,
  CalledProcessError for another exit status, OSError when the program cannot be run.\<close>

datatype check_output = Output bytes | CalledProcessError | NotStarted

record os_env =
  machine :: string
  geteuid :: nat
  getenv :: "string \<Rightarrow> string option"
  getpwuid :: "int \<Rightarrow> string option"
  getgrall :: "(string \<times> string list) list"
  seteuid_root :: bool
  adduser :: "string \<Rightarrow> string \<Rightarrow> check_output"

text \<open>
  \<open>machine\<close> is \<open>platform.machine()\<close>; \<open>getpwuid\<close> gives the \<open>pw_name\<close> of a uid
  (\<open>None\<close> is KeyError); \<open>getgrall\<close> lists each group as \<open>(gr_name, gr_mem)\<close>;
  \<open>seteuid_root\<close> says whether \<open>os.seteuid(0)\<close> and \<open>os.setegid(0)\<close> are permitted;
  \<open>adduser u g\<close> is the run of \<open>adduser u g\<close>.
\<close>

text \<open>\<open>_add_to_group\<close> (a name cannot start with an underscore here): its log records
  and its value, or the exception that leaves it.\<close>

definition add_to_group :: "os_env \<Rightarrow> string \<Rightarrow> string \<Rightarrow> effect list \<times> (exception + bool)" where
  "add_to_group os user grp =
     (if \<not> seteuid_root os then ([], Inl PermissionError)
      else case adduser os user grp of
        Output out \<Rightarrow>
          ([Log DEBUG ''Added {} to {}: {}'' [Str user, Str grp, Bytes out]], Inr True)
      | CalledProcessError \<Rightarrow>
          ([Log ERROR ''Couldn't add {} to {}'' [Str user, Str grp]], Inr False)
      | NotStarted \<Rightarrow> ([], Inl OSError))"

section \<open>Arduino\<close>

record arduino = installer +
  current_user :: string
  was_in_arduino_group :: bool
  scraped_checksum_url :: "string option"
  scraped_download_url :: "string option"
  bits :: string

definition ARDUINO_GROUP :: string where
  "ARDUINO_GROUP = ''dialout''"

text \<open>
  \<open>Arduino.__init__\<close>. The field \<open>current_user\<close> is \<open>self._current_user\<close>; the first
  assignment to it is kept as the first binding of \<open>user\<close>. \<open>path\<close> is the install path that \<open>BaseInstaller.__init__\<close>
  works out. \<open>_\<close> (gettext) is the identity: no message catalogue.
\<close>

definition Arduino_init :: "externals \<Rightarrow> os_env \<Rightarrow> string \<Rightarrow> exception + arduino" where
  "Arduino_init ext os path =
     (let user = (if geteuid os \<noteq> 0 then getenv os ''USER'' else None) in
      case (case getenv os ''SUDO_UID'' of None \<Rightarrow> Some 0 | Some s \<Rightarrow> py_int ext s) of
        None \<Rightarrow> Inl ValueError
      | Some uid \<Rightarrow>
          (case getpwuid os uid of
             None \<Rightarrow> Inl KeyError
           | Some pw_name \<Rightarrow>
               (let user = pw_name;
                    was_in = list_ex (\<lambda>group_name. group_name = ARDUINO_GROUP)
                               (map fst (filter (\<lambda>g. user \<in> set (snd g)) (getgrall os)))
                in Inr \<lparr>name = ''Arduino'',
                        description = ''The Arduino Software Distribution'',
                        only_on_archs = [''i386'', ''amd64''],
                        download_page = Some ''http://www.arduino.cc/en/Main/Software'',
                        desktop_filename = ''arduino.desktop'',
                        packages_requirements =
                          [''openjdk-7-jdk'', ''jayatana'', ''gcc-avr'', ''avr-libc''],
                        need_root_access = (\<not> was_in),
                        icon_filename = None,
                        download_requests = [],
                        install_path = path,
                        version = None,
                        current_user = user,
                        was_in_arduino_group = was_in,
                        scraped_checksum_url = None,
                        scraped_download_url = None,
                        bits = (if machine os = ''i686'' then ''32'' else ''64'')\<rparr>)))"

text \<open>
  The block under \<open>with suppress(TypeError)\<close> in \<open>get_metadata_and_check_license\<close>.
  \<open>None['href']\<close>, when \<open>find\<close> has no match, is the TypeError that ends the block;
  an anchor without \<open>href\<close> is a KeyError, which is not suppressed.
\<close>

definition scrape :: "arduino \<Rightarrow> node list \<Rightarrow> exception + arduino" where
  "scrape self soup =
     (case soup_find ''a'' (href_search (bits self)) soup of
        None \<Rightarrow> Inr self
      | Some (a1, _) \<Rightarrow>
          (case map_of (tag_attrs a1) ''href'' of
             None \<Rightarrow> Inl KeyError
           | Some h1 \<Rightarrow>
               (let self1 = self\<lparr>scraped_download_url := Some h1\<rparr> in
                case soup_find ''a'' (text_search ''Checksums'') soup of
                  None \<Rightarrow> Inr self1
                | Some (a2, _) \<Rightarrow>
                    (case map_of (tag_attrs a2) ''href'' of
                       None \<Rightarrow> Inl KeyError
                     | Some h2 \<Rightarrow>
                         (let self2 = self1\<lparr>scraped_checksum_url := Some h2\<rparr> in
                          Inr (self2\<lparr>scraped_download_url := Some (''http:'' @ h1),
                                     scraped_checksum_url := Some (''http:'' @ h2)\<rparr>))))))"

text \<open>\<open>Arduino.prepare_to_download_archive\<close>.\<close>

definition prepare_to_download_archive ::
  "externals \<Rightarrow> os_env \<Rightarrow> arduino \<Rightarrow> results \<Rightarrow> arduino outcome" where
  "prepare_to_download_archive ext os self results =
     (case lookup results (scraped_download_url self) of
        None \<Rightarrow> Raised [] KeyError
      | Some download_page_res \<Rightarrow>
     (case lookup results (scraped_checksum_url self) of
        None \<Rightarrow> Raised [] KeyError
      | Some checksum_page \<Rightarrow>
     if truthy (error download_page_res) then
       ReturnMainScreen
         [Log ERROR ''Error fetching download page: %s'' [OptStr (error download_page_res)]] 1
     else if truthy (error checksum_page) then
       ReturnMainScreen
         [Log ERROR ''Error fetching checksums: %s'' [OptStr (error checksum_page)]] 1
     else
     (case buffer checksum_page of
        None \<Rightarrow> Raised [] AttributeError
      | Some cb \<Rightarrow>
     (case decode_ascii cb of
        None \<Rightarrow> Raised [] UnicodeDecodeError
      | Some checksums \<Rightarrow>
     (case search_checksum (bits self) True checksums of
        None \<Rightarrow> ReturnMainScreen [Log ERROR ''Can't find a checksum.'' []] 1
      | Some digest \<Rightarrow>
     (case buffer download_page_res of
        None \<Rightarrow> Raised [] AttributeError
      | Some db \<Rightarrow>
     (case soup_find ''button'' (text_search ''JUST DOWNLOAD'') (BeautifulSoup ext db) of
        None \<Rightarrow> ReturnMainScreen [Log ERROR ''Can't parse download button.'' []] 1
      | Some (btn, btn_parent) \<Rightarrow>
     (case map_of btn_parent ''href'' of
        None \<Rightarrow> Raised [] KeyError
      | Some href \<Rightarrow>
         (let base_url = final_url download_page_res;
              jar = cookies download_page_res;
              final_download_url = urljoin ext base_url href;
              logs = [Log INFO ''Final download url: %s, cookies: %s.''
                        [Str final_download_url, CookieJar jar]];
              self1 = self\<lparr>download_requests :=
                        [(DownloadItem final_download_url (Some (Checksum md5 digest)))
                           \<lparr>item_cookies := Some jar\<rparr>]\<rparr>
          in if \<not> was_in_arduino_group self then
               (case add_to_group os (current_user self) ARDUINO_GROUP of
                  (wlogs, Inl e) \<Rightarrow>
                    Raised (logs @ wlogs @
                      [WorkerProcess (current_user self) ARDUINO_GROUP (Inl e)]) e
                | (wlogs, Inr added) \<Rightarrow>
                    if \<not> added then
                      ReturnMainScreen (logs @ wlogs @
                        [WorkerProcess (current_user self) ARDUINO_GROUP (Inr added)]) 1
                    else
                      StartDownloadAndInstall (logs @ wlogs @
                        [WorkerProcess (current_user self) ARDUINO_GROUP (Inr added)]) self1)
             else StartDownloadAndInstall logs self1)))))))))"

text \<open>\<open>Arduino.get_metadata_and_check_license\<close>.\<close>

definition arduino_get_metadata_and_check_license ::
  "externals \<Rightarrow> os_env \<Rightarrow> arduino \<Rightarrow> results \<Rightarrow> arduino outcome" where
  "arduino_get_metadata_and_check_license ext os self result =
     (let logs = [Log DEBUG ''Parse download metadata'' []] in
      case lookup result (download_page self) of
        None \<Rightarrow> Raised logs KeyError
      | Some page \<Rightarrow>
          if truthy (error page) then
            ReturnMainScreen
              (logs @ [Log ERROR ''An error occurred while downloading {}: {}''
                         [OptStr (download_page self), OptStr (error page)]]) 1
          else (case buffer page of
            None \<Rightarrow> Raised logs TypeError
          | Some b \<Rightarrow>
              (case scrape self (BeautifulSoup ext b) of
                 Inl e \<Rightarrow> Raised logs e
               | Inr self1 \<Rightarrow>
                   if \<not> truthy (scraped_download_url self1) then
                     ReturnMainScreen
                       (logs @ [Log ERROR ''Can't parse the download link from %s.''
                                  [OptStr (download_page self1)]]) 1
                   else if \<not> truthy (scraped_checksum_url self1) then
                     ReturnMainScreen
                       (logs @ [Log ERROR ''Can't parse the checksum link from %s.''
                                  [OptStr (download_page self1)]]) 1
                   else
                     DownloadCenter logs
                       [DownloadItem (the (scraped_download_url self1)) None,
                        DownloadItem (the (scraped_checksum_url self1)) None] False
                       (prepare_to_download_archive ext os self1))))"

text \<open>\<open>os.path.join\<close> (posixpath): a component that starts with a slash replaces what
  came before it.\<close>

fun join :: "string \<Rightarrow> string list \<Rightarrow> string" where
  "join path [] = path"
| "join path (b # p) =
     join (if startswith b ''/'' then b
           else if path = [] \<or> last path = CHR ''/'' then path @ b
           else path @ ''/'' @ b) p"

text \<open>\<open>Arduino.post_install\<close>.\<close>

definition arduino_post_install :: "arduino \<Rightarrow> effect list" where
  "arduino_post_install self =
     (let icon_path = join (install_path self) [''lib'', ''arduino_icon.ico''];
          exec_path = [CHR 0x22] @ join (install_path self) [''arduino''] @ [CHR 0x22] @ '' %f'';
          comment = ''The Arduino Software IDE'';
          categories = ''Development;IDE;''
      in [CreateLauncher (desktop_filename self)
            \<lparr>df_name = ''Arduino'', df_icon_path = icon_path, df_exec = exec_path,
             df_comment = comment, df_categories = categories\<rparr>] @
         (if \<not> was_in_arduino_group self then
            [DelayedDisplay ''You need to logout and login again for your installation to work'']
          else []))"

section \<open>NetBeans\<close>

text \<open>\<open>str.split(sep)\<close> with a separator that is not empty, \<open>str.replace\<close> and
  \<open>str.strip()\<close>. \<open>skip\<close> counts the characters of a separator just found that are
  still to be passed over.\<close>

fun split_from :: "nat \<Rightarrow> string \<Rightarrow> string \<Rightarrow> string \<Rightarrow> string list" where
  "split_from skip sep cur [] = [cur]"
| "split_from skip sep cur (c # cs) =
     (if 0 < skip then split_from (skip - 1) sep cur cs
      else if startswith (c # cs) sep then cur # split_from (length sep - 1) sep [] cs
      else split_from 0 sep (cur @ [c]) cs)"

definition split_sep :: "string \<Rightarrow> string \<Rightarrow> string list" where
  "split_sep sep s = split_from 0 sep [] s"

fun replace_from :: "nat \<Rightarrow> string \<Rightarrow> string \<Rightarrow> string \<Rightarrow> string" where
  "replace_from skip old new [] = []"
| "replace_from skip old new (c # cs) =
     (if 0 < skip then replace_from (skip - 1) old new cs
      else if startswith (c # cs) old then new @ replace_from (length old - 1) old new cs
      else c # replace_from 0 old new cs)"

definition replace :: "string \<Rightarrow> string \<Rightarrow> string \<Rightarrow> string" where
  "replace old new s =
     (if old = [] then new @ concat (map (\<lambda>c. c # new) s) else replace_from 0 old new s)"

definition strip :: "string \<Rightarrow> string" where
  "strip s = rev (dropWhile isspace (rev (dropWhile isspace s)))"

text \<open>
  The pattern of \<open>parse_download_page_callback\<close> is put together from \<open>self.version\<close>
  and \<open>self.flavour\<close>, which \<open>re\<close> reads as patterns. \<open>add_file_regex\<close> is the
  pattern string as the source builds it (a backslash stands before its parenthesis).
  \<^item> When version and flavour are \<open>plain\<close>, with no character that is special to
    \<open>re\<close> apart from the dot, the pattern is translated by hand (\<open>add_file_pat\<close>): a
    dot is any character but a newline, \<open>[0-9]{12}\<close> is twelve ASCII digits, and any
    other character is itself. \<open>preg.match(line)\<close> asks for a match at the start of the
    line.
  \<^item> Otherwise the pattern string goes to the library (\<open>re_compile\<close>), which may refuse
    it with \<open>re.error\<close>.
\<close>

definition special_char :: "char \<Rightarrow> bool" where
  "special_char c = (c \<in> set ''^$*+?{}[]|()'' \<or> c = CHR 0x5C)"

definition plain :: "string \<Rightarrow> bool" where
  "plain v = list_all (\<lambda>c. \<not> special_char c) v"

definition add_file_regex :: "string \<Rightarrow> string \<Rightarrow> string" where
  "add_file_regex ver flav =
     ''add_file'' @ [CHR 0x5C] @ ''('' @ [CHR 0x22] @ ''zip/netbeans-'' @ ver @
     ''-[0-9]{12}'' @ flav @ ''.zip'' @ [CHR 0x22]"

datatype pat = Lit char | AnyChar | Digit09

fun pat_ok :: "pat \<Rightarrow> char \<Rightarrow> bool" where
  "pat_ok (Lit l) c = (c = l)"
| "pat_ok AnyChar c = any_char c"
| "pat_ok Digit09 c = isdigit c"

fun match_pats :: "pat list \<Rightarrow> string \<Rightarrow> bool" where
  "match_pats [] s = True"
| "match_pats (p # ps) [] = False"
| "match_pats (p # ps) (c # cs) = (pat_ok p c \<and> match_pats ps cs)"

definition pattern_of :: "string \<Rightarrow> pat list" where
  "pattern_of v = map (\<lambda>c. if c = CHR ''.'' then AnyChar else Lit c) v"

definition add_file_pat :: "string \<Rightarrow> string \<Rightarrow> pat list" where
  "add_file_pat ver flav =
     map Lit (''add_file('' @ [CHR 0x22] @ ''zip/netbeans-'') @ pattern_of ver @
     [Lit (CHR ''-'')] @ replicate 12 Digit09 @ pattern_of flav @
     [AnyChar] @ map Lit (''zip'' @ [CHR 0x22])"

definition compile_add_file :: "externals \<Rightarrow> string \<Rightarrow> string \<Rightarrow> (string \<Rightarrow> bool) option" where
  "compile_add_file ext ver flav =
     (if plain ver \<and> plain flav then Some (match_pats (add_file_pat ver flav))
      else re_compile ext (add_file_regex ver flav))"

record netbeans = installer +
  flavour :: string
  version_download_page :: "string option"
  complete_name :: "string option"

definition BASE_URL :: string where
  "BASE_URL = ''http://download.netbeans.org/netbeans/''"

definition FALLBACK_VERSION :: string where
  "FALLBACK_VERSION = ''8.0.2''"

text \<open>\<open>BaseNetBeans.__init__\<close>; \<open>path\<close> is the install path that
  \<open>BaseInstaller.__init__\<close> works out.\<close>

text \<open>
  Modelled from the spec: \<open>version\<close> is the "resolved version string (when
  applicable)" of the session state, which \<open>BaseInstaller.__init__\<close>
  (umake/frameworks/baseinstaller.py, not at hand) owns; it is \<open>None\<close> until a resolver
  has resolved it.
\<close>

definition BaseNetBeans_init :: "string \<Rightarrow> string \<Rightarrow> netbeans" where
  "BaseNetBeans_init flav path =
     (let flav = (if flav \<noteq> [] then ''-'' @ flav else flav) in
      \<lparr>name = ''Netbeans'',
       description = ''Netbeans IDE'',
       only_on_archs = [''i386'', ''amd64''],
       download_page = Some ''https://netbeans.org/downloads/zip.html'',
       desktop_filename = ''netbeans'' @ flav @ ''.desktop'',
       packages_requirements = [''openjdk-7-jdk'', ''jayatana''],
       need_root_access = False,
       icon_filename = None,
       download_requests = [],
       install_path = path,
       version = None,
       flavour = flav,
       version_download_page = None,
       complete_name = None\<rparr>)"

definition not_parsable :: effect where
  "not_parsable = Log ERROR ''The download page changed its syntax or is not parsable'' []"

text \<open>
  \<open>BaseNetBeans.parse_download_page_callback\<close>. \<open>url_string\<close> is \<open>None\<close> as long as
  the loop has not assigned it: the local variable is unbound then, and reading it is an
  UnboundLocalError.
\<close>

definition parse_download_page_callback ::
  "externals \<Rightarrow> netbeans \<Rightarrow> results \<Rightarrow> netbeans outcome" where
  "parse_download_page_callback ext self result =
     (let logs = [Log INFO ''Netbeans {}'' [OptStr (version self)]] in
      case lookup result (version_download_page self) of
        None \<Rightarrow> Raised logs KeyError
      | Some res \<Rightarrow>
     (case buffer res of
        None \<Rightarrow> ReturnMainScreen (logs @ [not_parsable]) 1
      | Some b \<Rightarrow>
     (case decode_utf8 ext b of
        None \<Rightarrow> Raised logs UnicodeDecodeError
      | Some url_file \<Rightarrow>
     (case version self of
        None \<Rightarrow> Raised logs TypeError
      | Some ver \<Rightarrow>
     (case compile_add_file ext ver (flavour self) of
        None \<Rightarrow> Raised logs ReError
      | Some preg_match \<Rightarrow>
         (let url_string =
                fold (\<lambda>line url_string.
                        if preg_match line then
                          Some (replace [CHR 0x22] []
                                  (replace '');'' [] (replace ''add_file('' [] line)))
                        else url_string)
                     (split_sep [CHR 0x0A] url_file) None
          in case url_string of
               None \<Rightarrow> Raised logs UnboundLocalError
             | Some url_str \<Rightarrow>
                 if url_str = [] then ReturnMainScreen (logs @ [not_parsable]) 1
                 else
                   (let string_array = split_sep '', '' url_str in
                    if length string_array < 3 then
                      ReturnMainScreen (logs @ [not_parsable]) 1
                    else
                      (let url_suffix = string_array ! 0;
                           md5sum = string_array ! 2;
                           download_url = BASE_URL @ ver @ ''/final/'' @ url_suffix
                       in StartDownloadAndInstall logs
                            (self\<lparr>complete_name := Some (''netbeans'' @ flavour self),
                                  download_requests := download_requests self @
                                    [DownloadItem download_url
                                       (Some (Checksum md5 md5sum))]\<rparr>)))))))))"

text \<open>\<open>BaseNetBeans.get_metadata_and_check_license\<close>. The pattern
  \<open>.*/images_www/v6/download/.*\<close> matches a line exactly when the line contains the
  path.\<close>

definition netbeans_get_metadata_and_check_license ::
  "externals \<Rightarrow> netbeans \<Rightarrow> results \<Rightarrow> netbeans outcome" where
  "netbeans_get_metadata_and_check_license ext self result =
     (case lookup result (download_page self) of
        None \<Rightarrow> Raised [] KeyError
      | Some res \<Rightarrow>
     (case buffer res of
        None \<Rightarrow>
          ReturnMainScreen
            [Log ERROR (''You either have no connection available or '' @
                        ''the download page changed its syntax or is not parsable'') []] 1
      | Some b \<Rightarrow>
     (case decode_utf8 ext b of
        None \<Rightarrow> Raised [] UnicodeDecodeError
      | Some url_version_str \<Rightarrow>
         (let self1 =
                fold (\<lambda>line s.
                        if contains ''/images_www/v6/download/'' line then
                          s\<lparr>version := Some (strip
                             (replace (''/'' @ [CHR 0x22] @ '';'') []
                                (replace (''var PAGE_ARTIFACTS_LOCATION = '' @ [CHR 0x22] @
                                          ''/images_www/v6/download/'') [] line)))\<rparr>
                        else s)
                     (split_sep [CHR 0x0A] url_version_str) self;
              fallback = (\<not> truthy (version self1));
              logs = (if fallback then
                        [Log WARNING
                           (''Could not determine latest version, using version '' @
                            ''{} as fallback...'') [Str FALLBACK_VERSION]]
                      else []);
              self2 = (if fallback then self1\<lparr>version := Some FALLBACK_VERSION\<rparr> else self1);
              self3 = self2\<lparr>version_download_page :=
                        Some (''https://netbeans.org/images_www/v6/download/'' @
                              the (version self2) @ ''/js/files.js'')\<rparr>
          in DownloadCenter logs
               [DownloadItem (the (version_download_page self3)) None] False
               (parse_download_page_callback ext self3)))))"

section \<open>The installers and the libraries of the examples\<close>

text \<open>\<open>Eclipse.__init__\<close> and \<open>PyCharm.__init__\<close>, with the install path that
  \<open>BaseInstaller.__init__\<close> works out.\<close>

definition Eclipse_init :: "string \<Rightarrow> installer" where
  "Eclipse_init path =
     \<lparr>name = ''Eclipse'',
      description = ''Pure Eclipse Luna (4.4)'',
      only_on_archs = [''i386'', ''amd64''],
      download_page = None,
      desktop_filename = ''eclipse.desktop'',
      packages_requirements = [''openjdk-7-jdk''],
      need_root_access = False,
      icon_filename = None,
      download_requests = [],
      install_path = path,
      version = None\<rparr>"

definition PyCharm_download_page_url :: string where
  "PyCharm_download_page_url =
     ''https://www.jetbrains.com/pycharm/download/download_thanks.jsp?edition=comm&os=linux''"

definition PyCharm_init :: "string \<Rightarrow> jetbrains" where
  "PyCharm_init path =
     \<lparr>name = ''PyCharm'',
      description = ''PyCharm Community Edition'',
      only_on_archs = [''i386'', ''amd64''],
      download_page = Some PyCharm_download_page_url,
      desktop_filename = ''jetbrains-pycharm.desktop'',
      packages_requirements = [''openjdk-7-jdk'', ''jayatana''],
      need_root_access = False,
      icon_filename = Some ''pycharm.png'',
      download_requests = [],
      install_path = path,
      version = None,
      download_page_url = PyCharm_download_page_url,
      executable = ''pycharm.sh''\<rparr>"

text \<open>
  The closed examples need the libraries on a few pages only. \<open>example_pages\<close> gives
  the tree of each page the examples parse; \<open>example_externals\<close> parses by that table,
  decodes ASCII text, joins a base with an absolute URL (the result is that URL) and reads
  a string of ASCII digits as a number. No example has a version or a flavour that is
  not \<open>plain\<close>, so none asks the library to compile a pattern; \<open>re_compile\<close> is
  filled in with a library that refuses every pattern.
\<close>

definition decimal :: "string \<Rightarrow> int option" where
  "decimal s =
     (if s \<noteq> [] \<and> list_all isdigit s
      then Some (foldl (\<lambda>n c. 10 * n + (int (of_char c) - 48)) 0 s) else None)"

definition example_pages :: "(bytes \<times> node list) list" where
  "example_pages =
     [(''<a href=https://x/archive.tar.gz>HTTPS</a>'',
       [Tag ''a'' [(''href'', ''https://x/archive.tar.gz'')] [NavigableString ''HTTPS'']]),
      (''<a href=https://x/one.tar.gz>HTTPS</a><a href=https://x/two.tar.gz>HTTPS</a>'',
       [Tag ''a'' [(''href'', ''https://x/one.tar.gz'')] [NavigableString ''HTTPS''],
        Tag ''a'' [(''href'', ''https://x/two.tar.gz'')] [NavigableString ''HTTPS'']]),
      (''<p>moved</p>'', [Tag ''p'' [] [NavigableString ''moved'']]),
      (''<a href=//d/arduino-1.6.3-linux64.tar.xz>Linux</a><a href=//d/sums.txt>Checksums</a>'',
       [Tag ''a'' [(''href'', ''//d/arduino-1.6.3-linux64.tar.xz'')] [NavigableString ''Linux''],
        Tag ''a'' [(''href'', ''//d/sums.txt'')] [NavigableString ''Checksums'']]),
      (''<a href=http://d/get/arduino.tar.xz><button>JUST DOWNLOAD</button></a>'',
       [Tag ''a'' [(''href'', ''http://d/get/arduino.tar.xz'')]
          [Tag ''button'' [] [NavigableString ''JUST DOWNLOAD'']]])]"

definition example_externals :: externals where
  "example_externals =
     \<lparr>BeautifulSoup = (\<lambda>b. case map_of example_pages b of None \<Rightarrow> [] | Some soup \<Rightarrow> soup),
      decode_utf8 = decode_ascii,
      urljoin = (\<lambda>base url. url),
      py_int = decimal,
      re_compile = (\<lambda>p. None)\<rparr>"

definition fetched :: "bytes \<Rightarrow> download_result" where
  "fetched b = \<lparr>buffer = Some b, error = None, final_url = [], cookies = []\<rparr>"

definition example_os :: os_env where
  "example_os =
     \<lparr>machine = ''x86_64'',
      geteuid = 1000,
      getenv = map_of [(''USER'', ''alice'')],
      getpwuid = map_of [(0, ''root''), (1000, ''alice''), (1001, ''bob'')],
      getgrall = [(''root'', []), (''dialout'', [''bob'']), (''alice'', []), (''bob'', [])],
      seteuid_root = True,
      adduser = (\<lambda>u g. Output ''Done.'')\<rparr>"

section \<open>Reading an outcome\<close>

text \<open>The effects of a callback, the status it aborted with, the items it asked a
  \<open>DownloadCenter\<close> for, the installer it started the download with, and the outcome of
  its \<open>on_done\<close> callback on the results of the fetch.\<close>

fun effects :: "'s outcome \<Rightarrow> effect list" where
  "effects (ReturnMainScreen ev st) = ev"
| "effects (Raised ev e) = ev"
| "effects (DownloadCenter ev items dl k) = ev"
| "effects (StartDownloadAndInstall ev s) = ev"

fun aborted :: "'s outcome \<Rightarrow> nat option" where
  "aborted (ReturnMainScreen ev st) = Some st"
| "aborted (Raised ev e) = None"
| "aborted (DownloadCenter ev items dl k) = None"
| "aborted (StartDownloadAndInstall ev s) = None"

fun raised :: "'s outcome \<Rightarrow> exception option" where
  "raised (ReturnMainScreen ev st) = None"
| "raised (Raised ev e) = Some e"
| "raised (DownloadCenter ev items dl k) = None"
| "raised (StartDownloadAndInstall ev s) = None"

fun requested :: "'s outcome \<Rightarrow> download_item list option" where
  "requested (ReturnMainScreen ev st) = None"
| "requested (Raised ev e) = None"
| "requested (DownloadCenter ev items dl k) = Some items"
| "requested (StartDownloadAndInstall ev s) = None"

fun started :: "'s outcome \<Rightarrow> 's option" where
  "started (ReturnMainScreen ev st) = None"
| "started (Raised ev e) = None"
| "started (DownloadCenter ev items dl k) = None"
| "started (StartDownloadAndInstall ev s) = Some s"

fun on_done :: "'s outcome \<Rightarrow> results \<Rightarrow> 's outcome" where
  "on_done (DownloadCenter ev items dl k) res = k res"
| "on_done (ReturnMainScreen ev st) res = ReturnMainScreen ev st"
| "on_done (Raised ev e) res = Raised ev e"
| "on_done (StartDownloadAndInstall ev s) res = StartDownloadAndInstall ev s"

fun is_error_log :: "effect \<Rightarrow> bool" where
  "is_error_log (Log lv msg as) = (lv = ERROR)"
| "is_error_log (WorkerProcess u g r) = False"
| "is_error_log (CreateLauncher f d) = False"
| "is_error_log (DelayedDisplay m) = False"

fun is_worker :: "effect \<Rightarrow> bool" where
  "is_worker (Log lv msg as) = False"
| "is_worker (WorkerProcess u g r) = True"
| "is_worker (CreateLauncher f d) = False"
| "is_worker (DelayedDisplay m) = False"

fun is_delayed_display :: "effect \<Rightarrow> bool" where
  "is_delayed_display (Log lv msg as) = False"
| "is_delayed_display (WorkerProcess u g r) = False"
| "is_delayed_display (CreateLauncher f d) = False"
| "is_delayed_display (DelayedDisplay m) = True"

text \<open>Whether the group database lists the user among the members of the group.\<close>

definition in_group :: "os_env \<Rightarrow> string \<Rightarrow> string \<Rightarrow> bool" where
  "in_group os user grp = list_ex (\<lambda>g. fst g = grp \<and> user \<in> set (snd g)) (getgrall os)"

text \<open>
  Modelled from the spec: an installer names its "supported CPU architectures"
  (\<open>only_on_archs\<close>), and the framework (umake/frameworks/__init__.py, not at hand)
  offers it only on a system whose architecture is among them. \<open>arch\<close> is the
  architecture as the package manager names it: \<open>i386\<close> on every 32-bit x86 system,
  whatever its machine (\<open>i586\<close>, \<open>i686\<close>), and \<open>amd64\<close> on \<open>x86_64\<close>.
\<close>

definition is_installable :: "string \<Rightarrow> 'a installer_scheme \<Rightarrow> bool" where
  "is_installable arch self = (arch \<in> set (only_on_archs self))"

text \<open>The uid that \<open>Arduino.__init__\<close> looks up: \<open>int(os.getenv("SUDO_UID", default=0))\<close>.\<close>

definition sudo_uid :: "externals \<Rightarrow> os_env \<Rightarrow> int option" where
  "sudo_uid ext os = (case getenv os ''SUDO_UID'' of None \<Rightarrow> Some 0 | Some s \<Rightarrow> py_int ext s)"

text \<open>An Arduino installer as it would be for a user outside the group.\<close>

definition non_member :: "arduino \<Rightarrow> arduino" where
  "non_member self = self\<lparr>need_root_access := True, was_in_arduino_group := False\<rparr>"

text \<open>The outcome of a callback of a member of the group, as it is for a user outside
  the group whose worker process succeeds with the effects \<open>w\<close>.\<close>

fun with_group_step :: "effect list \<Rightarrow> arduino outcome \<Rightarrow> arduino outcome" where
  "with_group_step w (StartDownloadAndInstall ev s) = StartDownloadAndInstall (ev @ w) (non_member s)"
| "with_group_step w (ReturnMainScreen ev st) = ReturnMainScreen ev st"
| "with_group_step w (Raised ev e) = Raised ev e"
| "with_group_step w (DownloadCenter ev items dl k) = DownloadCenter ev items dl k"

text \<open>The two pages of the Arduino example: the "click to download" page, reached
  after a redirect and with a session cookie, and the checksum list.\<close>

definition example_download_page :: download_result where
  "example_download_page =
     \<lparr>buffer = Some ''<a href=http://d/get/arduino.tar.xz><button>JUST DOWNLOAD</button></a>'',
      error = None,
      final_url = ''http://d/thanks'',
      cookies = [(''session'', ''42'')]\<rparr>"

definition example_checksums :: bytes where
  "example_checksums =
     ''abc123  arduino-1.6.3-linux32.tar.xz'' @ [CHR 0x0A] @
     ''def456  arduino-1.6.3-linux64.tar.xz'' @ [CHR 0x0A]"

definition example_arduino_results :: results where
  "example_arduino_results =
     [(''http://d/arduino-1.6.3-linux64.tar.xz'', example_download_page),
      (''http://d/sums.txt'', fetched example_checksums)]"

text \<open>The example installer after \<open>get_metadata_and_check_license\<close> has read the
  download page: built on the example system, with the two scraped URLs.\<close>

definition scraped_example :: arduino where
  "scraped_example =
     (projr (Arduino_init example_externals example_os ''/opt/arduino''))
       \<lparr>scraped_checksum_url := Some ''http://d/sums.txt'',
        scraped_download_url := Some ''http://d/arduino-1.6.3-linux64.tar.xz''\<rparr>"

text \<open>The example system when \<open>bob\<close> (uid 1001), a member of \<open>dialout\<close>, runs the tool
  through \<open>sudo\<close>, and the installer built there after it has read the download page.\<close>

definition sudo_os :: os_env where
  "sudo_os = example_os\<lparr>geteuid := 0, getenv := map_of [(''USER'', ''root''), (''SUDO_UID'', ''1001'')]\<rparr>"

definition member_example :: arduino where
  "member_example =
     (projr (Arduino_init example_externals sudo_os ''/opt/arduino''))
       \<lparr>scraped_checksum_url := Some ''http://d/sums.txt'',
        scraped_download_url := Some ''http://d/arduino-1.6.3-linux64.tar.xz''\<rparr>"

text \<open>The NetBeans download page of the example, with the line that names version
  8.0.2, and the URL of that version's file list.\<close>

definition example_version_page :: bytes where
  "example_version_page =
     ''var PAGE_ARTIFACTS_LOCATION = '' @ [CHR 0x22] @ ''/images_www/v6/download/8.0.2/'' @
     [CHR 0x22] @ '';''"

definition example_files_url :: string where
  "example_files_url = ''https://netbeans.org/images_www/v6/download/8.0.2/js/files.js''"

text \<open>A fetch that failed, the results in which every page of the examples failed,
  and the NetBeans installer of the example once it has settled on version 8.0.2.\<close>

definition failed :: download_result where
  "failed = \<lparr>buffer = None, error = Some ''Connection timed out'', final_url = [], cookies = []\<rparr>"

definition failed_results :: results where
  "failed_results =
     [(PyCharm_download_page_url, failed),
      (DOWNLOAD_URL_PAT ''-x86_64'' ''.md5'', failed),
      (''http://www.arduino.cc/en/Main/Software'', failed),
      (''http://d/arduino-1.6.3-linux64.tar.xz'', failed),
      (''http://d/sums.txt'', failed),
      (''https://netbeans.org/downloads/zip.html'', failed),
      (example_files_url, failed)]"

definition netbeans_example :: netbeans where
  "netbeans_example =
     (BaseNetBeans_init [] ''/opt/netbeans'')
       \<lparr>version := Some ''8.0.2'', version_download_page := Some example_files_url\<rparr>"



text \<open>
  The example system with \<open>alice\<close> a member of \<open>dialout\<close>, who runs the tool without
  \<open>sudo\<close> (effective uid 1000, \<open>USER\<close> is \<open>alice\<close>, no \<open>SUDO_UID\<close>); and the installer
  built there after it has read the download page.
\<close>

definition member_without_sudo_os :: os_env where
  "member_without_sudo_os =
     example_os\<lparr>getgrall :=
       [(''root'', []), (''dialout'', [''alice'', ''bob'']), (''alice'', []), (''bob'', [])]\<rparr>"

definition member_without_sudo_example :: arduino where
  "member_without_sudo_example =
     (projr (Arduino_init example_externals member_without_sudo_os ''/opt/arduino''))
       \<lparr>scraped_checksum_url := Some ''http://d/sums.txt'',
        scraped_download_url := Some ''http://d/arduino-1.6.3-linux64.tar.xz''\<rparr>"

text \<open>
  A NetBeans download page whose line names no version after the download path, and
  the file list of version 8.0.2 with the \<open>add_file\<close> line of the plain archive.
\<close>

definition example_blank_version_page :: bytes where
  "example_blank_version_page =
     ''var PAGE_ARTIFACTS_LOCATION = '' @ [CHR 0x22] @ ''/images_www/v6/download//'' @
     [CHR 0x22] @ '';''"

definition example_add_file_line :: string where
  "example_add_file_line =
     ''add_file('' @ [CHR 0x22] @ ''zip/netbeans-8.0.2-201411181905.zip'' @ [CHR 0x22] @
     '', 215549473, '' @ [CHR 0x22] @ ''abc123'' @ [CHR 0x22] @ '', '' @
     [CHR 0x22] @ ''en'' @ [CHR 0x22] @ '');''"

definition example_files_page :: bytes where
  "example_files_page = ''// files'' @ [CHR 0x0A] @ example_add_file_line"

section \<open>The libraries of the examples on their pages\<close>

lemma example_decode_utf8: "decode_utf8 example_externals = decode_ascii"
  by (simp add: example_externals_def)

lemma example_urljoin: "urljoin example_externals base u = u"
  by (simp add: example_externals_def)

lemma example_py_int: "py_int example_externals = decimal"
  by (simp add: example_externals_def)

lemma decimal_1001: "decimal ''1001'' = Some 1001"
  by code_simp

lemma example_soup_one_anchor:
  "BeautifulSoup example_externals ''<a href=https://x/archive.tar.gz>HTTPS</a>'' =
     [Tag ''a'' [(''href'', ''https://x/archive.tar.gz'')] [NavigableString ''HTTPS'']]"
  by (simp add: example_externals_def example_pages_def)

lemma example_soup_two_anchors:
  "BeautifulSoup example_externals
     ''<a href=https://x/one.tar.gz>HTTPS</a><a href=https://x/two.tar.gz>HTTPS</a>'' =
     [Tag ''a'' [(''href'', ''https://x/one.tar.gz'')] [NavigableString ''HTTPS''],
      Tag ''a'' [(''href'', ''https://x/two.tar.gz'')] [NavigableString ''HTTPS'']]"
  by (simp add: example_externals_def example_pages_def)

lemma example_soup_moved:
  "BeautifulSoup example_externals ''<p>moved</p>'' = [Tag ''p'' [] [NavigableString ''moved'']]"
  by (simp add: example_externals_def example_pages_def)

lemma example_soup_arduino:
  "BeautifulSoup example_externals
     ''<a href=//d/arduino-1.6.3-linux64.tar.xz>Linux</a><a href=//d/sums.txt>Checksums</a>'' =
     [Tag ''a'' [(''href'', ''//d/arduino-1.6.3-linux64.tar.xz'')] [NavigableString ''Linux''],
      Tag ''a'' [(''href'', ''//d/sums.txt'')] [NavigableString ''Checksums'']]"
  by (simp add: example_externals_def example_pages_def)

lemma example_soup_button:
  "BeautifulSoup example_externals
     ''<a href=http://d/get/arduino.tar.xz><button>JUST DOWNLOAD</button></a>'' =
     [Tag ''a'' [(''href'', ''http://d/get/arduino.tar.xz'')]
        [Tag ''button'' [] [NavigableString ''JUST DOWNLOAD'']]]"
  by (simp add: example_externals_def example_pages_def)

lemma decode_ascii_checksum_body:
  "decode_ascii ''deadbeef  archive.tar.gz'' = Some ''deadbeef  archive.tar.gz''"
  by (simp add: decode_ascii_def)

lemma split_checksum_body:
  "split ''deadbeef  archive.tar.gz'' = [''deadbeef'', ''archive.tar.gz'']"
  by (simp add: split_def isspace_def)

lemma compile_add_file_example:
  "compile_add_file ext ''8.0.2'' [] = Some (match_pats (add_file_pat ''8.0.2'' []))"
  by (simp add: compile_add_file_def plain_def special_char_def)

section \<open>Properties of \<open>split\<close>\<close>

lemma split_acc_nonempty:
  "cur \<noteq> [] \<Longrightarrow> \<exists>rest. split_acc cur s = (cur @ takeWhile (\<lambda>c. \<not> isspace c) s) # rest"
proof (induction s arbitrary: cur)
  case Nil
  then show ?case by simp
next
  case (Cons a s)
  show ?case
  proof (cases "isspace a")
    case True
    with Cons.prems show ?thesis by simp
  next
    case False
    with Cons.IH [of "cur @ [a]"] show ?thesis by simp
  qed
qed

lemma split_acc_empty:
  "split_acc [] s = (case dropWhile isspace s of [] \<Rightarrow> [] | c # cs \<Rightarrow> split_acc [c] cs)"
  by (induction s) auto

lemma split_Cons_first_token: "split s = t # ts \<Longrightarrow> first_token s = Some t"
proof -
  assume a: "split s = t # ts"
  show ?thesis
  proof (cases "dropWhile isspace s")
    case Nil
    with a show ?thesis by (simp add: split_def split_acc_empty)
  next
    case (Cons c cs)
    then have "\<not> isspace c" by (metis dropWhile_eq_Cons_conv)
    from split_acc_nonempty [of "[c]" cs] obtain rest where
      "split_acc [c] cs = ([c] @ takeWhile (\<lambda>c. \<not> isspace c) cs) # rest" by blast
    with a Cons \<open>\<not> isspace c\<close> show ?thesis
      by (simp add: split_def split_acc_empty first_token_def)
  qed
qed

lemma split_Nil_first_token: "split s = [] \<Longrightarrow> first_token s = None"
proof -
  assume a: "split s = []"
  show ?thesis
  proof (cases "dropWhile isspace s")
    case Nil
    then show ?thesis by (simp only: first_token_def list.case)
  next
    case (Cons c cs)
    from split_acc_nonempty [of "[c]" cs] obtain rest where
      "split_acc [c] cs = ([c] @ takeWhile (\<lambda>c. \<not> isspace c) cs) # rest" by blast
    with a Cons show ?thesis
      by (simp add: split_def split_acc_empty)
  qed
qed

lemma first_token_split:
  "first_token s = (case split s of [] \<Rightarrow> None | t # ts \<Rightarrow> Some t)"
  by (cases "split s") (simp_all add: split_Nil_first_token split_Cons_first_token)

section \<open>The nested checksum fetch\<close>

lemma checksum_downloaded_Start_split:
  assumes "checksum_downloaded ext self url results = StartDownloadAndInstall ev' self'"
  shows "\<exists>key r rest body text digest ts.
           results = (key, r) # rest \<and> \<not> truthy (error r) \<and>
           buffer r = Some body \<and> decode_utf8 ext body = Some text \<and>
           split text = digest # ts \<and>
           self' = self\<lparr>download_requests := download_requests self @
             [\<lparr>item_url = url, item_checksum = Some (Checksum sha256 digest),
               item_ignore_encoding = True, item_cookies = None\<rparr>]\<rparr>"
  using assms
  by (auto simp: checksum_downloaded_def DownloadItem_def
           split: list.splits if_splits option.splits)

lemma checksum_downloaded_Start:
  assumes "checksum_downloaded ext self url results = StartDownloadAndInstall ev' self'"
  shows "\<exists>body text digest.
           results \<noteq> [] \<and> \<not> truthy (error (snd (hd results))) \<and>
           buffer (snd (hd results)) = Some body \<and> decode_utf8 ext body = Some text \<and>
           first_token text = Some digest \<and>
           download_requests self' = download_requests self @
             [\<lparr>item_url = url, item_checksum = Some (Checksum sha256 digest),
               item_ignore_encoding = True, item_cookies = None\<rparr>]"
proof -
  from checksum_downloaded_Start_split [OF assms] obtain key r rest body decoded digest ts where
    h: "results = (key, r) # rest" "\<not> truthy (error r)" "buffer r = Some body"
       "decode_utf8 ext body = Some decoded" "split decoded = digest # ts"
       "self' = self\<lparr>download_requests := download_requests self @
             [\<lparr>item_url = url, item_checksum = Some (Checksum sha256 digest),
               item_ignore_encoding = True, item_cookies = None\<rparr>]\<rparr>"
    by blast
  from h(5) have "first_token decoded = Some digest" by (rule split_Cons_first_token)
  with h show ?thesis by simp
qed

lemma jetbrains_DownloadCenter:
  assumes "jetbrains_get_metadata_and_check_license ext self result = DownloadCenter ev items dl k"
  shows "\<exists>url. k = checksum_downloaded ext self url \<and>
           items = [DownloadItem (url @ ''.sha256'') None] \<and> dl = False"
  using assms
  by (auto simp: jetbrains_get_metadata_and_check_license_def Let_def
           split: option.splits if_splits prod.splits)

lemma jetbrains_not_Start:
  "jetbrains_get_metadata_and_check_license ext self result \<noteq> StartDownloadAndInstall ev s"
  by (auto simp: jetbrains_get_metadata_and_check_license_def Let_def
           split: option.splits if_splits prod.splits)

lemma done_cb_Start_split:
  assumes "done_cb ext self arch md5_url results = StartDownloadAndInstall ev' self'"
  shows "\<exists>r body text digest ts url.
           map_of results md5_url = Some r \<and> \<not> truthy (error r) \<and>
           buffer r = Some body \<and> decode_utf8 ext body = Some text \<and>
           split text = digest # ts \<and>
           self' = self\<lparr>download_requests := download_requests self @
             [DownloadItem url (Some (Checksum md5 digest))]\<rparr>"
  using assms
  by (auto simp: done_cb_def Let_def split: list.splits if_splits option.splits)

lemma done_cb_Start:
  assumes "done_cb ext self arch md5_url results = StartDownloadAndInstall ev' self'"
  shows "\<exists>r body text digest url.
           map_of results md5_url = Some r \<and> \<not> truthy (error r) \<and>
           buffer r = Some body \<and> decode_utf8 ext body = Some text \<and>
           first_token text = Some digest \<and>
           download_requests self' = download_requests self @
             [DownloadItem url (Some (Checksum md5 digest))]"
proof -
  from done_cb_Start_split [OF assms] obtain r body decoded digest ts url where
    h: "map_of results md5_url = Some r" "\<not> truthy (error r)" "buffer r = Some body"
       "decode_utf8 ext body = Some decoded" "split decoded = digest # ts"
       "self' = self\<lparr>download_requests := download_requests self @
             [DownloadItem url (Some (Checksum md5 digest))]\<rparr>"
    by blast
  from h(5) have "first_token decoded = Some digest" by (rule split_Cons_first_token)
  with h show ?thesis by auto
qed

lemma eclipse_DownloadCenter:
  assumes "download_provider_page ext arch self = DownloadCenter ev items dl k"
  shows "\<exists>md5_url. k = done_cb ext self arch md5_url \<and>
           items = [DownloadItem md5_url None] \<and> dl = False"
  using assms
  by (auto simp: download_provider_page_def Let_def split: if_splits)

lemma eclipse_not_Start:
  "download_provider_page ext arch self \<noteq> StartDownloadAndInstall ev s"
  by (auto simp: download_provider_page_def Let_def split: if_splits)

text \<open>
  C1. The two resolvers with a nested checksum fetch, \<open>BaseJetBrains\<close> and \<open>Eclipse\<close>:
  the callback that reads the page never starts the archive download itself; it hands
  exactly the checksum URL to a \<open>DownloadCenter\<close>, and only the callback that receives
  the results of that fetch appends the archive's \<open>DownloadItem\<close> and starts the
  download. Whenever it does, the digest of the item is the first whitespace-delimited
  token of the decoded body of the checksum result.
\<close>

theorem nested_checksum_fetch_precedes_archive:
  "(\<forall>ev s. jetbrains_get_metadata_and_check_license ext jb result \<noteq> StartDownloadAndInstall ev s) \<and>
   (\<forall>ev items dl k results ev' jb'.
      jetbrains_get_metadata_and_check_license ext jb result = DownloadCenter ev items dl k \<longrightarrow>
      k results = StartDownloadAndInstall ev' jb' \<longrightarrow>
      (\<exists>url body text digest.
         items = [DownloadItem (url @ ''.sha256'') None] \<and> dl = False \<and>
         results \<noteq> [] \<and> buffer (snd (hd results)) = Some body \<and>
         decode_utf8 ext body = Some text \<and> first_token text = Some digest \<and>
         download_requests jb' = download_requests jb @
           [\<lparr>item_url = url, item_checksum = Some (Checksum sha256 digest),
             item_ignore_encoding = True, item_cookies = None\<rparr>])) \<and>
   (\<forall>ev s. download_provider_page ext arch ecl \<noteq> StartDownloadAndInstall ev s) \<and>
   (\<forall>ev items dl k results ev' ecl'.
      download_provider_page ext arch ecl = DownloadCenter ev items dl k \<longrightarrow>
      k results = StartDownloadAndInstall ev' ecl' \<longrightarrow>
      (\<exists>md5_url r url body text digest.
         items = [DownloadItem md5_url None] \<and> dl = False \<and>
         map_of results md5_url = Some r \<and> buffer r = Some body \<and>
         decode_utf8 ext body = Some text \<and> first_token text = Some digest \<and>
         download_requests ecl' = download_requests ecl @
           [DownloadItem url (Some (Checksum md5 digest))]))"
proof (intro conjI allI impI)
  fix ev s
  show "jetbrains_get_metadata_and_check_license ext jb result \<noteq> StartDownloadAndInstall ev s"
    by (rule jetbrains_not_Start)
next
  fix ev s
  show "download_provider_page ext arch ecl \<noteq> StartDownloadAndInstall ev s"
    by (rule eclipse_not_Start)
next
  fix ev items dl k results ev' jb'
  assume a: "jetbrains_get_metadata_and_check_license ext jb result = DownloadCenter ev items dl k"
    and b: "k results = StartDownloadAndInstall ev' jb'"
  from jetbrains_DownloadCenter [OF a] obtain url where
    k: "k = checksum_downloaded ext jb url" and
    i: "items = [DownloadItem (url @ ''.sha256'') None]" "dl = False" by blast
  from checksum_downloaded_Start [OF b [unfolded k]] i
  show "\<exists>url body text digest.
         items = [DownloadItem (url @ ''.sha256'') None] \<and> dl = False \<and>
         results \<noteq> [] \<and> buffer (snd (hd results)) = Some body \<and>
         decode_utf8 ext body = Some text \<and> first_token text = Some digest \<and>
         download_requests jb' = download_requests jb @
           [\<lparr>item_url = url, item_checksum = Some (Checksum sha256 digest),
             item_ignore_encoding = True, item_cookies = None\<rparr>]"
    by blast
next
  fix ev items dl k results ev' ecl'
  assume a: "download_provider_page ext arch ecl = DownloadCenter ev items dl k"
    and b: "k results = StartDownloadAndInstall ev' ecl'"
  from eclipse_DownloadCenter [OF a] obtain md5_url where
    k: "k = done_cb ext ecl arch md5_url" and
    i: "items = [DownloadItem md5_url None]" "dl = False" by blast
  from done_cb_Start [OF b [unfolded k]] i
  show "\<exists>md5_url r url body text digest.
         items = [DownloadItem md5_url None] \<and> dl = False \<and>
         map_of results md5_url = Some r \<and> buffer r = Some body \<and>
         decode_utf8 ext body = Some text \<and> first_token text = Some digest \<and>
         download_requests ecl' = download_requests ecl @
           [DownloadItem url (Some (Checksum md5 digest))]"
    by blast
qed

lemma PyCharm_init_fields:
  "download_page (PyCharm_init p) = Some PyCharm_download_page_url"
  "download_requests (PyCharm_init p) = []"
  by (simp_all add: PyCharm_init_def)

lemma Eclipse_init_fields: "download_requests (Eclipse_init p) = []"
  by (simp add: Eclipse_init_def)

text \<open>The theorem at the spec's scenario B: the page with one anchor labelled HTTPS and
  the checksum body \<open>deadbeef  archive.tar.gz\<close>, and Eclipse on a 64-bit machine.\<close>

theorem nested_checksum_fetch_precedes_archive_witness:
  "(\<exists>ev items dl k ev' jb'.
      jetbrains_get_metadata_and_check_license example_externals (PyCharm_init ''/opt/pycharm'')
        [(PyCharm_download_page_url, fetched ''<a href=https://x/archive.tar.gz>HTTPS</a>'')]
        = DownloadCenter ev items dl k \<and>
      k [(''https://x/archive.tar.gz.sha256'', fetched ''deadbeef  archive.tar.gz'')]
        = StartDownloadAndInstall ev' jb' \<and>
      items = [DownloadItem ''https://x/archive.tar.gz.sha256'' None] \<and>
      download_requests jb' =
        [\<lparr>item_url = ''https://x/archive.tar.gz'',
          item_checksum = Some (Checksum sha256 ''deadbeef''),
          item_ignore_encoding = True, item_cookies = None\<rparr>]) \<and>
   (\<exists>ev items dl k ev' ecl'.
      download_provider_page example_externals ''x86_64'' (Eclipse_init ''/opt/eclipse'')
        = DownloadCenter ev items dl k \<and>
      k [(DOWNLOAD_URL_PAT ''-x86_64'' ''.md5'', fetched ''deadbeef  archive.tar.gz'')]
        = StartDownloadAndInstall ev' ecl' \<and>
      items = [DownloadItem (DOWNLOAD_URL_PAT ''-x86_64'' ''.md5'') None] \<and>
      download_requests ecl' =
        [DownloadItem (DOWNLOAD_URL_PAT ''-x86_64'' []) (Some (Checksum md5 ''deadbeef''))])"
proof -
  let ?jb = "PyCharm_init ''/opt/pycharm''"
  let ?page = "[(PyCharm_download_page_url, fetched ''<a href=https://x/archive.tar.gz>HTTPS</a>'')]"
  let ?sums = "[(''https://x/archive.tar.gz.sha256'', fetched ''deadbeef  archive.tar.gz'')]"
  let ?ecl = "Eclipse_init ''/opt/eclipse''"
  let ?md5s = "[(DOWNLOAD_URL_PAT ''-x86_64'' ''.md5'', fetched ''deadbeef  archive.tar.gz'')]"
  let ?k = "checksum_downloaded example_externals ?jb ''https://x/archive.tar.gz''"
  let ?k2 = "done_cb example_externals ?ecl ''x86_64'' (DOWNLOAD_URL_PAT ''-x86_64'' ''.md5'')"
  note inst = nested_checksum_fetch_precedes_archive
               [of example_externals ?jb ?page "''x86_64''" ?ecl]
  have tok: "first_token ''deadbeef  archive.tar.gz'' = Some ''deadbeef''"
    by (simp add: first_token_def isspace_def)
  have a: "jetbrains_get_metadata_and_check_license example_externals ?jb ?page
          = DownloadCenter
              [Log DEBUG ''Fetched download page, parsing.'' [],
               Log DEBUG ''Found download URL: https://x/archive.tar.gz'' [],
               Log DEBUG ''Downloading checksum first, from https://x/archive.tar.gz.sha256'' []]
              [DownloadItem ''https://x/archive.tar.gz.sha256'' None] False ?k"
    by (simp add: jetbrains_get_metadata_and_check_license_def lookup_def PyCharm_init_fields fetched_def
          example_soup_one_anchor soup_find_def soup_find_all_def
          soup_descendants_def text_is_def Let_def)
  have b: "?k ?sums = StartDownloadAndInstall
             [Log INFO ''Obtained SHA256 checksum: deadbeef'' []]
             (?jb\<lparr>download_requests := download_requests ?jb @
                [(DownloadItem ''https://x/archive.tar.gz'' (Some (Checksum sha256 ''deadbeef'')))
                   \<lparr>item_ignore_encoding := True\<rparr>]\<rparr>)"
    by (simp add: checksum_downloaded_def fetched_def example_decode_utf8
          decode_ascii_checksum_body split_checksum_body)
  from inst a b
  have "\<exists>url body decoded digest.
         [DownloadItem ''https://x/archive.tar.gz.sha256'' None]
           = [DownloadItem (url @ ''.sha256'') None] \<and> False = False \<and>
         ?sums \<noteq> [] \<and> buffer (snd (hd ?sums)) = Some body \<and>
         decode_utf8 example_externals body = Some decoded \<and>
         first_token decoded = Some digest \<and>
         download_requests (?jb\<lparr>download_requests := download_requests ?jb @
                [(DownloadItem ''https://x/archive.tar.gz'' (Some (Checksum sha256 ''deadbeef'')))
                   \<lparr>item_ignore_encoding := True\<rparr>]\<rparr>) = download_requests ?jb @
           [\<lparr>item_url = url, item_checksum = Some (Checksum sha256 digest),
             item_ignore_encoding = True, item_cookies = None\<rparr>]"
    by blast
  then have jb: "download_requests (?jb\<lparr>download_requests := download_requests ?jb @
                [(DownloadItem ''https://x/archive.tar.gz'' (Some (Checksum sha256 ''deadbeef'')))
                   \<lparr>item_ignore_encoding := True\<rparr>]\<rparr>) =
        [\<lparr>item_url = ''https://x/archive.tar.gz'',
          item_checksum = Some (Checksum sha256 ''deadbeef''),
          item_ignore_encoding = True, item_cookies = None\<rparr>]"
    by (simp add: PyCharm_init_fields DownloadItem_def)
  have c: "download_provider_page example_externals ''x86_64'' ?ecl
          = DownloadCenter [Log DEBUG ''Preparing to download MD5.'' []]
              [DownloadItem (DOWNLOAD_URL_PAT ''-x86_64'' ''.md5'') None] False ?k2"
    by (simp add: download_provider_page_def)
  have d: "?k2 ?md5s = StartDownloadAndInstall
             [Log DEBUG ''Downloaded MD5 is {}'' [Str ''deadbeef''],
              Log DEBUG ''Preparing to download the main archive.'' []]
             (?ecl\<lparr>download_requests := download_requests ?ecl @
                [DownloadItem (DOWNLOAD_URL_PAT ''-x86_64'' []) (Some (Checksum md5 ''deadbeef''))]\<rparr>)"
    by (simp add: done_cb_def fetched_def example_decode_utf8
          decode_ascii_checksum_body split_checksum_body)
  from inst c d
  have "\<exists>md5_url r url body decoded digest.
         [DownloadItem (DOWNLOAD_URL_PAT ''-x86_64'' ''.md5'') None]
           = [DownloadItem md5_url None] \<and> False = False \<and>
         map_of ?md5s md5_url = Some r \<and> buffer r = Some body \<and>
         decode_utf8 example_externals body = Some decoded \<and>
         first_token decoded = Some digest \<and>
         download_requests (?ecl\<lparr>download_requests := download_requests ?ecl @
                [DownloadItem (DOWNLOAD_URL_PAT ''-x86_64'' []) (Some (Checksum md5 ''deadbeef''))]\<rparr>)
           = download_requests ?ecl @ [DownloadItem url (Some (Checksum md5 digest))]"
    by blast
  then have ecl: "download_requests (?ecl\<lparr>download_requests := download_requests ?ecl @
                [DownloadItem (DOWNLOAD_URL_PAT ''-x86_64'' []) (Some (Checksum md5 ''deadbeef''))]\<rparr>)
         = [DownloadItem (DOWNLOAD_URL_PAT ''-x86_64'' []) (Some (Checksum md5 ''deadbeef''))]"
    by (simp add: Eclipse_init_fields)
  from a b jb c d ecl show ?thesis by blast
qed

section \<open>The Arduino installer's user and group\<close>

lemma group_names_of_user:
  "list_ex (\<lambda>group_name. group_name = grp) (map fst (filter (\<lambda>g. user \<in> set (snd g)) gs))
     = list_ex (\<lambda>g. fst g = grp \<and> user \<in> set (snd g)) gs"
  by (induction gs) auto

lemma Arduino_init_Inr:
  assumes "Arduino_init ext os path = Inr self"
  shows "\<exists>uid. sudo_uid ext os = Some uid \<and> getpwuid os uid = Some (current_user self)"
    and "was_in_arduino_group self = in_group os (current_user self) ARDUINO_GROUP"
    and "need_root_access self = (\<not> was_in_arduino_group self)"
    and "bits self = (if machine os = ''i686'' then ''32'' else ''64'')"
    and "scraped_download_url self = None" and "scraped_checksum_url self = None"
    and "download_requests self = []"
proof -
  from assms obtain uid pw_name where u: "sudo_uid ext os = Some uid"
    and p: "getpwuid os uid = Some pw_name"
    by (auto simp: Arduino_init_def sudo_uid_def Let_def split: option.splits)
  with assms have
    "current_user self = pw_name"
    "was_in_arduino_group self = in_group os pw_name ARDUINO_GROUP"
    "need_root_access self = (\<not> in_group os pw_name ARDUINO_GROUP)"
    "bits self = (if machine os = ''i686'' then ''32'' else ''64'')"
    "scraped_download_url self = None" "scraped_checksum_url self = None"
    "download_requests self = []"
    by (auto simp: Arduino_init_def sudo_uid_def in_group_def Let_def group_names_of_user)
  with u p show
    "\<exists>uid. sudo_uid ext os = Some uid \<and> getpwuid os uid = Some (current_user self)"
    "was_in_arduino_group self = in_group os (current_user self) ARDUINO_GROUP"
    "need_root_access self = (\<not> was_in_arduino_group self)"
    "bits self = (if machine os = ''i686'' then ''32'' else ''64'')"
    "scraped_download_url self = None" "scraped_checksum_url self = None"
    "download_requests self = []"
    by simp_all
qed

lemma Arduino_init_ignores_euid_and_USER:
  "Arduino_init ext (os\<lparr>geteuid := e, getenv := (getenv os)(''USER'' := u)\<rparr>) path
     = Arduino_init ext os path"
  by (simp add: Arduino_init_def Let_def split: option.splits)


lemma Arduino_init_Some:
  assumes "sudo_uid ext os = Some uid" and "getpwuid os uid = Some n"
  shows "\<exists>self. Arduino_init ext os path = Inr self \<and> current_user self = n \<and>
           was_in_arduino_group self = in_group os n ARDUINO_GROUP"
  using assms
  by (simp add: Arduino_init_def sudo_uid_def in_group_def Let_def group_names_of_user)

lemma Arduino_init_ValueError:
  assumes "sudo_uid ext os = None"
  shows "Arduino_init ext os path = Inl ValueError"
  using assms by (simp add: Arduino_init_def sudo_uid_def Let_def)

lemma Arduino_init_KeyError:
  assumes "sudo_uid ext os = Some uid" and "getpwuid os uid = None"
  shows "Arduino_init ext os path = Inl KeyError"
  using assms by (simp add: Arduino_init_def sudo_uid_def Let_def)

text \<open>
  C9. \<open>Arduino.__init__\<close> looks up the uid read from \<open>SUDO_UID\<close> (uid 0 when the
  variable is unset) in the password database.
  \<^item> When the variable is unset or reads as a number, and that uid has an account, the
    installer is built: \<open>_current_user\<close> is that account's name, and it is this user
    whose membership of \<open>dialout\<close> is recorded.
  \<^item> When the variable does not read as a number the constructor ends in a ValueError,
    and when the uid has no account in a KeyError.
  \<^item> So whenever the constructor completes, \<open>_current_user\<close> is the account of that
    uid.
  \<^item> The effective uid and the variable \<open>USER\<close> have no influence on the result: the
    first assignment is always overwritten.
\<close>

theorem current_user_is_sudo_uid_account:
  "(\<forall>uid n.
      (case getenv os ''SUDO_UID'' of None \<Rightarrow> Some 0 | Some s \<Rightarrow> py_int ext s) = Some uid \<and>
      getpwuid os uid = Some n \<longrightarrow>
      (\<exists>self. Arduino_init ext os path = Inr self \<and> current_user self = n \<and>
              was_in_arduino_group self = in_group os n ''dialout'')) \<and>
   ((case getenv os ''SUDO_UID'' of None \<Rightarrow> Some 0 | Some s \<Rightarrow> py_int ext s) = None \<longrightarrow>
      Arduino_init ext os path = Inl ValueError) \<and>
   (\<forall>uid.
      (case getenv os ''SUDO_UID'' of None \<Rightarrow> Some 0 | Some s \<Rightarrow> py_int ext s) = Some uid \<and>
      getpwuid os uid = None \<longrightarrow>
      Arduino_init ext os path = Inl KeyError) \<and>
   (\<forall>self. Arduino_init ext os path = Inr self \<longrightarrow>
      (\<exists>uid. (case getenv os ''SUDO_UID'' of None \<Rightarrow> Some 0 | Some s \<Rightarrow> py_int ext s) = Some uid \<and>
             getpwuid os uid = Some (current_user self)) \<and>
      was_in_arduino_group self = in_group os (current_user self) ''dialout'') \<and>
   (\<forall>e u. Arduino_init ext (os\<lparr>geteuid := e, getenv := (getenv os)(''USER'' := u)\<rparr>) path
            = Arduino_init ext os path)"
proof -
  have a: "\<forall>uid n.
      (case getenv os ''SUDO_UID'' of None \<Rightarrow> Some 0 | Some s \<Rightarrow> py_int ext s) = Some uid \<and>
      getpwuid os uid = Some n \<longrightarrow>
      (\<exists>self. Arduino_init ext os path = Inr self \<and> current_user self = n \<and>
              was_in_arduino_group self = in_group os n ''dialout'')"
    using Arduino_init_Some [of ext os _ _ path] by (simp add: sudo_uid_def ARDUINO_GROUP_def)
  have b: "(case getenv os ''SUDO_UID'' of None \<Rightarrow> Some 0 | Some s \<Rightarrow> py_int ext s) = None \<longrightarrow>
      Arduino_init ext os path = Inl ValueError"
    using Arduino_init_ValueError [of ext os path] by (simp add: sudo_uid_def)
  have c: "\<forall>uid.
      (case getenv os ''SUDO_UID'' of None \<Rightarrow> Some 0 | Some s \<Rightarrow> py_int ext s) = Some uid \<and>
      getpwuid os uid = None \<longrightarrow>
      Arduino_init ext os path = Inl KeyError"
    using Arduino_init_KeyError [of ext os _ path] by (simp add: sudo_uid_def)
  have d: "\<forall>self. Arduino_init ext os path = Inr self \<longrightarrow>
      (\<exists>uid. (case getenv os ''SUDO_UID'' of None \<Rightarrow> Some 0 | Some s \<Rightarrow> py_int ext s) = Some uid \<and>
             getpwuid os uid = Some (current_user self)) \<and>
      was_in_arduino_group self = in_group os (current_user self) ''dialout''"
    using Arduino_init_Inr(1,2) [of ext os path] by (simp add: sudo_uid_def ARDUINO_GROUP_def)
  have e: "\<forall>e u. Arduino_init ext (os\<lparr>geteuid := e, getenv := (getenv os)(''USER'' := u)\<rparr>) path
            = Arduino_init ext os path"
    by (simp add: Arduino_init_ignores_euid_and_USER)
  from a b c d e show ?thesis by blast
qed

lemma Arduino_init_example:
  "Arduino_init example_externals example_os p =
     Inr \<lparr>name = ''Arduino'',
          description = ''The Arduino Software Distribution'',
          only_on_archs = [''i386'', ''amd64''],
          download_page = Some ''http://www.arduino.cc/en/Main/Software'',
          desktop_filename = ''arduino.desktop'',
          packages_requirements = [''openjdk-7-jdk'', ''jayatana'', ''gcc-avr'', ''avr-libc''],
          need_root_access = True,
          icon_filename = None,
          download_requests = [],
          install_path = p,
          version = None,
          current_user = ''root'',
          was_in_arduino_group = False,
          scraped_checksum_url = None,
          scraped_download_url = None,
          bits = ''64''\<rparr>"
  by (simp add: Arduino_init_def example_os_def ARDUINO_GROUP_def Let_def)

lemma decimal_not_a_number: "decimal ''me'' = None" "decimal ''7'' = Some 7"
  by code_simp+

text \<open>
  Four systems. \<open>bob\<close> (uid 1001, a member of \<open>dialout\<close>) runs the tool through
  \<open>sudo\<close>: effective uid 0, \<open>USER\<close> is \<open>root\<close>, and the user considered is \<open>bob\<close>.
  \<open>alice\<close> (uid 1000) runs it without \<open>sudo\<close>: effective uid 1000, \<open>USER\<close> is
  \<open>alice\<close>, and the user considered is \<open>root\<close>. With \<open>SUDO_UID\<close> set to \<open>me\<close> the
  constructor ends in a ValueError, and with \<open>SUDO_UID\<close> set to 7, a uid without an
  account, in a KeyError.
\<close>

theorem current_user_is_sudo_uid_account_witness:
  "getenv sudo_os ''SUDO_UID'' = Some ''1001'' \<and> py_int example_externals ''1001'' = Some 1001 \<and>
   getpwuid sudo_os 1001 = Some ''bob'' \<and>
   geteuid sudo_os = 0 \<and> getenv sudo_os ''USER'' = Some ''root'' \<and>
   \<not> isl (Arduino_init example_externals sudo_os ''/opt/arduino'') \<and>
   current_user (projr (Arduino_init example_externals sudo_os ''/opt/arduino'')) = ''bob'' \<and>
   was_in_arduino_group (projr (Arduino_init example_externals sudo_os ''/opt/arduino'')) \<and>
   in_group sudo_os ''bob'' ''dialout'' \<and>
   getenv example_os ''SUDO_UID'' = None \<and> getpwuid example_os 0 = Some ''root'' \<and>
   geteuid example_os = 1000 \<and> getenv example_os ''USER'' = Some ''alice'' \<and>
   \<not> isl (Arduino_init example_externals example_os ''/opt/arduino'') \<and>
   current_user (projr (Arduino_init example_externals example_os ''/opt/arduino'')) = ''root'' \<and>
   \<not> was_in_arduino_group (projr (Arduino_init example_externals example_os ''/opt/arduino'')) \<and>
   \<not> in_group example_os ''root'' ''dialout'' \<and>
   Arduino_init example_externals
     (example_os\<lparr>getenv := map_of [(''SUDO_UID'', ''me'')]\<rparr>) ''/opt/arduino'' = Inl ValueError \<and>
   Arduino_init example_externals
     (example_os\<lparr>getenv := map_of [(''SUDO_UID'', ''7'')]\<rparr>) ''/opt/arduino'' = Inl KeyError"
proof -
  let ?p = "''/opt/arduino''"
  note bob = current_user_is_sudo_uid_account [where os = sudo_os and ext = example_externals and path = ?p]
  note alice = current_user_is_sudo_uid_account [where os = example_os and ext = example_externals and path = ?p]
  note me = current_user_is_sudo_uid_account
    [where os = "example_os\<lparr>getenv := map_of [(''SUDO_UID'', ''me'')]\<rparr>"
       and ext = example_externals and path = ?p]
  note seven = current_user_is_sudo_uid_account
    [where os = "example_os\<lparr>getenv := map_of [(''SUDO_UID'', ''7'')]\<rparr>"
       and ext = example_externals and path = ?p]
  have env1: "getenv sudo_os ''SUDO_UID'' = Some ''1001''"
    "py_int example_externals ''1001'' = Some 1001" "getpwuid sudo_os 1001 = Some ''bob''"
    "geteuid sudo_os = 0" "getenv sudo_os ''USER'' = Some ''root''"
    "in_group sudo_os ''bob'' ''dialout''"
    by (simp_all add: sudo_os_def example_os_def example_py_int decimal_1001 in_group_def)
  have env2: "getenv example_os ''SUDO_UID'' = None" "getpwuid example_os 0 = Some ''root''"
    "geteuid example_os = 1000" "getenv example_os ''USER'' = Some ''alice''"
    "\<not> in_group example_os ''root'' ''dialout''"
    by (simp_all add: example_os_def in_group_def)
  have "\<exists>self. Arduino_init example_externals sudo_os ?p = Inr self \<and>
           current_user self = ''bob'' \<and>
           was_in_arduino_group self = in_group sudo_os ''bob'' ''dialout''"
    using bob [THEN conjunct1, rule_format, of 1001 "''bob''"] env1(1,2,3) by simp
  then obtain b where
    b: "Arduino_init example_externals sudo_os ?p = Inr b" "current_user b = ''bob''"
       "was_in_arduino_group b = in_group sudo_os ''bob'' ''dialout''"
    by blast
  have "\<exists>self. Arduino_init example_externals example_os ?p = Inr self \<and>
           current_user self = ''root'' \<and>
           was_in_arduino_group self = in_group example_os ''root'' ''dialout''"
    using alice [THEN conjunct1, rule_format, of 0 "''root''"] env2(1,2) by simp
  then obtain a where
    a: "Arduino_init example_externals example_os ?p = Inr a" "current_user a = ''root''"
       "was_in_arduino_group a = in_group example_os ''root'' ''dialout''"
    by blast
  have m: "Arduino_init example_externals
     (example_os\<lparr>getenv := map_of [(''SUDO_UID'', ''me'')]\<rparr>) ?p = Inl ValueError"
    using me [THEN conjunct2, THEN conjunct1]
    by (simp add: example_py_int decimal_not_a_number)
  have s: "Arduino_init example_externals
     (example_os\<lparr>getenv := map_of [(''SUDO_UID'', ''7'')]\<rparr>) ?p = Inl KeyError"
    using seven [THEN conjunct2, THEN conjunct2, THEN conjunct1, rule_format, of 7]
    by (simp add: example_py_int decimal_not_a_number example_os_def)
  from env1 env2 a b m s show ?thesis by simp
qed

section \<open>Architecture\<close>

lemma example_arduino_tests:
  "href_search ''64''
     (Tag ''a'' [(''href'', ''//d/arduino-1.6.3-linux64.tar.xz'')] [NavigableString ''Linux''])"
  "\<not> href_search ''64'' (Tag ''a'' [(''href'', ''//d/sums.txt'')] [NavigableString ''Checksums''])"
  "\<not> text_search ''Checksums''
     (Tag ''a'' [(''href'', ''//d/arduino-1.6.3-linux64.tar.xz'')] [NavigableString ''Linux''])"
  "text_search ''Checksums'' (Tag ''a'' [(''href'', ''//d/sums.txt'')] [NavigableString ''Checksums''])"
  by code_simp+

lemma example_arduino_scrape:
  assumes "bits self = ''64''"
  shows "scrape self
     [Tag ''a'' [(''href'', ''//d/arduino-1.6.3-linux64.tar.xz'')] [NavigableString ''Linux''],
      Tag ''a'' [(''href'', ''//d/sums.txt'')] [NavigableString ''Checksums'']]
     = Inr (self\<lparr>scraped_checksum_url := Some ''http://d/sums.txt'',
                 scraped_download_url := Some ''http://d/arduino-1.6.3-linux64.tar.xz''\<rparr>)"
  using assms
  by (simp add: scrape_def soup_find_def soup_find_all_def soup_descendants_def
        example_arduino_tests Let_def)

lemma arduino_get_metadata_example:
  assumes "bits self = ''64''" "download_page self = Some u"
  shows "arduino_get_metadata_and_check_license example_externals os self
     [(u, fetched ''<a href=//d/arduino-1.6.3-linux64.tar.xz>Linux</a><a href=//d/sums.txt>Checksums</a>'')]
   = DownloadCenter [Log DEBUG ''Parse download metadata'' []]
       [DownloadItem ''http://d/arduino-1.6.3-linux64.tar.xz'' None,
        DownloadItem ''http://d/sums.txt'' None] False
       (prepare_to_download_archive example_externals os
          (self\<lparr>scraped_checksum_url := Some ''http://d/sums.txt'',
                 scraped_download_url := Some ''http://d/arduino-1.6.3-linux64.tar.xz''\<rparr>))"
  using assms
  by (simp add: arduino_get_metadata_and_check_license_def lookup_def fetched_def
        example_soup_arduino example_arduino_scrape Let_def)

lemma Arduino_init_i586:
  "Arduino_init example_externals (example_os\<lparr>machine := ''i586''\<rparr>) p =
     Inr \<lparr>name = ''Arduino'',
          description = ''The Arduino Software Distribution'',
          only_on_archs = [''i386'', ''amd64''],
          download_page = Some ''http://www.arduino.cc/en/Main/Software'',
          desktop_filename = ''arduino.desktop'',
          packages_requirements = [''openjdk-7-jdk'', ''jayatana'', ''gcc-avr'', ''avr-libc''],
          need_root_access = True,
          icon_filename = None,
          download_requests = [],
          install_path = p,
          version = None,
          current_user = ''root'',
          was_in_arduino_group = False,
          scraped_checksum_url = None,
          scraped_download_url = None,
          bits = ''64''\<rparr>"
  by (simp add: Arduino_init_def example_os_def ARDUINO_GROUP_def Let_def)

text \<open>
  C8, as the claim states it, fails on a system the installer is offered on. A 32-bit
  x86 system (architecture \<open>i386\<close>, one of \<open>only_on_archs\<close>) whose machine is \<open>i586\<close>
  has a machine that is neither \<open>i686\<close> nor \<open>x86_64\<close>. The Arduino installer is built
  there, and its resolver goes on to ask for the archive and checksum pages instead of
  aborting with status 1.
\<close>

theorem arduino_unrecognised_machine_counterexample:
  "\<not> isl (Arduino_init example_externals (example_os\<lparr>machine := ''i586''\<rparr>) ''/opt/arduino'') \<and>
   is_installable ''i386''
     (projr (Arduino_init example_externals (example_os\<lparr>machine := ''i586''\<rparr>)
        ''/opt/arduino'')) \<and>
   aborted (arduino_get_metadata_and_check_license example_externals
       (example_os\<lparr>machine := ''i586''\<rparr>)
       (projr (Arduino_init example_externals (example_os\<lparr>machine := ''i586''\<rparr>)
          ''/opt/arduino''))
       [(''http://www.arduino.cc/en/Main/Software'',
         fetched ''<a href=//d/arduino-1.6.3-linux64.tar.xz>Linux</a><a href=//d/sums.txt>Checksums</a>'')])
     = None \<and>
   requested (arduino_get_metadata_and_check_license example_externals
       (example_os\<lparr>machine := ''i586''\<rparr>)
       (projr (Arduino_init example_externals (example_os\<lparr>machine := ''i586''\<rparr>)
          ''/opt/arduino''))
       [(''http://www.arduino.cc/en/Main/Software'',
         fetched ''<a href=//d/arduino-1.6.3-linux64.tar.xz>Linux</a><a href=//d/sums.txt>Checksums</a>'')])
     = Some [DownloadItem ''http://d/arduino-1.6.3-linux64.tar.xz'' None,
             DownloadItem ''http://d/sums.txt'' None]"
  by (simp add: Arduino_init_i586 arduino_get_metadata_example is_installable_def)

lemma done_cb_url:
  assumes "done_cb ext self arch md5_url results = StartDownloadAndInstall ev s"
  shows "(arch = ''i686'' \<or> arch = ''x86_64'') \<and>
         (\<exists>digest. download_requests s = download_requests self @
            [DownloadItem (DOWNLOAD_URL_PAT (if arch = ''i686'' then [] else ''-x86_64'') [])
               (Some (Checksum md5 digest))])"
  using assms
  by (auto simp: done_cb_def Let_def split: list.splits if_splits option.splits)

lemma done_cb_starts:
  assumes "arch = ''i686'' \<or> arch = ''x86_64''"
    and "map_of results md5_url = Some r" and "\<not> truthy (error r)"
    and "buffer r = Some b" and "decode_utf8 ext b = Some body" and "split body = d # ds"
  shows "done_cb ext self arch md5_url results =
           StartDownloadAndInstall
             [Log DEBUG ''Downloaded MD5 is {}'' [Str d],
              Log DEBUG ''Preparing to download the main archive.'' []]
             (self\<lparr>download_requests := download_requests self @
                [DownloadItem (DOWNLOAD_URL_PAT (if arch = ''i686'' then [] else ''-x86_64'') [])
                   (Some (Checksum md5 d))]\<rparr>)"
  using assms by (auto simp: done_cb_def Let_def)

lemma eclipse_starts:
  assumes "arch = ''i686'' \<or> arch = ''x86_64''"
    and "map_of results (DOWNLOAD_URL_PAT (if arch = ''i686'' then [] else ''-x86_64'') ''.md5'')
           = Some r"
    and "\<not> truthy (error r)"
    and "buffer r = Some b" and "decode_utf8 ext b = Some body" and "split body = d # ds"
  shows "on_done (download_provider_page ext arch ecl) results =
           StartDownloadAndInstall
             [Log DEBUG ''Downloaded MD5 is {}'' [Str d],
              Log DEBUG ''Preparing to download the main archive.'' []]
             (ecl\<lparr>download_requests := download_requests ecl @
                [DownloadItem (DOWNLOAD_URL_PAT (if arch = ''i686'' then [] else ''-x86_64'') [])
                   (Some (Checksum md5 d))]\<rparr>)"
proof -
  let ?u = "DOWNLOAD_URL_PAT (if arch = ''i686'' then [] else ''-x86_64'') ''.md5''"
  from assms(1) have "on_done (download_provider_page ext arch ecl) results
                        = done_cb ext ecl arch ?u results"
    by (auto simp: download_provider_page_def Let_def)
  with done_cb_starts [OF assms(1) assms(2) assms(3) assms(4) assms(5) assms(6), of ecl]
  show ?thesis by simp
qed

lemma Arduino_init_machine:
  "isl (Arduino_init ext (os\<lparr>machine := m\<rparr>) path) = isl (Arduino_init ext os path)"
  by (simp add: Arduino_init_def Let_def split: option.splits)

text \<open>
  C8, amended. Eclipse takes both of its URLs from the one template, with the
  architecture part empty on \<open>i686\<close> and \<open>-x86_64\<close> on \<open>x86_64\<close>.
  \<^item> On these two machines it asks for the checksum at the \<open>.md5\<close> URL of the template.
  \<^item> On these two machines, once that fetch has given, without error, a body that
    decodes and has a first token, it starts the download of the template's archive URL
    with that token as MD5 digest.
  \<^item> Whenever it starts the download, the machine is one of the two and the item is the
    template's archive URL with an MD5 digest.
  \<^item> On any other machine it logs an error and aborts with status 1.

  The Arduino installer has no failure of its own for the machine architecture: whether
  the constructor completes does not depend on the machine. It is built whenever the uid
  it looks up has an account, and takes \<open>bits\<close> to be \<open>32\<close> on \<open>i686\<close> and \<open>64\<close> on
  \<open>x86_64\<close>; it leaves the other machines to the framework and \<open>only_on_archs\<close>.
\<close>

theorem architecture_selects_template:
  "(arch = ''i686'' \<longrightarrow>
      requested (download_provider_page ext arch ecl)
        = Some [DownloadItem (DOWNLOAD_URL_PAT [] ''.md5'') None]) \<and>
   (arch = ''x86_64'' \<longrightarrow>
      requested (download_provider_page ext arch ecl)
        = Some [DownloadItem (DOWNLOAD_URL_PAT ''-x86_64'' ''.md5'') None]) \<and>
   (\<forall>results r b body d ds.
      (arch = ''i686'' \<or> arch = ''x86_64'') \<and>
      map_of results (DOWNLOAD_URL_PAT (if arch = ''i686'' then [] else ''-x86_64'') ''.md5'')
        = Some r \<and>
      \<not> truthy (error r) \<and> buffer r = Some b \<and> decode_utf8 ext b = Some body \<and>
      split body = d # ds \<longrightarrow>
      on_done (download_provider_page ext arch ecl) results =
        StartDownloadAndInstall
          [Log DEBUG ''Downloaded MD5 is {}'' [Str d],
           Log DEBUG ''Preparing to download the main archive.'' []]
          (ecl\<lparr>download_requests := download_requests ecl @
             [DownloadItem (DOWNLOAD_URL_PAT (if arch = ''i686'' then [] else ''-x86_64'') [])
                (Some (Checksum md5 d))]\<rparr>)) \<and>
   (\<forall>results s. started (on_done (download_provider_page ext arch ecl) results) = Some s \<longrightarrow>
      (arch = ''i686'' \<or> arch = ''x86_64'') \<and>
      (\<exists>digest. download_requests s = download_requests ecl @
         [DownloadItem (DOWNLOAD_URL_PAT (if arch = ''i686'' then [] else ''-x86_64'') [])
            (Some (Checksum md5 digest))])) \<and>
   (arch \<noteq> ''i686'' \<and> arch \<noteq> ''x86_64'' \<longrightarrow>
      download_provider_page ext arch ecl =
        ReturnMainScreen [Log DEBUG ''Preparing to download MD5.'' [],
                          Log ERROR ''Unsupported architecture: {}'' [Str arch]] 1) \<and>
   (\<forall>m. isl (Arduino_init ext (os\<lparr>machine := m\<rparr>) path) = isl (Arduino_init ext os path)) \<and>
   (\<forall>ard. Arduino_init ext os path = Inr ard \<longrightarrow>
      (machine os = ''i686'' \<longrightarrow> bits ard = ''32'') \<and>
      (machine os = ''x86_64'' \<longrightarrow> bits ard = ''64'')) \<and>
   (\<forall>uid n.
      (case getenv os ''SUDO_UID'' of None \<Rightarrow> Some 0 | Some s \<Rightarrow> py_int ext s) = Some uid \<and>
      getpwuid os uid = Some n \<longrightarrow>
      (\<exists>ard. Arduino_init ext os path = Inr ard \<and>
         (machine os = ''i686'' \<longrightarrow> bits ard = ''32'') \<and>
         (machine os = ''x86_64'' \<longrightarrow> bits ard = ''64'')))"
proof -
  have 1: "arch = ''i686'' \<longrightarrow>
      requested (download_provider_page ext arch ecl)
        = Some [DownloadItem (DOWNLOAD_URL_PAT [] ''.md5'') None]"
    by (simp add: download_provider_page_def)
  have 2: "arch = ''x86_64'' \<longrightarrow>
      requested (download_provider_page ext arch ecl)
        = Some [DownloadItem (DOWNLOAD_URL_PAT ''-x86_64'' ''.md5'') None]"
    by (simp add: download_provider_page_def)
  have 3: "\<forall>results r b body d ds.
      (arch = ''i686'' \<or> arch = ''x86_64'') \<and>
      map_of results (DOWNLOAD_URL_PAT (if arch = ''i686'' then [] else ''-x86_64'') ''.md5'')
        = Some r \<and>
      \<not> truthy (error r) \<and> buffer r = Some b \<and> decode_utf8 ext b = Some body \<and>
      split body = d # ds \<longrightarrow>
      on_done (download_provider_page ext arch ecl) results =
        StartDownloadAndInstall
          [Log DEBUG ''Downloaded MD5 is {}'' [Str d],
           Log DEBUG ''Preparing to download the main archive.'' []]
          (ecl\<lparr>download_requests := download_requests ecl @
             [DownloadItem (DOWNLOAD_URL_PAT (if arch = ''i686'' then [] else ''-x86_64'') [])
                (Some (Checksum md5 d))]\<rparr>)"
    using eclipse_starts [where arch = arch and ext = ext and ecl = ecl] by blast
  have 4: "\<forall>results s. started (on_done (download_provider_page ext arch ecl) results) = Some s \<longrightarrow>
      (arch = ''i686'' \<or> arch = ''x86_64'') \<and>
      (\<exists>digest. download_requests s = download_requests ecl @
         [DownloadItem (DOWNLOAD_URL_PAT (if arch = ''i686'' then [] else ''-x86_64'') [])
            (Some (Checksum md5 digest))])"
  proof (intro allI impI)
    fix results s
    assume a: "started (on_done (download_provider_page ext arch ecl) results) = Some s"
    then obtain ev md5_url where
      "done_cb ext ecl arch md5_url results = StartDownloadAndInstall ev s"
      by (cases "done_cb ext ecl arch (DOWNLOAD_URL_PAT [] ''.md5'') results";
          cases "done_cb ext ecl arch (DOWNLOAD_URL_PAT ''-x86_64'' ''.md5'') results")
         (auto simp: download_provider_page_def Let_def split: if_splits)
    from done_cb_url [OF this]
    show "(arch = ''i686'' \<or> arch = ''x86_64'') \<and>
      (\<exists>digest. download_requests s = download_requests ecl @
         [DownloadItem (DOWNLOAD_URL_PAT (if arch = ''i686'' then [] else ''-x86_64'') [])
            (Some (Checksum md5 digest))])"
      by blast
  qed
  have 5: "arch \<noteq> ''i686'' \<and> arch \<noteq> ''x86_64'' \<longrightarrow>
      download_provider_page ext arch ecl =
        ReturnMainScreen [Log DEBUG ''Preparing to download MD5.'' [],
                          Log ERROR ''Unsupported architecture: {}'' [Str arch]] 1"
    by (simp add: download_provider_page_def)
  have 6: "\<forall>m. isl (Arduino_init ext (os\<lparr>machine := m\<rparr>) path) = isl (Arduino_init ext os path)"
    by (simp add: Arduino_init_machine)
  have 7: "\<forall>ard. Arduino_init ext os path = Inr ard \<longrightarrow>
      (machine os = ''i686'' \<longrightarrow> bits ard = ''32'') \<and>
      (machine os = ''x86_64'' \<longrightarrow> bits ard = ''64'')"
    using Arduino_init_Inr(4) [of ext os path] by simp
  have 8: "\<forall>uid n.
      (case getenv os ''SUDO_UID'' of None \<Rightarrow> Some 0 | Some s \<Rightarrow> py_int ext s) = Some uid \<and>
      getpwuid os uid = Some n \<longrightarrow>
      (\<exists>ard. Arduino_init ext os path = Inr ard \<and>
         (machine os = ''i686'' \<longrightarrow> bits ard = ''32'') \<and>
         (machine os = ''x86_64'' \<longrightarrow> bits ard = ''64''))"
  proof (intro allI impI, elim conjE)
    fix uid n
    assume "(case getenv os ''SUDO_UID'' of None \<Rightarrow> Some 0 | Some s \<Rightarrow> py_int ext s) = Some uid"
      and "getpwuid os uid = Some n"
    then have "\<exists>ard. Arduino_init ext os path = Inr ard"
      using Arduino_init_Some [of ext os uid n path] by (auto simp: sudo_uid_def)
    with 7 show "\<exists>ard. Arduino_init ext os path = Inr ard \<and>
         (machine os = ''i686'' \<longrightarrow> bits ard = ''32'') \<and>
         (machine os = ''x86_64'' \<longrightarrow> bits ard = ''64'')"
      by blast
  qed
  from 1 2 3 4 5 6 7 8 show ?thesis by blast
qed

text \<open>
  Eclipse on \<open>i686\<close>, on \<open>x86_64\<close> and on \<open>armv7l\<close>, with the checksum body
  \<open>deadbeef  archive.tar.gz\<close> fetched from the \<open>.md5\<close> URL of the machine; the Arduino
  installer on the example system, an \<open>x86_64\<close> machine, and on the same system with an
  \<open>i686\<close> machine.
\<close>

theorem architecture_selects_template_witness:
  "requested (download_provider_page example_externals ''i686'' (Eclipse_init ''/opt/eclipse''))
     = Some [DownloadItem (DOWNLOAD_URL_PAT [] ''.md5'') None] \<and>
   requested (download_provider_page example_externals ''x86_64'' (Eclipse_init ''/opt/eclipse''))
     = Some [DownloadItem (DOWNLOAD_URL_PAT ''-x86_64'' ''.md5'') None] \<and>
   on_done (download_provider_page example_externals ''i686'' (Eclipse_init ''/opt/eclipse''))
       [(DOWNLOAD_URL_PAT [] ''.md5'', fetched ''deadbeef  archive.tar.gz'')]
     = StartDownloadAndInstall
         [Log DEBUG ''Downloaded MD5 is {}'' [Str ''deadbeef''],
          Log DEBUG ''Preparing to download the main archive.'' []]
         ((Eclipse_init ''/opt/eclipse'')\<lparr>download_requests :=
            [DownloadItem (DOWNLOAD_URL_PAT [] []) (Some (Checksum md5 ''deadbeef''))]\<rparr>) \<and>
   on_done (download_provider_page example_externals ''x86_64'' (Eclipse_init ''/opt/eclipse''))
       [(DOWNLOAD_URL_PAT ''-x86_64'' ''.md5'', fetched ''deadbeef  archive.tar.gz'')]
     = StartDownloadAndInstall
         [Log DEBUG ''Downloaded MD5 is {}'' [Str ''deadbeef''],
          Log DEBUG ''Preparing to download the main archive.'' []]
         ((Eclipse_init ''/opt/eclipse'')\<lparr>download_requests :=
            [DownloadItem (DOWNLOAD_URL_PAT ''-x86_64'' []) (Some (Checksum md5 ''deadbeef''))]\<rparr>) \<and>
   download_provider_page example_externals ''armv7l'' (Eclipse_init ''/opt/eclipse'') =
     ReturnMainScreen [Log DEBUG ''Preparing to download MD5.'' [],
                       Log ERROR ''Unsupported architecture: {}'' [Str ''armv7l'']] 1 \<and>
   machine example_os = ''x86_64'' \<and>
   \<not> isl (Arduino_init example_externals example_os ''/opt/arduino'') \<and>
   bits (projr (Arduino_init example_externals example_os ''/opt/arduino'')) = ''64'' \<and>
   \<not> isl (Arduino_init example_externals (example_os\<lparr>machine := ''i686''\<rparr>) ''/opt/arduino'') \<and>
   bits (projr (Arduino_init example_externals (example_os\<lparr>machine := ''i686''\<rparr>)
           ''/opt/arduino'')) = ''32''"
proof -
  let ?ecl = "Eclipse_init ''/opt/eclipse''"
  let ?r = "fetched ''deadbeef  archive.tar.gz''"
  let ?os32 = "example_os\<lparr>machine := ''i686''\<rparr>"
  note a = architecture_selects_template
             [where arch = "''i686''" and ext = example_externals and ecl = ?ecl
                and os = ?os32 and path = "''/opt/arduino''"]
  note b = architecture_selects_template
             [where arch = "''x86_64''" and ext = example_externals and ecl = ?ecl
                and os = example_os and path = "''/opt/arduino''"]
  note c = architecture_selects_template
             [where arch = "''armv7l''" and ext = example_externals and ecl = ?ecl
                and os = example_os and path = "''/opt/arduino''"]
  have r: "\<not> truthy (error ?r)" "buffer ?r = Some ''deadbeef  archive.tar.gz''"
    "decode_utf8 example_externals ''deadbeef  archive.tar.gz'' = Some ''deadbeef  archive.tar.gz''"
    "split ''deadbeef  archive.tar.gz'' = ''deadbeef'' # [''archive.tar.gz'']"
    by (simp_all add: fetched_def example_decode_utf8 decode_ascii_checksum_body
          split_checksum_body)
  have e: "download_requests ?ecl = []" by (simp add: Eclipse_init_fields)
  from a have 1: "requested (download_provider_page example_externals ''i686'' ?ecl)
     = Some [DownloadItem (DOWNLOAD_URL_PAT [] ''.md5'') None]" by simp
  from b have 2: "requested (download_provider_page example_externals ''x86_64'' ?ecl)
     = Some [DownloadItem (DOWNLOAD_URL_PAT ''-x86_64'' ''.md5'') None]" by simp
  have 3: "on_done (download_provider_page example_externals ''i686'' ?ecl)
       [(DOWNLOAD_URL_PAT [] ''.md5'', ?r)]
     = StartDownloadAndInstall
         [Log DEBUG ''Downloaded MD5 is {}'' [Str ''deadbeef''],
          Log DEBUG ''Preparing to download the main archive.'' []]
         (?ecl\<lparr>download_requests :=
            [DownloadItem (DOWNLOAD_URL_PAT [] []) (Some (Checksum md5 ''deadbeef''))]\<rparr>)"
    using a [THEN conjunct2, THEN conjunct2, THEN conjunct1, rule_format,
             of "[(DOWNLOAD_URL_PAT [] ''.md5'', ?r)]" ?r "''deadbeef  archive.tar.gz''"
                "''deadbeef  archive.tar.gz''" "''deadbeef''" "[''archive.tar.gz'']"] r e
    by simp
  have 4: "on_done (download_provider_page example_externals ''x86_64'' ?ecl)
       [(DOWNLOAD_URL_PAT ''-x86_64'' ''.md5'', ?r)]
     = StartDownloadAndInstall
         [Log DEBUG ''Downloaded MD5 is {}'' [Str ''deadbeef''],
          Log DEBUG ''Preparing to download the main archive.'' []]
         (?ecl\<lparr>download_requests :=
            [DownloadItem (DOWNLOAD_URL_PAT ''-x86_64'' []) (Some (Checksum md5 ''deadbeef''))]\<rparr>)"
    using b [THEN conjunct2, THEN conjunct2, THEN conjunct1, rule_format,
             of "[(DOWNLOAD_URL_PAT ''-x86_64'' ''.md5'', ?r)]" ?r "''deadbeef  archive.tar.gz''"
                "''deadbeef  archive.tar.gz''" "''deadbeef''" "[''archive.tar.gz'']"] r e
    by simp
  from c have 5: "download_provider_page example_externals ''armv7l'' ?ecl =
     ReturnMainScreen [Log DEBUG ''Preparing to download MD5.'' [],
                       Log ERROR ''Unsupported architecture: {}'' [Str ''armv7l'']] 1" by simp
  have m: "machine example_os = ''x86_64''" "machine ?os32 = ''i686''"
    by (simp_all add: example_os_def)
  have env: "getenv example_os ''SUDO_UID'' = None" "getpwuid example_os 0 = Some ''root''"
    "getenv ?os32 ''SUDO_UID'' = None" "getpwuid ?os32 0 = Some ''root''"
    by (simp_all add: example_os_def)
  have "\<exists>ard. Arduino_init example_externals example_os ''/opt/arduino'' = Inr ard \<and>
          (machine example_os = ''i686'' \<longrightarrow> bits ard = ''32'') \<and>
          (machine example_os = ''x86_64'' \<longrightarrow> bits ard = ''64'')"
    using b [THEN conjunct2, THEN conjunct2, THEN conjunct2, THEN conjunct2, THEN conjunct2,
             THEN conjunct2, THEN conjunct2, rule_format, of 0 "''root''"] env(1,2)
    by simp
  with m(1) have 6: "\<not> isl (Arduino_init example_externals example_os ''/opt/arduino'') \<and>
    bits (projr (Arduino_init example_externals example_os ''/opt/arduino'')) = ''64''"
    by auto
  have "\<exists>ard. Arduino_init example_externals ?os32 ''/opt/arduino'' = Inr ard \<and>
          (machine ?os32 = ''i686'' \<longrightarrow> bits ard = ''32'') \<and>
          (machine ?os32 = ''x86_64'' \<longrightarrow> bits ard = ''64'')"
    using a [THEN conjunct2, THEN conjunct2, THEN conjunct2, THEN conjunct2, THEN conjunct2,
             THEN conjunct2, THEN conjunct2, rule_format, of 0 "''root''"] env(3,4)
    by simp
  with m(2) have 7: "\<not> isl (Arduino_init example_externals ?os32 ''/opt/arduino'') \<and>
    bits (projr (Arduino_init example_externals ?os32 ''/opt/arduino'')) = ''32''"
    by auto
  from 1 2 3 4 5 6 7 m(1) show ?thesis by simp
qed

section \<open>\<open>Arduino.prepare_to_download_archive\<close>\<close>

lemma prepare_Start:
  assumes "prepare_to_download_archive ext os self results = StartDownloadAndInstall ev s"
  shows "\<exists>page body btn parent href digest.
           lookup results (scraped_download_url self) = Some page \<and>
           \<not> truthy (error page) \<and> buffer page = Some body \<and>
           soup_find ''button'' (text_search ''JUST DOWNLOAD'') (BeautifulSoup ext body)
             = Some (btn, parent) \<and>
           map_of parent ''href'' = Some href \<and>
           s = self\<lparr>download_requests :=
                 [\<lparr>item_url = urljoin ext (final_url page) href,
                   item_checksum = Some (Checksum md5 digest),
                   item_ignore_encoding = False,
                   item_cookies = Some (cookies page)\<rparr>]\<rparr> \<and>
           (was_in_arduino_group self \<longrightarrow>
              ev = [Log INFO ''Final download url: %s, cookies: %s.''
                      [Str (urljoin ext (final_url page) href), CookieJar (cookies page)]]) \<and>
           (\<not> was_in_arduino_group self \<longrightarrow>
              (\<exists>wl. add_to_group os (current_user self) ARDUINO_GROUP = (wl, Inr True) \<and>
                 ev = [Log INFO ''Final download url: %s, cookies: %s.''
                      [Str (urljoin ext (final_url page) href), CookieJar (cookies page)]] @ wl @
                      [WorkerProcess (current_user self) ARDUINO_GROUP (Inr True)]))"
  using assms
  by (auto simp: prepare_to_download_archive_def Let_def DownloadItem_def
           split: option.splits if_splits prod.splits sum.splits)


lemma scraped_example_fields:
  "scraped_download_url scraped_example = Some ''http://d/arduino-1.6.3-linux64.tar.xz''"
  "scraped_checksum_url scraped_example = Some ''http://d/sums.txt''"
  "was_in_arduino_group scraped_example = False"
  "current_user scraped_example = ''root''"
  "bits scraped_example = ''64''"
  "download_requests scraped_example = []"
  by (simp_all add: scraped_example_def Arduino_init_example)

lemma example_os_fields:
  "seteuid_root example_os" "adduser example_os u g = Output ''Done.''"
  "machine example_os = ''x86_64''"
  by (simp_all add: example_os_def)

lemma example_checksum_page:
  "decode_ascii example_checksums = Some example_checksums"
  "search_checksum ''64'' True example_checksums = Some ''def456''"
  by code_simp+

lemma example_button:
  "soup_find ''button'' (text_search ''JUST DOWNLOAD'')
     [Tag ''a'' [(''href'', ''http://d/get/arduino.tar.xz'')]
        [Tag ''button'' [] [NavigableString ''JUST DOWNLOAD'']]]
   = Some (Tag ''button'' [] [NavigableString ''JUST DOWNLOAD''],
           [(''href'', ''http://d/get/arduino.tar.xz'')])"
  by code_simp

lemma example_results_lookup:
  "lookup example_arduino_results (Some ''http://d/arduino-1.6.3-linux64.tar.xz'')
     = Some example_download_page"
  "lookup example_arduino_results (Some ''http://d/sums.txt'') = Some (fetched example_checksums)"
  by (simp_all add: lookup_def example_arduino_results_def)

lemma example_download_page_fields:
  "buffer example_download_page
     = Some ''<a href=http://d/get/arduino.tar.xz><button>JUST DOWNLOAD</button></a>''"
  "error example_download_page = None"
  "final_url example_download_page = ''http://d/thanks''"
  "cookies example_download_page = [(''session'', ''42'')]"
  by (simp_all add: example_download_page_def)

lemma prepare_example:
  "prepare_to_download_archive example_externals example_os scraped_example example_arduino_results
   = StartDownloadAndInstall
       [Log INFO ''Final download url: %s, cookies: %s.''
          [Str ''http://d/get/arduino.tar.xz'', CookieJar [(''session'', ''42'')]],
        Log DEBUG ''Added {} to {}: {}'' [Str ''root'', Str ''dialout'', Bytes ''Done.''],
        WorkerProcess ''root'' ''dialout'' (Inr True)]
       (scraped_example\<lparr>download_requests :=
          [\<lparr>item_url = ''http://d/get/arduino.tar.xz'',
            item_checksum = Some (Checksum md5 ''def456''),
            item_ignore_encoding = False,
            item_cookies = Some [(''session'', ''42'')]\<rparr>]\<rparr>)"
  by (simp add: prepare_to_download_archive_def scraped_example_fields example_results_lookup
        example_download_page_fields fetched_def example_checksum_page example_soup_button
        example_button example_urljoin add_to_group_def example_os_fields ARDUINO_GROUP_def
        DownloadItem_def Let_def)

text \<open>
  C7. Whenever \<open>prepare_to_download_archive\<close> starts the download, the single item of
  \<open>download_requests\<close> has as URL the \<open>urljoin\<close> of the download page's \<open>final_url\<close>
  with the \<open>href\<close> of the parent of the first button that reads JUST DOWNLOAD, and as
  cookies the cookies of that page's response.
\<close>

theorem arduino_item_carries_final_url_and_cookies:
  "prepare_to_download_archive ext os self results = StartDownloadAndInstall ev s \<longrightarrow>
     (\<exists>page body btn parent href digest.
        lookup results (scraped_download_url self) = Some page \<and>
        buffer page = Some body \<and>
        soup_find ''button'' (text_search ''JUST DOWNLOAD'') (BeautifulSoup ext body)
          = Some (btn, parent) \<and>
        map_of parent ''href'' = Some href \<and>
        download_requests s =
          [\<lparr>item_url = urljoin ext (final_url page) href,
            item_checksum = Some (Checksum md5 digest),
            item_ignore_encoding = False,
            item_cookies = Some (cookies page)\<rparr>])"
proof
  assume "prepare_to_download_archive ext os self results = StartDownloadAndInstall ev s"
  from prepare_Start [OF this] obtain page body btn parent href digest where
    "lookup results (scraped_download_url self) = Some page" "buffer page = Some body"
    "soup_find ''button'' (text_search ''JUST DOWNLOAD'') (BeautifulSoup ext body)
       = Some (btn, parent)"
    "map_of parent ''href'' = Some href"
    "s = self\<lparr>download_requests :=
           [\<lparr>item_url = urljoin ext (final_url page) href,
             item_checksum = Some (Checksum md5 digest),
             item_ignore_encoding = False,
             item_cookies = Some (cookies page)\<rparr>]\<rparr>"
    by blast
  then show "\<exists>page body btn parent href digest.
        lookup results (scraped_download_url self) = Some page \<and>
        buffer page = Some body \<and>
        soup_find ''button'' (text_search ''JUST DOWNLOAD'') (BeautifulSoup ext body)
          = Some (btn, parent) \<and>
        map_of parent ''href'' = Some href \<and>
        download_requests s =
          [\<lparr>item_url = urljoin ext (final_url page) href,
            item_checksum = Some (Checksum md5 digest),
            item_ignore_encoding = False,
            item_cookies = Some (cookies page)\<rparr>]"
    by (intro exI [of _ page] exI [of _ body] exI [of _ btn] exI [of _ parent]
          exI [of _ href] exI [of _ digest]) simp
qed

theorem arduino_item_carries_final_url_and_cookies_witness:
  "started (prepare_to_download_archive example_externals example_os scraped_example
      example_arduino_results) \<noteq> None \<and>
   final_url example_download_page = ''http://d/thanks'' \<and>
   cookies example_download_page = [(''session'', ''42'')] \<and>
   map (\<lambda>i. (item_url i, item_cookies i))
     (download_requests (the (started (prepare_to_download_archive example_externals example_os
        scraped_example example_arduino_results))))
   = [(urljoin example_externals ''http://d/thanks'' ''http://d/get/arduino.tar.xz'',
       Some [(''session'', ''42'')])]"
proof -
  let ?out = "prepare_to_download_archive example_externals example_os scraped_example
      example_arduino_results"
  have st: "started ?out \<noteq> None" by (simp add: prepare_example)
  then obtain ev where e: "?out = StartDownloadAndInstall ev (the (started ?out))"
    by (cases ?out) auto
  from arduino_item_carries_final_url_and_cookies
         [of example_externals example_os scraped_example example_arduino_results ev
             "the (started ?out)"] e
  obtain page body btn parent href digest where
    h: "lookup example_arduino_results (scraped_download_url scraped_example) = Some page"
       "buffer page = Some body"
       "soup_find ''button'' (text_search ''JUST DOWNLOAD'') (BeautifulSoup example_externals body)
          = Some (btn, parent)"
       "map_of parent ''href'' = Some href"
       "download_requests (the (started ?out)) =
          [\<lparr>item_url = urljoin example_externals (final_url page) href,
            item_checksum = Some (Checksum md5 digest),
            item_ignore_encoding = False,
            item_cookies = Some (cookies page)\<rparr>]"
    by blast
  from h(1) have p: "page = example_download_page"
    by (simp add: scraped_example_fields example_results_lookup)
  with h(2) have b: "body = ''<a href=http://d/get/arduino.tar.xz><button>JUST DOWNLOAD</button></a>''"
    by (simp add: example_download_page_fields)
  with h(3,4) have "href = ''http://d/get/arduino.tar.xz''"
    by (auto simp: example_soup_button example_button)
  with h(5) p st show ?thesis
    by (simp add: example_download_page_fields)
qed

section \<open>The group step of the Arduino installer\<close>


lemma prepare_non_member:
  assumes "was_in_arduino_group self"
  shows "prepare_to_download_archive ext os (non_member self) res =
     (case prepare_to_download_archive ext os self res of
        StartDownloadAndInstall ev s \<Rightarrow>
          (case add_to_group os (current_user self) ARDUINO_GROUP of
             (wl, Inl e) \<Rightarrow>
               Raised (ev @ wl @ [WorkerProcess (current_user self) ARDUINO_GROUP (Inl e)]) e
           | (wl, Inr added) \<Rightarrow>
               if added then
                 StartDownloadAndInstall
                   (ev @ wl @ [WorkerProcess (current_user self) ARDUINO_GROUP (Inr added)])
                   (non_member s)
               else
                 ReturnMainScreen
                   (ev @ wl @ [WorkerProcess (current_user self) ARDUINO_GROUP (Inr added)]) 1)
      | ReturnMainScreen ev st \<Rightarrow> ReturnMainScreen ev st
      | Raised ev e \<Rightarrow> Raised ev e
      | DownloadCenter ev items dl k \<Rightarrow> DownloadCenter ev items dl k)"
  using assms
  by (simp add: prepare_to_download_archive_def Let_def non_member_def
           split: option.splits prod.splits sum.splits)


lemma scrape_non_member:
  "scrape (non_member self) soup = map_sum id non_member (scrape self soup)"
  by (simp add: scrape_def non_member_def Let_def split: option.splits prod.splits)

lemma scrape_keeps:
  "scrape self soup = Inr s1 \<Longrightarrow>
     was_in_arduino_group s1 = was_in_arduino_group self \<and> current_user s1 = current_user self
     \<and> download_page s1 = download_page self"
  by (auto simp: scrape_def Let_def split: option.splits prod.splits)

lemma non_member_fields:
  "download_page (non_member s) = download_page s"
  "scraped_download_url (non_member s) = scraped_download_url s"
  "scraped_checksum_url (non_member s) = scraped_checksum_url s"
  "current_user (non_member s) = current_user s"
  "bits (non_member s) = bits s"
  by (simp_all add: non_member_def)

lemma get_metadata_cases:
  obtains (fetch) ev items s1 where
      "arduino_get_metadata_and_check_license ext os self result
         = DownloadCenter ev items False (prepare_to_download_archive ext os s1)"
      "arduino_get_metadata_and_check_license ext os (non_member self) result
         = DownloadCenter ev items False (prepare_to_download_archive ext os (non_member s1))"
      "was_in_arduino_group s1 = was_in_arduino_group self"
      "current_user s1 = current_user self"
    | (stop) "requested (arduino_get_metadata_and_check_license ext os self result) = None"
      "started (arduino_get_metadata_and_check_license ext os self result) = None"
      "arduino_get_metadata_and_check_license ext os (non_member self) result
         = arduino_get_metadata_and_check_license ext os self result"
      "on_done (arduino_get_metadata_and_check_license ext os self result)
         = (\<lambda>res. arduino_get_metadata_and_check_license ext os self result)"
proof (cases "requested (arduino_get_metadata_and_check_license ext os self result)")
  case None
  then have "started (arduino_get_metadata_and_check_license ext os self result) = None"
    "arduino_get_metadata_and_check_license ext os (non_member self) result
         = arduino_get_metadata_and_check_license ext os self result"
    by (auto simp: arduino_get_metadata_and_check_license_def Let_def scrape_non_member
          non_member_fields split: option.splits sum.splits if_splits)
  moreover from None have "on_done (arduino_get_metadata_and_check_license ext os self result)
         = (\<lambda>res. arduino_get_metadata_and_check_license ext os self result)"
    by (cases "arduino_get_metadata_and_check_license ext os self result") (auto intro!: ext)
  ultimately show ?thesis using None stop by blast
next
  case (Some items)
  then obtain b s1 page where
    s: "lookup result (download_page self) = Some page" "buffer page = Some b"
       "scrape self (BeautifulSoup ext b) = Inr s1" "\<not> truthy (error page)"
       "truthy (scraped_download_url s1)" "truthy (scraped_checksum_url s1)"
    by (auto simp: arduino_get_metadata_and_check_license_def Let_def
          split: option.splits sum.splits if_splits)
  from s have a: "arduino_get_metadata_and_check_license ext os self result
         = DownloadCenter [Log DEBUG ''Parse download metadata'' []]
             [DownloadItem (the (scraped_download_url s1)) None,
              DownloadItem (the (scraped_checksum_url s1)) None]
             False (prepare_to_download_archive ext os s1)"
    by (simp add: arduino_get_metadata_and_check_license_def Let_def)
  from s have b: "arduino_get_metadata_and_check_license ext os (non_member self) result
         = DownloadCenter [Log DEBUG ''Parse download metadata'' []]
             [DownloadItem (the (scraped_download_url s1)) None,
              DownloadItem (the (scraped_checksum_url s1)) None]
             False (prepare_to_download_archive ext os (non_member s1))"
    by (simp add: arduino_get_metadata_and_check_license_def Let_def scrape_non_member
          non_member_fields)
  from scrape_keeps [OF s(3)] a b fetch show ?thesis by blast
qed


lemma add_to_group_False:
  "(snd (add_to_group os u g) = Inr False) = (seteuid_root os \<and> adduser os u g = CalledProcessError)"
  by (simp add: add_to_group_def split: check_output.splits)















section \<open>A member of the group\<close>

lemma prepare_member_no_worker:
  "was_in_arduino_group self \<Longrightarrow>
     filter is_worker (effects (prepare_to_download_archive ext os self res)) = []"
  by (simp add: prepare_to_download_archive_def Let_def
        split: option.splits prod.splits sum.splits)

lemma get_metadata_no_worker:
  "filter is_worker (effects (arduino_get_metadata_and_check_license ext os self result)) = []"
  by (simp add: arduino_get_metadata_and_check_license_def Let_def
        split: option.splits prod.splits sum.splits)

lemma with_group_step_stop:
  "started out = None \<Longrightarrow> with_group_step w out = out"
  by (cases out) simp_all

lemma prepare_non_member_True:
  assumes "was_in_arduino_group self"
    and "add_to_group os (current_user self) ARDUINO_GROUP = (wl, Inr True)"
  shows "prepare_to_download_archive ext os (non_member self) res =
     with_group_step (wl @ [WorkerProcess (current_user self) ARDUINO_GROUP (Inr True)])
       (prepare_to_download_archive ext os self res)"
  using prepare_non_member [OF assms(1), of ext os res] assms(2)
  by (cases "prepare_to_download_archive ext os self res") simp_all

lemma post_install_member:
  "was_in_arduino_group self \<Longrightarrow> filter is_delayed_display (arduino_post_install self) = []"
  "was_in_arduino_group self \<Longrightarrow>
     arduino_post_install (non_member self) = arduino_post_install self @
       [DelayedDisplay ''You need to logout and login again for your installation to work'']"
  by (simp_all add: arduino_post_install_def non_member_def Let_def)

text \<open>
  An installer built for a user whom the group database lists in \<open>dialout\<close> records
  the membership and asks for no root access. For an installer that has recorded its user
  as a member: no callback runs the worker process, and \<open>post_install\<close> queues no
  message. Against the same installer for a user outside the group (\<open>non_member\<close>),
  \<open>post_install\<close> differs by the queued message only;
  \<open>get_metadata_and_check_license\<close> has the same effects, abort status, exception and
  requested items; and when the worker process of the user outside the group succeeds,
  \<open>prepare_to_download_archive\<close> ends the same way for both, the download being started
  with the same items and the worker's effects added.
\<close>

lemma recorded_member_skips_privilege_step:
  "(\<forall>a. Arduino_init ext os path = Inr a \<longrightarrow> in_group os (current_user a) ''dialout'' \<longrightarrow>
        was_in_arduino_group a \<and> \<not> need_root_access a) \<and>
   (was_in_arduino_group self \<longrightarrow>
      filter is_worker
        (effects (arduino_get_metadata_and_check_license ext os self result)) = [] \<and>
      filter is_worker
        (effects (on_done (arduino_get_metadata_and_check_license ext os self result) res)) = [] \<and>
      filter is_worker (effects (prepare_to_download_archive ext os self res)) = [] \<and>
      filter is_delayed_display (arduino_post_install self) = [] \<and>
      arduino_post_install (non_member self) = arduino_post_install self @
        [DelayedDisplay ''You need to logout and login again for your installation to work''] \<and>
      effects (arduino_get_metadata_and_check_license ext os (non_member self) result)
        = effects (arduino_get_metadata_and_check_license ext os self result) \<and>
      aborted (arduino_get_metadata_and_check_license ext os (non_member self) result)
        = aborted (arduino_get_metadata_and_check_license ext os self result) \<and>
      raised (arduino_get_metadata_and_check_license ext os (non_member self) result)
        = raised (arduino_get_metadata_and_check_license ext os self result) \<and>
      requested (arduino_get_metadata_and_check_license ext os (non_member self) result)
        = requested (arduino_get_metadata_and_check_license ext os self result) \<and>
      (\<forall>wl. add_to_group os (current_user self) ''dialout'' = (wl, Inr True) \<longrightarrow>
         prepare_to_download_archive ext os (non_member self) res =
           with_group_step (wl @ [WorkerProcess (current_user self) ''dialout'' (Inr True)])
             (prepare_to_download_archive ext os self res) \<and>
         on_done (arduino_get_metadata_and_check_license ext os (non_member self) result) res =
           with_group_step (wl @ [WorkerProcess (current_user self) ''dialout'' (Inr True)])
             (on_done (arduino_get_metadata_and_check_license ext os self result) res)))"
proof (intro conjI allI impI)
  fix a
  assume "Arduino_init ext os path = Inr a" "in_group os (current_user a) ''dialout''"
  with Arduino_init_Inr(2,3) [of ext os path a]
  show "was_in_arduino_group a" "\<not> need_root_access a"
    by (simp_all add: ARDUINO_GROUP_def)
next
  show "filter is_worker
        (effects (arduino_get_metadata_and_check_license ext os self result)) = []"
    by (rule get_metadata_no_worker)
next
  assume m: "was_in_arduino_group self"
  show "filter is_worker
        (effects (on_done (arduino_get_metadata_and_check_license ext os self result) res)) = []"
  proof (cases rule: get_metadata_cases [of ext os self result])
    case (fetch ev items s1)
    with m prepare_member_no_worker [of s1 ext os res] show ?thesis by simp
  next
    case stop
    with get_metadata_no_worker [of ext os self result] show ?thesis by simp
  qed
next
  assume "was_in_arduino_group self"
  then show "filter is_worker (effects (prepare_to_download_archive ext os self res)) = []"
    by (rule prepare_member_no_worker)
next
  assume "was_in_arduino_group self"
  then show "filter is_delayed_display (arduino_post_install self) = []"
    by (rule post_install_member(1))
next
  assume "was_in_arduino_group self"
  then show "arduino_post_install (non_member self) = arduino_post_install self @
        [DelayedDisplay ''You need to logout and login again for your installation to work'']"
    by (rule post_install_member(2))
next
  show "effects (arduino_get_metadata_and_check_license ext os (non_member self) result)
        = effects (arduino_get_metadata_and_check_license ext os self result)"
    by (cases rule: get_metadata_cases [of ext os self result]) simp_all
next
  show "aborted (arduino_get_metadata_and_check_license ext os (non_member self) result)
        = aborted (arduino_get_metadata_and_check_license ext os self result)"
    by (cases rule: get_metadata_cases [of ext os self result]) simp_all
next
  show "raised (arduino_get_metadata_and_check_license ext os (non_member self) result)
        = raised (arduino_get_metadata_and_check_license ext os self result)"
    by (cases rule: get_metadata_cases [of ext os self result]) simp_all
next
  show "requested (arduino_get_metadata_and_check_license ext os (non_member self) result)
        = requested (arduino_get_metadata_and_check_license ext os self result)"
    by (cases rule: get_metadata_cases [of ext os self result]) simp_all
next
  fix wl
  assume m: "was_in_arduino_group self"
    and a: "add_to_group os (current_user self) ''dialout'' = (wl, Inr True)"
  from prepare_non_member_True [OF m, of os wl ext res] a
  show "prepare_to_download_archive ext os (non_member self) res =
           with_group_step (wl @ [WorkerProcess (current_user self) ''dialout'' (Inr True)])
             (prepare_to_download_archive ext os self res)"
    by (simp add: ARDUINO_GROUP_def)
  show "on_done (arduino_get_metadata_and_check_license ext os (non_member self) result) res =
           with_group_step (wl @ [WorkerProcess (current_user self) ''dialout'' (Inr True)])
             (on_done (arduino_get_metadata_and_check_license ext os self result) res)"
  proof (cases rule: get_metadata_cases [of ext os self result])
    case (fetch ev items s1)
    with m a prepare_non_member_True [of s1 os wl ext res] show ?thesis
      by (simp add: ARDUINO_GROUP_def)
  next
    case stop
    then show ?thesis by (simp add: with_group_step_stop)
  qed
qed

lemma Arduino_init_sudo:
  "Arduino_init example_externals sudo_os p =
     Inr \<lparr>name = ''Arduino'',
          description = ''The Arduino Software Distribution'',
          only_on_archs = [''i386'', ''amd64''],
          download_page = Some ''http://www.arduino.cc/en/Main/Software'',
          desktop_filename = ''arduino.desktop'',
          packages_requirements = [''openjdk-7-jdk'', ''jayatana'', ''gcc-avr'', ''avr-libc''],
          need_root_access = False,
          icon_filename = None,
          download_requests = [],
          install_path = p,
          version = None,
          current_user = ''bob'',
          was_in_arduino_group = True,
          scraped_checksum_url = None,
          scraped_download_url = None,
          bits = ''64''\<rparr>"
  by (simp add: Arduino_init_def sudo_os_def example_os_def example_py_int decimal_1001
        ARDUINO_GROUP_def Let_def)

lemma member_example_fields:
  "scraped_download_url member_example = Some ''http://d/arduino-1.6.3-linux64.tar.xz''"
  "scraped_checksum_url member_example = Some ''http://d/sums.txt''"
  "was_in_arduino_group member_example = True"
  "current_user member_example = ''bob''"
  "bits member_example = ''64''"
  "download_requests member_example = []"
  by (simp_all add: member_example_def Arduino_init_sudo)

lemma prepare_member_example:
  "prepare_to_download_archive example_externals os member_example example_arduino_results
   = StartDownloadAndInstall
       [Log INFO ''Final download url: %s, cookies: %s.''
          [Str ''http://d/get/arduino.tar.xz'', CookieJar [(''session'', ''42'')]]]
       (member_example\<lparr>download_requests :=
          [\<lparr>item_url = ''http://d/get/arduino.tar.xz'',
            item_checksum = Some (Checksum md5 ''def456''),
            item_ignore_encoding = False,
            item_cookies = Some [(''session'', ''42'')]\<rparr>]\<rparr>)"
  by (simp add: prepare_to_download_archive_def member_example_fields example_results_lookup
        example_download_page_fields fetched_def example_checksum_page example_soup_button
        example_button example_urljoin DownloadItem_def Let_def)

text \<open>On the example system with \<open>bob\<close>, a member of \<open>dialout\<close>, behind \<open>sudo\<close>: no
  root access is asked for, the download starts without a worker process, and for the
  same installer outside the group the download starts with the same item after the
  worker's effects.\<close>

lemma recorded_member_example:
  "\<not> isl (Arduino_init example_externals sudo_os ''/opt/arduino'') \<and>
   in_group sudo_os ''bob'' ''dialout'' \<and>
   was_in_arduino_group (projr (Arduino_init example_externals sudo_os ''/opt/arduino'')) \<and>
   \<not> need_root_access (projr (Arduino_init example_externals sudo_os ''/opt/arduino'')) \<and>
   was_in_arduino_group member_example \<and>
   add_to_group sudo_os ''bob'' ''dialout''
     = ([Log DEBUG ''Added {} to {}: {}'' [Str ''bob'', Str ''dialout'', Bytes ''Done.'']], Inr True) \<and>
   effects (prepare_to_download_archive example_externals sudo_os member_example
              example_arduino_results)
     = [Log INFO ''Final download url: %s, cookies: %s.''
          [Str ''http://d/get/arduino.tar.xz'', CookieJar [(''session'', ''42'')]]] \<and>
   filter is_worker (effects (prepare_to_download_archive example_externals sudo_os member_example
              example_arduino_results)) = [] \<and>
   filter is_delayed_display (arduino_post_install member_example) = [] \<and>
   prepare_to_download_archive example_externals sudo_os (non_member member_example)
       example_arduino_results
     = StartDownloadAndInstall
         [Log INFO ''Final download url: %s, cookies: %s.''
            [Str ''http://d/get/arduino.tar.xz'', CookieJar [(''session'', ''42'')]],
          Log DEBUG ''Added {} to {}: {}'' [Str ''bob'', Str ''dialout'', Bytes ''Done.''],
          WorkerProcess ''bob'' ''dialout'' (Inr True)]
         (non_member (member_example\<lparr>download_requests :=
            [\<lparr>item_url = ''http://d/get/arduino.tar.xz'',
              item_checksum = Some (Checksum md5 ''def456''),
              item_ignore_encoding = False,
              item_cookies = Some [(''session'', ''42'')]\<rparr>]\<rparr>))"
proof -
  let ?i = "Arduino_init example_externals sudo_os ''/opt/arduino''"
  let ?out = "prepare_to_download_archive example_externals sudo_os member_example
                example_arduino_results"
  have i: "?i = Inr (projr ?i)" and l: "\<not> isl ?i" and c: "current_user (projr ?i) = ''bob''"
    by (simp_all add: Arduino_init_sudo)
  have g: "in_group sudo_os ''bob'' ''dialout''"
    by (simp add: in_group_def sudo_os_def example_os_def)
  have m: "was_in_arduino_group member_example" and u: "current_user member_example = ''bob''"
    by (simp_all add: member_example_fields)
  have a: "add_to_group sudo_os ''bob'' ''dialout''
     = ([Log DEBUG ''Added {} to {}: {}'' [Str ''bob'', Str ''dialout'', Bytes ''Done.'']], Inr True)"
    by (simp add: add_to_group_def sudo_os_def example_os_def)
  have e: "effects ?out = [Log INFO ''Final download url: %s, cookies: %s.''
          [Str ''http://d/get/arduino.tar.xz'', CookieJar [(''session'', ''42'')]]]"
    by (simp add: prepare_member_example)
  note inst = recorded_member_skips_privilege_step
      [of example_externals sudo_os "''/opt/arduino''" member_example _ example_arduino_results]
  from inst i g c have 1: "was_in_arduino_group (projr ?i)" "\<not> need_root_access (projr ?i)"
    by metis+
  from inst m have 2: "filter is_worker (effects ?out) = []"
    and 3: "filter is_delayed_display (arduino_post_install member_example) = []"
    by blast+
  from inst m a u have "prepare_to_download_archive example_externals sudo_os
       (non_member member_example) example_arduino_results
     = with_group_step
         ([Log DEBUG ''Added {} to {}: {}'' [Str ''bob'', Str ''dialout'', Bytes ''Done.'']] @
          [WorkerProcess ''bob'' ''dialout'' (Inr True)]) ?out"
    by simp
  then have 4: "prepare_to_download_archive example_externals sudo_os (non_member member_example)
       example_arduino_results
     = StartDownloadAndInstall
         [Log INFO ''Final download url: %s, cookies: %s.''
            [Str ''http://d/get/arduino.tar.xz'', CookieJar [(''session'', ''42'')]],
          Log DEBUG ''Added {} to {}: {}'' [Str ''bob'', Str ''dialout'', Bytes ''Done.''],
          WorkerProcess ''bob'' ''dialout'' (Inr True)]
         (non_member (member_example\<lparr>download_requests :=
            [\<lparr>item_url = ''http://d/get/arduino.tar.xz'',
              item_checksum = Some (Checksum md5 ''def456''),
              item_ignore_encoding = False,
              item_cookies = Some [(''session'', ''42'')]\<rparr>]\<rparr>))"
    by (simp add: prepare_member_example)
  from l g 1 m a e 2 3 4 show ?thesis by blast
qed

section \<open>A member of the group who runs the tool without sudo\<close>

lemma Arduino_init_member_without_sudo:
  "Arduino_init example_externals member_without_sudo_os p =
     Inr \<lparr>name = ''Arduino'',
          description = ''The Arduino Software Distribution'',
          only_on_archs = [''i386'', ''amd64''],
          download_page = Some ''http://www.arduino.cc/en/Main/Software'',
          desktop_filename = ''arduino.desktop'',
          packages_requirements = [''openjdk-7-jdk'', ''jayatana'', ''gcc-avr'', ''avr-libc''],
          need_root_access = True,
          icon_filename = None,
          download_requests = [],
          install_path = p,
          version = None,
          current_user = ''root'',
          was_in_arduino_group = False,
          scraped_checksum_url = None,
          scraped_download_url = None,
          bits = ''64''\<rparr>"
  by (simp add: Arduino_init_def member_without_sudo_os_def example_os_def ARDUINO_GROUP_def
        Let_def)

lemma member_without_sudo_example_fields:
  "scraped_download_url member_without_sudo_example
     = Some ''http://d/arduino-1.6.3-linux64.tar.xz''"
  "scraped_checksum_url member_without_sudo_example = Some ''http://d/sums.txt''"
  "was_in_arduino_group member_without_sudo_example = False"
  "need_root_access member_without_sudo_example = True"
  "current_user member_without_sudo_example = ''root''"
  "bits member_without_sudo_example = ''64''"
  "download_requests member_without_sudo_example = []"
  "install_path member_without_sudo_example = ''/opt/arduino''"
  "desktop_filename member_without_sudo_example = ''arduino.desktop''"
  by (simp_all add: member_without_sudo_example_def Arduino_init_member_without_sudo)

lemma member_without_sudo_os_fields:
  "geteuid member_without_sudo_os = 1000" "getenv member_without_sudo_os ''USER'' = Some ''alice''"
  "getenv member_without_sudo_os ''SUDO_UID'' = None"
  "seteuid_root member_without_sudo_os" "adduser member_without_sudo_os u g = Output ''Done.''"
  "in_group member_without_sudo_os ''alice'' ''dialout''"
  by (simp_all add: member_without_sudo_os_def example_os_def in_group_def)

lemma prepare_member_without_sudo:
  "prepare_to_download_archive example_externals member_without_sudo_os
     member_without_sudo_example example_arduino_results
   = StartDownloadAndInstall
       [Log INFO ''Final download url: %s, cookies: %s.''
          [Str ''http://d/get/arduino.tar.xz'', CookieJar [(''session'', ''42'')]],
        Log DEBUG ''Added {} to {}: {}'' [Str ''root'', Str ''dialout'', Bytes ''Done.''],
        WorkerProcess ''root'' ''dialout'' (Inr True)]
       (member_without_sudo_example\<lparr>download_requests :=
          [\<lparr>item_url = ''http://d/get/arduino.tar.xz'',
            item_checksum = Some (Checksum md5 ''def456''),
            item_ignore_encoding = False,
            item_cookies = Some [(''session'', ''42'')]\<rparr>]\<rparr>)"
  by (simp add: prepare_to_download_archive_def member_without_sudo_example_fields
        example_results_lookup example_download_page_fields fetched_def example_checksum_page
        example_soup_button example_button example_urljoin add_to_group_def
        member_without_sudo_os_fields ARDUINO_GROUP_def DownloadItem_def Let_def)

lemma post_install_member_without_sudo:
  "filter is_delayed_display (arduino_post_install member_without_sudo_example)
     = [DelayedDisplay ''You need to logout and login again for your installation to work'']"
  by (simp add: arduino_post_install_def member_without_sudo_example_fields Let_def)

text \<open>
  C10, where the code departs from it. \<open>alice\<close> is a member of \<open>dialout\<close> and runs the
  tool without \<open>sudo\<close>: the effective uid is 1000, \<open>USER\<close> is \<open>alice\<close> and \<open>SUDO_UID\<close>
  is not set. \<open>Arduino.__init__\<close> assigns \<open>alice\<close> to \<open>_current_user\<close> and, for want
  of an \<open>else\<close>, overwrites it with the account of uid 0. So the installer is built for
  \<open>root\<close>, who is not in the group: it asks for root access,
  \<open>prepare_to_download_archive\<close> runs the worker process for \<open>root\<close>, and
  \<open>post_install\<close> queues the notice to log out and in again.
\<close>

theorem member_without_sudo_is_taken_for_root:
  "geteuid member_without_sudo_os = 1000 \<and>
   getenv member_without_sudo_os ''USER'' = Some ''alice'' \<and>
   getenv member_without_sudo_os ''SUDO_UID'' = None \<and>
   in_group member_without_sudo_os ''alice'' ''dialout'' \<and>
   \<not> isl (Arduino_init example_externals member_without_sudo_os ''/opt/arduino'') \<and>
   current_user (projr (Arduino_init example_externals member_without_sudo_os ''/opt/arduino''))
     = ''root'' \<and>
   \<not> was_in_arduino_group
       (projr (Arduino_init example_externals member_without_sudo_os ''/opt/arduino'')) \<and>
   need_root_access
       (projr (Arduino_init example_externals member_without_sudo_os ''/opt/arduino'')) \<and>
   prepare_to_download_archive example_externals member_without_sudo_os
       member_without_sudo_example example_arduino_results
     = StartDownloadAndInstall
         [Log INFO ''Final download url: %s, cookies: %s.''
            [Str ''http://d/get/arduino.tar.xz'', CookieJar [(''session'', ''42'')]],
          Log DEBUG ''Added {} to {}: {}'' [Str ''root'', Str ''dialout'', Bytes ''Done.''],
          WorkerProcess ''root'' ''dialout'' (Inr True)]
         (member_without_sudo_example\<lparr>download_requests :=
            [\<lparr>item_url = ''http://d/get/arduino.tar.xz'',
              item_checksum = Some (Checksum md5 ''def456''),
              item_ignore_encoding = False,
              item_cookies = Some [(''session'', ''42'')]\<rparr>]\<rparr>) \<and>
   filter is_delayed_display (arduino_post_install member_without_sudo_example)
     = [DelayedDisplay ''You need to logout and login again for your installation to work'']"
  by (simp add: member_without_sudo_os_fields Arduino_init_member_without_sudo
        prepare_member_without_sudo post_install_member_without_sudo)

section \<open>Pattern extraction: no match, several matches\<close>

lemma soup_find_Nil: "soup_find_all nm p soup = [] \<Longrightarrow> soup_find nm p soup = None"
  by (simp add: soup_find_def)

lemma soup_find_Cons: "soup_find_all nm p soup = x # xs \<Longrightarrow> soup_find nm p soup = Some x"
  by (simp add: soup_find_def)

lemma jetbrains_no_anchor:
  assumes "lookup result (download_page self) = Some page" "\<not> truthy (error page)"
    "buffer page = Some body"
    "soup_find_all ''a'' (text_is ''HTTPS'') (BeautifulSoup ext body) = []"
  shows "jetbrains_get_metadata_and_check_license ext self result =
     ReturnMainScreen
       [Log DEBUG ''Fetched download page, parsing.'' [],
        Log ERROR ''Can't parse the download URL from the download page.'' []] 1"
  using assms
  by (simp add: jetbrains_get_metadata_and_check_license_def soup_find_Nil)

lemma jetbrains_first_anchor:
  assumes "lookup result (download_page self) = Some page" "\<not> truthy (error page)"
    "buffer page = Some body"
    "soup_find_all ''a'' (text_is ''HTTPS'') (BeautifulSoup ext body) = (link, parent) # others"
    "map_of (tag_attrs link) ''href'' = Some u"
  shows "jetbrains_get_metadata_and_check_license ext self result
     = DownloadCenter
         [Log DEBUG ''Fetched download page, parsing.'' [],
          Log DEBUG (''Found download URL: '' @ u) [],
          Log DEBUG (''Downloading checksum first, from '' @ u @ ''.sha256'') []]
         [DownloadItem (u @ ''.sha256'') None] False
         (checksum_downloaded ext self u)"
  using assms
  by (simp add: jetbrains_get_metadata_and_check_license_def soup_find_Cons Let_def)

lemma jetbrains_first_anchor_without_href:
  assumes "lookup result (download_page self) = Some page" "\<not> truthy (error page)"
    "buffer page = Some body"
    "soup_find_all ''a'' (text_is ''HTTPS'') (BeautifulSoup ext body) = (link, parent) # others"
    "map_of (tag_attrs link) ''href'' = None"
  shows "jetbrains_get_metadata_and_check_license ext self result
     = Raised [Log DEBUG ''Fetched download page, parsing.'' []] KeyError"
  using assms
  by (simp add: jetbrains_get_metadata_and_check_license_def soup_find_Cons Let_def)

lemma soup_find_all_head:
  assumes "soup_find_all nm p soup = (t, pa) # xs"
  shows "tag_named nm t \<and> p t"
proof -
  from assms have "(t, pa) \<in> set (soup_find_all nm p soup)" by simp
  then show ?thesis by (simp add: soup_find_all_def)
qed

lemma href_search_has_href:
  "href_search b t \<Longrightarrow> \<exists>h. map_of (tag_attrs t) ''href'' = Some h"
  by (simp add: href_search_def split: option.splits)

lemma scrape_no_match:
  assumes "scraped_download_url self = None" "scraped_checksum_url self = None"
    "soup_find_all ''a'' (href_search (bits self)) soup = [] \<or>
     soup_find_all ''a'' (text_search ''Checksums'') soup = []"
  shows "\<exists>self1. scrape self soup = Inr self1 \<and> download_page self1 = download_page self \<and>
           (\<not> truthy (scraped_download_url self1) \<or> \<not> truthy (scraped_checksum_url self1))"
proof (cases "soup_find_all ''a'' (href_search (bits self)) soup")
  case Nil
  with assms(1) show ?thesis by (simp add: scrape_def soup_find_Nil)
next
  case (Cons x xs)
  obtain a1 p1 where x: "x = (a1, p1)" by (cases x)
  from soup_find_all_head [OF Cons [unfolded x]] href_search_has_href [of "bits self" a1]
  obtain h1 where h: "map_of (tag_attrs a1) ''href'' = Some h1" by blast
  from Cons assms(3) have "soup_find_all ''a'' (text_search ''Checksums'') soup = []" by simp
  with Cons x h assms(2) show ?thesis
    by (simp add: scrape_def soup_find_Nil soup_find_Cons Let_def)
qed

lemma arduino_no_match:
  assumes "lookup result (download_page self) = Some page" "\<not> truthy (error page)"
    "buffer page = Some body"
    "scraped_download_url self = None" "scraped_checksum_url self = None"
    "soup_find_all ''a'' (href_search (bits self)) (BeautifulSoup ext body) = [] \<or>
     soup_find_all ''a'' (text_search ''Checksums'') (BeautifulSoup ext body) = []"
  shows "aborted (arduino_get_metadata_and_check_license ext os self result) = Some 1"
    and "list_ex is_error_log (effects (arduino_get_metadata_and_check_license ext os self result))"
proof -
  from scrape_no_match [OF assms(4,5,6)] obtain self1 where
    s: "scrape self (BeautifulSoup ext body) = Inr self1"
       "\<not> truthy (scraped_download_url self1) \<or> \<not> truthy (scraped_checksum_url self1)"
    by blast
  with assms(1,2,3)
  show "aborted (arduino_get_metadata_and_check_license ext os self result) = Some 1"
    and "list_ex is_error_log (effects (arduino_get_metadata_and_check_license ext os self result))"
    by (auto simp: arduino_get_metadata_and_check_license_def Let_def)
qed

lemma scraped_update_order:
  "(self :: arduino)\<lparr>scraped_download_url := a, scraped_checksum_url := b\<rparr>
     = self\<lparr>scraped_checksum_url := b, scraped_download_url := a\<rparr>"
  by simp

lemma arduino_first_match:
  assumes "lookup result (download_page self) = Some page" "\<not> truthy (error page)"
    "buffer page = Some body"
    "soup_find_all ''a'' (href_search (bits self)) (BeautifulSoup ext body) = (a1, p1) # rest1"
    "soup_find_all ''a'' (text_search ''Checksums'') (BeautifulSoup ext body) = (a2, p2) # rest2"
    "map_of (tag_attrs a2) ''href'' = Some h2"
  shows "\<exists>h1. map_of (tag_attrs a1) ''href'' = Some h1 \<and>
     arduino_get_metadata_and_check_license ext os self result
     = DownloadCenter [Log DEBUG ''Parse download metadata'' []]
         [DownloadItem (''http:'' @ h1) None, DownloadItem (''http:'' @ h2) None] False
         (prepare_to_download_archive ext os
            (self\<lparr>scraped_checksum_url := Some (''http:'' @ h2),
                   scraped_download_url := Some (''http:'' @ h1)\<rparr>))"
proof -
  from soup_find_all_head [OF assms(4)] href_search_has_href [of "bits self" a1]
  obtain h1 where h: "map_of (tag_attrs a1) ''href'' = Some h1" by blast
  with assms have "arduino_get_metadata_and_check_license ext os self result
     = DownloadCenter [Log DEBUG ''Parse download metadata'' []]
         [DownloadItem (''http:'' @ h1) None, DownloadItem (''http:'' @ h2) None] False
         (prepare_to_download_archive ext os
            (self\<lparr>scraped_checksum_url := Some (''http:'' @ h2),
                   scraped_download_url := Some (''http:'' @ h1)\<rparr>))"
    by (simp add: arduino_get_metadata_and_check_license_def scrape_def soup_find_Cons Let_def
          scraped_update_order)
  with h show ?thesis by blast
qed

lemma arduino_first_checksums_without_href:
  assumes "lookup result (download_page self) = Some page" "\<not> truthy (error page)"
    "buffer page = Some body"
    "soup_find_all ''a'' (href_search (bits self)) (BeautifulSoup ext body) = (a1, p1) # rest1"
    "soup_find_all ''a'' (text_search ''Checksums'') (BeautifulSoup ext body) = (a2, p2) # rest2"
    "map_of (tag_attrs a2) ''href'' = None"
  shows "arduino_get_metadata_and_check_license ext os self result
     = Raised [Log DEBUG ''Parse download metadata'' []] KeyError"
proof -
  from soup_find_all_head [OF assms(4)] href_search_has_href [of "bits self" a1]
  obtain h1 where h: "map_of (tag_attrs a1) ''href'' = Some h1" by blast
  with assms show ?thesis
    by (simp add: arduino_get_metadata_and_check_license_def scrape_def soup_find_Cons Let_def)
qed

lemma example_two_anchors_found:
  "soup_find_all ''a'' (text_is ''HTTPS'')
     [Tag ''a'' [(''href'', ''https://x/one.tar.gz'')] [NavigableString ''HTTPS''],
      Tag ''a'' [(''href'', ''https://x/two.tar.gz'')] [NavigableString ''HTTPS'']]
   = [(Tag ''a'' [(''href'', ''https://x/one.tar.gz'')] [NavigableString ''HTTPS''], []),
      (Tag ''a'' [(''href'', ''https://x/two.tar.gz'')] [NavigableString ''HTTPS''], [])]"
  by (simp add: soup_find_all_def soup_descendants_def text_is_def)

lemma jetbrains_two_anchors_example:
  "jetbrains_get_metadata_and_check_license example_externals (PyCharm_init p)
     [(PyCharm_download_page_url,
       fetched ''<a href=https://x/one.tar.gz>HTTPS</a><a href=https://x/two.tar.gz>HTTPS</a>'')]
   = DownloadCenter
       [Log DEBUG ''Fetched download page, parsing.'' [],
        Log DEBUG ''Found download URL: https://x/one.tar.gz'' [],
        Log DEBUG ''Downloading checksum first, from https://x/one.tar.gz.sha256'' []]
       [DownloadItem ''https://x/one.tar.gz.sha256'' None] False
       (checksum_downloaded example_externals (PyCharm_init p) ''https://x/one.tar.gz'')"
  by (simp add: jetbrains_get_metadata_and_check_license_def lookup_def PyCharm_init_fields
        fetched_def example_soup_two_anchors soup_find_def example_two_anchors_found Let_def)

text \<open>
  C3, as the claim states it, fails: on a page with two anchors labelled HTTPS the
  JetBrains resolver does not abort; it goes on with the first of them.
\<close>

theorem jetbrains_two_matches_counterexample:
  "length (soup_find_all ''a'' (text_is ''HTTPS'')
     (BeautifulSoup example_externals
        ''<a href=https://x/one.tar.gz>HTTPS</a><a href=https://x/two.tar.gz>HTTPS</a>'')) = 2 \<and>
   aborted (jetbrains_get_metadata_and_check_license example_externals
     (PyCharm_init ''/opt/pycharm'')
     [(PyCharm_download_page_url,
       fetched ''<a href=https://x/one.tar.gz>HTTPS</a><a href=https://x/two.tar.gz>HTTPS</a>'')])
     = None \<and>
   requested (jetbrains_get_metadata_and_check_license example_externals
     (PyCharm_init ''/opt/pycharm'')
     [(PyCharm_download_page_url,
       fetched ''<a href=https://x/one.tar.gz>HTTPS</a><a href=https://x/two.tar.gz>HTTPS</a>'')])
     = Some [DownloadItem ''https://x/one.tar.gz.sha256'' None]"
  by (simp add: jetbrains_two_anchors_example example_soup_two_anchors example_two_anchors_found)

text \<open>
  C3, amended. The page has been fetched without error.
  \<^item> JetBrains: with no anchor labelled HTTPS the resolver logs an error and aborts with
    status 1. With one or more it does not abort: it takes the first in document order,
    whatever the others are, and, that anchor having an \<open>href\<close>, asks for the checksum
    file of that \<open>href\<close> and goes on with \<open>checksum_downloaded\<close> for it.
  \<^item> Arduino, for an installer that has not scraped yet: when no anchor has a matching
    \<open>href\<close> or none reads Checksums, the resolver logs an error and aborts with status
    1. When each of the two searches has one match or more it does not abort: it takes
    the first match of each, whatever the others are, and, the first Checksums anchor
    having an \<open>href\<close>, asks for the two pages and goes on with
    \<open>prepare_to_download_archive\<close> for the two URLs.
\<close>

theorem no_match_aborts_first_match_wins:
  "(lookup result (download_page jb) = Some page \<and> \<not> truthy (error page) \<and>
    buffer page = Some body \<longrightarrow>
      (soup_find_all ''a'' (text_is ''HTTPS'') (BeautifulSoup ext body) = [] \<longrightarrow>
         jetbrains_get_metadata_and_check_license ext jb result =
           ReturnMainScreen
             [Log DEBUG ''Fetched download page, parsing.'' [],
              Log ERROR ''Can't parse the download URL from the download page.'' []] 1) \<and>
      (\<forall>link parent others u.
         soup_find_all ''a'' (text_is ''HTTPS'') (BeautifulSoup ext body) = (link, parent) # others \<and>
         map_of (tag_attrs link) ''href'' = Some u \<longrightarrow>
         jetbrains_get_metadata_and_check_license ext jb result
           = DownloadCenter
               [Log DEBUG ''Fetched download page, parsing.'' [],
                Log DEBUG (''Found download URL: '' @ u) [],
                Log DEBUG (''Downloading checksum first, from '' @ u @ ''.sha256'') []]
               [DownloadItem (u @ ''.sha256'') None] False
               (checksum_downloaded ext jb u))) \<and>
   (lookup result' (download_page ard) = Some page' \<and> \<not> truthy (error page') \<and>
    buffer page' = Some body' \<longrightarrow>
      (scraped_download_url ard = None \<and> scraped_checksum_url ard = None \<and>
       (soup_find_all ''a'' (href_search (bits ard)) (BeautifulSoup ext body') = [] \<or>
        soup_find_all ''a'' (text_search ''Checksums'') (BeautifulSoup ext body') = []) \<longrightarrow>
         aborted (arduino_get_metadata_and_check_license ext os ard result') = Some 1 \<and>
         list_ex is_error_log
           (effects (arduino_get_metadata_and_check_license ext os ard result'))) \<and>
      (\<forall>a1 p1 rest1 a2 p2 rest2 h2.
         soup_find_all ''a'' (href_search (bits ard)) (BeautifulSoup ext body')
           = (a1, p1) # rest1 \<and>
         soup_find_all ''a'' (text_search ''Checksums'') (BeautifulSoup ext body')
           = (a2, p2) # rest2 \<and>
         map_of (tag_attrs a2) ''href'' = Some h2 \<longrightarrow>
         (\<exists>h1. map_of (tag_attrs a1) ''href'' = Some h1 \<and>
            arduino_get_metadata_and_check_license ext os ard result'
              = DownloadCenter [Log DEBUG ''Parse download metadata'' []]
                  [DownloadItem (''http:'' @ h1) None, DownloadItem (''http:'' @ h2) None] False
                  (prepare_to_download_archive ext os
                     (ard\<lparr>scraped_checksum_url := Some (''http:'' @ h2),
                           scraped_download_url := Some (''http:'' @ h1)\<rparr>)))))"
proof (intro conjI allI impI; (elim conjE)?)
  assume "lookup result (download_page jb) = Some page" "\<not> truthy (error page)"
    "buffer page = Some body"
    "soup_find_all ''a'' (text_is ''HTTPS'') (BeautifulSoup ext body) = []"
  then show "jetbrains_get_metadata_and_check_license ext jb result =
           ReturnMainScreen
             [Log DEBUG ''Fetched download page, parsing.'' [],
              Log ERROR ''Can't parse the download URL from the download page.'' []] 1"
    by (rule jetbrains_no_anchor)
next
  fix link parent others u
  assume "lookup result (download_page jb) = Some page" "\<not> truthy (error page)"
    "buffer page = Some body"
    "soup_find_all ''a'' (text_is ''HTTPS'') (BeautifulSoup ext body) = (link, parent) # others"
    "map_of (tag_attrs link) ''href'' = Some u"
  then show "jetbrains_get_metadata_and_check_license ext jb result
           = DownloadCenter
               [Log DEBUG ''Fetched download page, parsing.'' [],
                Log DEBUG (''Found download URL: '' @ u) [],
                Log DEBUG (''Downloading checksum first, from '' @ u @ ''.sha256'') []]
               [DownloadItem (u @ ''.sha256'') None] False
               (checksum_downloaded ext jb u)"
    by (rule jetbrains_first_anchor)
next
  assume a: "lookup result' (download_page ard) = Some page'" "\<not> truthy (error page')"
    "buffer page' = Some body'" "scraped_download_url ard = None" "scraped_checksum_url ard = None"
    "soup_find_all ''a'' (href_search (bits ard)) (BeautifulSoup ext body') = [] \<or>
     soup_find_all ''a'' (text_search ''Checksums'') (BeautifulSoup ext body') = []"
  from arduino_no_match(1) [OF a]
  show "aborted (arduino_get_metadata_and_check_license ext os ard result') = Some 1" .
  from arduino_no_match(2) [OF a]
  show "list_ex is_error_log
           (effects (arduino_get_metadata_and_check_license ext os ard result'))" .
next
  fix a1 p1 rest1 a2 p2 rest2 h2
  assume "lookup result' (download_page ard) = Some page'" "\<not> truthy (error page')"
    "buffer page' = Some body'"
    "soup_find_all ''a'' (href_search (bits ard)) (BeautifulSoup ext body') = (a1, p1) # rest1"
    "soup_find_all ''a'' (text_search ''Checksums'') (BeautifulSoup ext body') = (a2, p2) # rest2"
    "map_of (tag_attrs a2) ''href'' = Some h2"
  then show "\<exists>h1. map_of (tag_attrs a1) ''href'' = Some h1 \<and>
            arduino_get_metadata_and_check_license ext os ard result'
              = DownloadCenter [Log DEBUG ''Parse download metadata'' []]
                  [DownloadItem (''http:'' @ h1) None, DownloadItem (''http:'' @ h2) None] False
                  (prepare_to_download_archive ext os
                     (ard\<lparr>scraped_checksum_url := Some (''http:'' @ h2),
                           scraped_download_url := Some (''http:'' @ h1)\<rparr>))"
    by (rule arduino_first_match)
qed

lemma example_moved_found:
  "soup_find_all ''a'' (text_is ''HTTPS'') [Tag ''p'' [] [NavigableString ''moved'']] = []"
  "soup_find_all ''a'' (href_search ''64'') [Tag ''p'' [] [NavigableString ''moved'']] = []"
  by (simp_all add: soup_find_all_def soup_descendants_def)

lemma example_arduino_found:
  "soup_find_all ''a'' (href_search ''64'')
     [Tag ''a'' [(''href'', ''//d/arduino-1.6.3-linux64.tar.xz'')] [NavigableString ''Linux''],
      Tag ''a'' [(''href'', ''//d/sums.txt'')] [NavigableString ''Checksums'']]
   = [(Tag ''a'' [(''href'', ''//d/arduino-1.6.3-linux64.tar.xz'')] [NavigableString ''Linux''], [])]"
  "soup_find_all ''a'' (text_search ''Checksums'')
     [Tag ''a'' [(''href'', ''//d/arduino-1.6.3-linux64.tar.xz'')] [NavigableString ''Linux''],
      Tag ''a'' [(''href'', ''//d/sums.txt'')] [NavigableString ''Checksums'']]
   = [(Tag ''a'' [(''href'', ''//d/sums.txt'')] [NavigableString ''Checksums''], [])]"
  by (simp_all add: soup_find_all_def soup_descendants_def example_arduino_tests)

lemma fetched_fields:
  "buffer (fetched b) = Some b" "error (fetched b) = None"
  by (simp_all add: fetched_def)

lemma example_arduino_init_fields:
  "download_page (projr (Arduino_init example_externals example_os p))
     = Some ''http://www.arduino.cc/en/Main/Software''"
  "scraped_download_url (projr (Arduino_init example_externals example_os p)) = None"
  "scraped_checksum_url (projr (Arduino_init example_externals example_os p)) = None"
  "bits (projr (Arduino_init example_externals example_os p)) = ''64''"
  by (simp_all add: Arduino_init_example)

text \<open>The amended claim on four pages: a page without any anchor and a page with two
  anchors labelled HTTPS for JetBrains; the page without any anchor and the download page
  of the example for Arduino.\<close>

theorem no_match_aborts_first_match_wins_witness:
  "jetbrains_get_metadata_and_check_license example_externals (PyCharm_init ''/opt/pycharm'')
     [(PyCharm_download_page_url, fetched ''<p>moved</p>'')]
   = ReturnMainScreen
       [Log DEBUG ''Fetched download page, parsing.'' [],
        Log ERROR ''Can't parse the download URL from the download page.'' []] 1 \<and>
   jetbrains_get_metadata_and_check_license example_externals
     (PyCharm_init ''/opt/pycharm'')
     [(PyCharm_download_page_url,
       fetched ''<a href=https://x/one.tar.gz>HTTPS</a><a href=https://x/two.tar.gz>HTTPS</a>'')]
   = DownloadCenter
       [Log DEBUG ''Fetched download page, parsing.'' [],
        Log DEBUG ''Found download URL: https://x/one.tar.gz'' [],
        Log DEBUG ''Downloading checksum first, from https://x/one.tar.gz.sha256'' []]
       [DownloadItem ''https://x/one.tar.gz.sha256'' None] False
       (checksum_downloaded example_externals (PyCharm_init ''/opt/pycharm'')
          ''https://x/one.tar.gz'') \<and>
   aborted (arduino_get_metadata_and_check_license example_externals example_os
     (projr (Arduino_init example_externals example_os ''/opt/arduino''))
     [(''http://www.arduino.cc/en/Main/Software'', fetched ''<p>moved</p>'')]) = Some 1 \<and>
   list_ex is_error_log (effects (arduino_get_metadata_and_check_license example_externals
     example_os (projr (Arduino_init example_externals example_os ''/opt/arduino''))
     [(''http://www.arduino.cc/en/Main/Software'', fetched ''<p>moved</p>'')])) \<and>
   arduino_get_metadata_and_check_license example_externals example_os
     (projr (Arduino_init example_externals example_os ''/opt/arduino''))
     [(''http://www.arduino.cc/en/Main/Software'',
       fetched ''<a href=//d/arduino-1.6.3-linux64.tar.xz>Linux</a><a href=//d/sums.txt>Checksums</a>'')]
   = DownloadCenter [Log DEBUG ''Parse download metadata'' []]
       [DownloadItem ''http://d/arduino-1.6.3-linux64.tar.xz'' None,
        DownloadItem ''http://d/sums.txt'' None] False
       (prepare_to_download_archive example_externals example_os scraped_example)"
proof -
  let ?jb = "PyCharm_init ''/opt/pycharm''"
  let ?ard = "projr (Arduino_init example_externals example_os ''/opt/arduino'')"
  let ?moved = "''<p>moved</p>''"
  let ?two = "''<a href=https://x/one.tar.gz>HTTPS</a><a href=https://x/two.tar.gz>HTTPS</a>''"
  let ?links = "''<a href=//d/arduino-1.6.3-linux64.tar.xz>Linux</a><a href=//d/sums.txt>Checksums</a>''"
  let ?aurl = "''http://www.arduino.cc/en/Main/Software''"
  let ?a1 = "Tag ''a'' [(''href'', ''//d/arduino-1.6.3-linux64.tar.xz'')] [NavigableString ''Linux'']"
  let ?a2 = "Tag ''a'' [(''href'', ''//d/sums.txt'')] [NavigableString ''Checksums'']"
  let ?l1 = "Tag ''a'' [(''href'', ''https://x/one.tar.gz'')] [NavigableString ''HTTPS'']"
  let ?l2 = "Tag ''a'' [(''href'', ''https://x/two.tar.gz'')] [NavigableString ''HTTPS'']"
  note none = no_match_aborts_first_match_wins
      [where result = "[(PyCharm_download_page_url, fetched ?moved)]" and jb = ?jb
         and page = "fetched ?moved" and body = ?moved and ext = example_externals
         and result' = "[(?aurl, fetched ?moved)]" and ard = ?ard and page' = "fetched ?moved"
         and body' = ?moved and os = example_os]
  note some = no_match_aborts_first_match_wins
      [where result = "[(PyCharm_download_page_url, fetched ?two)]" and jb = ?jb
         and page = "fetched ?two" and body = ?two and ext = example_externals
         and result' = "[(?aurl, fetched ?links)]" and ard = ?ard and page' = "fetched ?links"
         and body' = ?links and os = example_os]
  have lk: "\<And>b. lookup [(PyCharm_download_page_url, fetched b)] (download_page ?jb)
               = Some (fetched b)"
    "\<And>b. lookup [(?aurl, fetched b)] (download_page ?ard) = Some (fetched b)"
    by (simp_all add: lookup_def PyCharm_init_fields example_arduino_init_fields)
  from none lk have 1: "jetbrains_get_metadata_and_check_license example_externals ?jb
     [(PyCharm_download_page_url, fetched ?moved)]
   = ReturnMainScreen
       [Log DEBUG ''Fetched download page, parsing.'' [],
        Log ERROR ''Can't parse the download URL from the download page.'' []] 1"
    by (simp add: fetched_fields example_soup_moved example_moved_found)
  from none lk have 3: "aborted (arduino_get_metadata_and_check_license example_externals
     example_os ?ard [(?aurl, fetched ?moved)]) = Some 1 \<and>
     list_ex is_error_log (effects (arduino_get_metadata_and_check_license example_externals
     example_os ?ard [(?aurl, fetched ?moved)]))"
    by (simp add: fetched_fields example_soup_moved example_moved_found
          example_arduino_init_fields)
  have two: "soup_find_all ''a'' (text_is ''HTTPS'') (BeautifulSoup example_externals ?two)
               = (?l1, []) # [(?l2, [])]"
    "map_of (tag_attrs ?l1) ''href'' = Some ''https://x/one.tar.gz''"
    by (simp_all add: example_soup_two_anchors example_two_anchors_found)
  have 2: "jetbrains_get_metadata_and_check_license example_externals ?jb
     [(PyCharm_download_page_url, fetched ?two)]
   = DownloadCenter
       [Log DEBUG ''Fetched download page, parsing.'' [],
        Log DEBUG ''Found download URL: https://x/one.tar.gz'' [],
        Log DEBUG ''Downloading checksum first, from https://x/one.tar.gz.sha256'' []]
       [DownloadItem ''https://x/one.tar.gz.sha256'' None] False
       (checksum_downloaded example_externals ?jb ''https://x/one.tar.gz'')"
    using some [THEN conjunct1, rule_format, THEN conjunct2, rule_format,
                of ?l1 "[]" "[(?l2, [])]" "''https://x/one.tar.gz''"] lk(1) [of ?two] two
    by (simp add: fetched_fields)
  have links: "soup_find_all ''a'' (href_search (bits ?ard)) (BeautifulSoup example_externals ?links)
               = (?a1, []) # []"
    "soup_find_all ''a'' (text_search ''Checksums'') (BeautifulSoup example_externals ?links)
               = (?a2, []) # []"
    "map_of (tag_attrs ?a2) ''href'' = Some ''//d/sums.txt''"
    "map_of (tag_attrs ?a1) ''href'' = Some ''//d/arduino-1.6.3-linux64.tar.xz''"
    by (simp_all add: example_soup_arduino example_arduino_found example_arduino_init_fields)
  have "\<exists>h1. map_of (tag_attrs ?a1) ''href'' = Some h1 \<and>
     arduino_get_metadata_and_check_license example_externals example_os ?ard
       [(?aurl, fetched ?links)]
     = DownloadCenter [Log DEBUG ''Parse download metadata'' []]
         [DownloadItem (''http:'' @ h1) None, DownloadItem (''http:'' @ ''//d/sums.txt'') None]
         False
         (prepare_to_download_archive example_externals example_os
            (?ard\<lparr>scraped_checksum_url := Some (''http:'' @ ''//d/sums.txt''),
                   scraped_download_url := Some (''http:'' @ h1)\<rparr>))"
    using some [THEN conjunct2, rule_format, THEN conjunct2, rule_format,
                of ?a1 "[]" "[]" ?a2 "[]" "[]" "''//d/sums.txt''"] lk(2) [of ?links] links(1,2,3)
    by (simp add: fetched_fields)
  with links(4) have 4: "arduino_get_metadata_and_check_license example_externals example_os
     ?ard [(?aurl, fetched ?links)]
   = DownloadCenter [Log DEBUG ''Parse download metadata'' []]
       [DownloadItem ''http://d/arduino-1.6.3-linux64.tar.xz'' None,
        DownloadItem ''http://d/sums.txt'' None] False
       (prepare_to_download_archive example_externals example_os scraped_example)"
    by (auto simp: scraped_example_def)
  from 1 2 3 4 show ?thesis by blast
qed

section \<open>Errors during metadata resolution\<close>

lemma jetbrains_error_aborts:
  "list_ex is_error_log (effects (jetbrains_get_metadata_and_check_license ext self result)) \<Longrightarrow>
     aborted (jetbrains_get_metadata_and_check_license ext self result) = Some 1"
  by (auto simp: jetbrains_get_metadata_and_check_license_def Let_def
           split: option.splits if_splits prod.splits)

lemma checksum_downloaded_error_aborts:
  "list_ex is_error_log (effects (checksum_downloaded ext self u results)) \<Longrightarrow>
     aborted (checksum_downloaded ext self u results) = Some 1"
  by (auto simp: checksum_downloaded_def split: option.splits if_splits prod.splits list.splits)

lemma eclipse_error_aborts:
  "list_ex is_error_log (effects (download_provider_page ext arch self)) \<Longrightarrow>
     aborted (download_provider_page ext arch self) = Some 1"
  by (auto simp: download_provider_page_def Let_def split: if_splits)

lemma done_cb_error_aborts:
  "list_ex is_error_log (effects (done_cb ext self arch u results)) \<Longrightarrow>
     aborted (done_cb ext self arch u results) = Some 1"
  by (auto simp: done_cb_def Let_def split: option.splits if_splits list.splits)

lemma arduino_error_aborts:
  "list_ex is_error_log (effects (arduino_get_metadata_and_check_license ext os self result)) \<Longrightarrow>
     aborted (arduino_get_metadata_and_check_license ext os self result) = Some 1"
  by (auto simp: arduino_get_metadata_and_check_license_def Let_def
           split: option.splits if_splits sum.splits)

lemma prepare_error_aborts:
  "list_ex is_error_log (effects (prepare_to_download_archive ext os self res)) \<Longrightarrow>
     aborted (prepare_to_download_archive ext os self res) = Some 1"
  by (auto simp: prepare_to_download_archive_def add_to_group_def Let_def
           split: option.splits if_splits prod.splits sum.splits check_output.splits)

lemma netbeans_error_aborts:
  "list_ex is_error_log (effects (netbeans_get_metadata_and_check_license ext self result)) \<Longrightarrow>
     aborted (netbeans_get_metadata_and_check_license ext self result) = Some 1"
  by (auto simp: netbeans_get_metadata_and_check_license_def Let_def
           split: option.splits if_splits)

lemma parse_callback_error_aborts:
  "list_ex is_error_log (effects (parse_download_page_callback ext self result)) \<Longrightarrow>
     aborted (parse_download_page_callback ext self result) = Some 1"
  by (auto simp: parse_download_page_callback_def not_parsable_def Let_def
           split: option.splits if_splits)

lemma BaseNetBeans_init_fields:
  "download_page (BaseNetBeans_init [] p) = Some ''https://netbeans.org/downloads/zip.html''"
  "version (BaseNetBeans_init [] p) = None"
  "flavour (BaseNetBeans_init [] p) = []"
  "download_requests (BaseNetBeans_init [] p) = []"
  by (simp_all add: BaseNetBeans_init_def)

lemma failed_fields: "buffer failed = None" "error failed = Some ''Connection timed out''"
  by (simp_all add: failed_def)

lemma failed_results_lookup:
  "lookup failed_results (Some PyCharm_download_page_url) = Some failed"
  "map_of failed_results (DOWNLOAD_URL_PAT ''-x86_64'' ''.md5'') = Some failed"
  "lookup failed_results (Some ''http://www.arduino.cc/en/Main/Software'') = Some failed"
  "lookup failed_results (Some ''http://d/arduino-1.6.3-linux64.tar.xz'') = Some failed"
  "lookup failed_results (Some ''http://d/sums.txt'') = Some failed"
  "lookup failed_results (Some ''https://netbeans.org/downloads/zip.html'') = Some failed"
  "lookup failed_results (Some example_files_url) = Some failed"
  by code_simp+

lemma failed_results_first:
  "failed_results = (PyCharm_download_page_url, failed) # tl failed_results"
  by code_simp

lemma netbeans_example_fields:
  "download_page netbeans_example = Some ''https://netbeans.org/downloads/zip.html''"
  "version netbeans_example = Some ''8.0.2''"
  "version_download_page netbeans_example = Some example_files_url"
  "flavour netbeans_example = []"
  by (simp_all add: netbeans_example_def BaseNetBeans_init_def)


section \<open>Where the values a resolver passes on come from\<close>

lemma jetbrains_requested:
  assumes "requested (jetbrains_get_metadata_and_check_license ext self result) = Some items"
  shows "\<exists>page body link parent href.
           lookup result (download_page self) = Some page \<and> \<not> truthy (error page) \<and>
           buffer page = Some body \<and>
           soup_find ''a'' (text_is ''HTTPS'') (BeautifulSoup ext body) = Some (link, parent) \<and>
           map_of (tag_attrs link) ''href'' = Some href \<and>
           items = [DownloadItem (href @ ''.sha256'') None] \<and>
           on_done (jetbrains_get_metadata_and_check_license ext self result)
             = checksum_downloaded ext self href"
  using assms
  by (auto simp: jetbrains_get_metadata_and_check_license_def Let_def
           split: option.splits if_splits prod.splits intro!: ext)

lemma checksum_downloaded_started:
  assumes "started (checksum_downloaded ext self url results) = Some s"
  shows "\<exists>body decoded digest.
           results \<noteq> [] \<and> \<not> truthy (error (snd (hd results))) \<and>
           buffer (snd (hd results)) = Some body \<and> decode_utf8 ext body = Some decoded \<and>
           first_token decoded = Some digest \<and>
           download_requests s = download_requests self @
             [\<lparr>item_url = url, item_checksum = Some (Checksum sha256 digest),
               item_ignore_encoding = True, item_cookies = None\<rparr>]"
proof -
  from assms obtain ev where
    "checksum_downloaded ext self url results = StartDownloadAndInstall ev s"
    by (cases "checksum_downloaded ext self url results") auto
  from checksum_downloaded_Start [OF this] show ?thesis .
qed

lemma eclipse_requested:
  assumes "requested (download_provider_page ext arch self) = Some items"
  shows "(arch = ''i686'' \<or> arch = ''x86_64'') \<and>
         items = [DownloadItem
                    (DOWNLOAD_URL_PAT (if arch = ''i686'' then [] else ''-x86_64'') ''.md5'') None]"
  using assms by (auto simp: download_provider_page_def Let_def split: if_splits)

lemma done_cb_started:
  assumes "started (done_cb ext self arch md5_url results) = Some s"
  shows "(arch = ''i686'' \<or> arch = ''x86_64'') \<and>
         (\<exists>r body decoded digest.
           map_of results md5_url = Some r \<and> \<not> truthy (error r) \<and>
           buffer r = Some body \<and> decode_utf8 ext body = Some decoded \<and>
           first_token decoded = Some digest \<and>
           download_requests s = download_requests self @
             [DownloadItem (DOWNLOAD_URL_PAT (if arch = ''i686'' then [] else ''-x86_64'') [])
                (Some (Checksum md5 digest))])"
proof -
  from assms obtain ev where
    st: "done_cb ext self arch md5_url results = StartDownloadAndInstall ev s"
    by (cases "done_cb ext self arch md5_url results") auto
  then have "(arch = ''i686'' \<or> arch = ''x86_64'') \<and>
     (\<exists>r body decoded digest ts.
           map_of results md5_url = Some r \<and> \<not> truthy (error r) \<and>
           buffer r = Some body \<and> decode_utf8 ext body = Some decoded \<and>
           split decoded = digest # ts \<and>
           download_requests s = download_requests self @
             [DownloadItem (DOWNLOAD_URL_PAT (if arch = ''i686'' then [] else ''-x86_64'') [])
                (Some (Checksum md5 digest))])"
    by (auto simp: done_cb_def Let_def split: list.splits if_splits option.splits)
  then obtain r body decoded digest ts where
    h: "arch = ''i686'' \<or> arch = ''x86_64''"
       "map_of results md5_url = Some r" "\<not> truthy (error r)" "buffer r = Some body"
       "decode_utf8 ext body = Some decoded" "split decoded = digest # ts"
       "download_requests s = download_requests self @
             [DownloadItem (DOWNLOAD_URL_PAT (if arch = ''i686'' then [] else ''-x86_64'') [])
                (Some (Checksum md5 digest))]"
    by blast
  from h(6) have "first_token decoded = Some digest" by (rule split_Cons_first_token)
  with h show ?thesis by blast
qed

lemma scrape_requested:
  assumes "scraped_download_url self = None" "scraped_checksum_url self = None"
    and "scrape self soup = Inr self1"
    and "truthy (scraped_download_url self1)" "truthy (scraped_checksum_url self1)"
  shows "\<exists>a1 p1 h1 a2 p2 h2.
           soup_find ''a'' (href_search (bits self)) soup = Some (a1, p1) \<and>
           map_of (tag_attrs a1) ''href'' = Some h1 \<and>
           soup_find ''a'' (text_search ''Checksums'') soup = Some (a2, p2) \<and>
           map_of (tag_attrs a2) ''href'' = Some h2 \<and>
           scraped_download_url self1 = Some (''http:'' @ h1) \<and>
           scraped_checksum_url self1 = Some (''http:'' @ h2)"
  using assms
  by (auto simp: scrape_def Let_def split: option.splits prod.splits)

lemma arduino_requested:
  assumes "scraped_download_url self = None" "scraped_checksum_url self = None"
    and "requested (arduino_get_metadata_and_check_license ext os self result) = Some items"
  shows "\<exists>page body a1 p1 h1 a2 p2 h2.
           lookup result (download_page self) = Some page \<and> \<not> truthy (error page) \<and>
           buffer page = Some body \<and>
           soup_find ''a'' (href_search (bits self)) (BeautifulSoup ext body) = Some (a1, p1) \<and>
           map_of (tag_attrs a1) ''href'' = Some h1 \<and>
           soup_find ''a'' (text_search ''Checksums'') (BeautifulSoup ext body) = Some (a2, p2) \<and>
           map_of (tag_attrs a2) ''href'' = Some h2 \<and>
           items = [DownloadItem (''http:'' @ h1) None, DownloadItem (''http:'' @ h2) None]"
proof -
  from assms(3) obtain page body self1 where
    h: "lookup result (download_page self) = Some page" "\<not> truthy (error page)"
       "buffer page = Some body" "scrape self (BeautifulSoup ext body) = Inr self1"
       "truthy (scraped_download_url self1)" "truthy (scraped_checksum_url self1)"
       "items = [DownloadItem (the (scraped_download_url self1)) None,
                 DownloadItem (the (scraped_checksum_url self1)) None]"
    by (auto simp: arduino_get_metadata_and_check_license_def Let_def
          split: option.splits sum.splits if_splits)
  from scrape_requested [OF assms(1,2) h(4,5,6)] h(1,2,3,7) show ?thesis by force
qed

lemma prepare_started:
  assumes "started (prepare_to_download_archive ext os self results) = Some s"
  shows "\<exists>page body btn parent href sums sums_body checksums digest.
           lookup results (scraped_download_url self) = Some page \<and>
           \<not> truthy (error page) \<and> buffer page = Some body \<and>
           soup_find ''button'' (text_search ''JUST DOWNLOAD'') (BeautifulSoup ext body)
             = Some (btn, parent) \<and>
           map_of parent ''href'' = Some href \<and>
           lookup results (scraped_checksum_url self) = Some sums \<and>
           \<not> truthy (error sums) \<and> buffer sums = Some sums_body \<and>
           decode_ascii sums_body = Some checksums \<and>
           search_checksum (bits self) True checksums = Some digest \<and>
           download_requests s =
             [\<lparr>item_url = urljoin ext (final_url page) href,
               item_checksum = Some (Checksum md5 digest),
               item_ignore_encoding = False,
               item_cookies = Some (cookies page)\<rparr>]"
proof -
  from assms obtain ev where
    "prepare_to_download_archive ext os self results = StartDownloadAndInstall ev s"
    by (cases "prepare_to_download_archive ext os self results") auto
  then show ?thesis
    by (auto simp: prepare_to_download_archive_def Let_def DownloadItem_def
           split: option.splits if_splits prod.splits sum.splits)
qed

lemma find_snoc:
  "find P (xs @ [x]) = (case find P xs of None \<Rightarrow> (if P x then Some x else None) | Some y \<Rightarrow> Some y)"
  by (induction xs) simp_all

lemma version_fold:
  "fold (\<lambda>line s.
           if contains ''/images_www/v6/download/'' line then
             s\<lparr>version := Some (strip
                (replace (''/'' @ [CHR 0x22] @ '';'') []
                   (replace (''var PAGE_ARTIFACTS_LOCATION = '' @ [CHR 0x22] @
                             ''/images_www/v6/download/'') [] line)))\<rparr>
           else s) ls (s0 :: netbeans)
   = (case find (contains ''/images_www/v6/download/'') (rev ls) of
        None \<Rightarrow> s0
      | Some line \<Rightarrow>
          s0\<lparr>version := Some (strip
                (replace (''/'' @ [CHR 0x22] @ '';'') []
                   (replace (''var PAGE_ARTIFACTS_LOCATION = '' @ [CHR 0x22] @
                             ''/images_www/v6/download/'') [] line)))\<rparr>)"
proof (induction ls arbitrary: s0)
  case Nil
  show ?case by simp
next
  case (Cons l ls)
  show ?case by (simp add: Cons.IH find_snoc split: option.splits)
qed

lemma url_fold:
  "fold (\<lambda>line url_string.
           if m line then
             Some (replace [CHR 0x22] [] (replace '');'' [] (replace ''add_file('' [] line)))
           else url_string) ls u0
   = (case find m (rev ls) of
        None \<Rightarrow> u0
      | Some line \<Rightarrow>
          Some (replace [CHR 0x22] [] (replace '');'' [] (replace ''add_file('' [] line))))"
proof (induction ls arbitrary: u0)
  case Nil
  show ?case by simp
next
  case (Cons l ls)
  show ?case by (simp add: Cons.IH find_snoc split: option.splits)
qed

lemma netbeans_version_source:
  assumes "lookup result (download_page self) = Some page" "buffer page = Some body"
    "decode_utf8 ext body = Some decoded"
  shows "netbeans_get_metadata_and_check_license ext self result =
     (let scraped =
            (case find (contains ''/images_www/v6/download/'') (rev (split_sep [CHR 0x0A] decoded)) of
               None \<Rightarrow> version self
             | Some line \<Rightarrow>
                 Some (strip
                   (replace (''/'' @ [CHR 0x22] @ '';'') []
                      (replace (''var PAGE_ARTIFACTS_LOCATION = '' @ [CHR 0x22] @
                                ''/images_www/v6/download/'') [] line))));
          v = (case scraped of None \<Rightarrow> ''8.0.2'' | Some w \<Rightarrow> if w = [] then ''8.0.2'' else w)
      in DownloadCenter
           (if truthy scraped then []
            else [Log WARNING ''Could not determine latest version, using version {} as fallback...''
                    [Str ''8.0.2'']])
           [DownloadItem (''https://netbeans.org/images_www/v6/download/'' @ v @ ''/js/files.js'')
              None]
           False
           (parse_download_page_callback ext
              (self\<lparr>version := Some v,
                     version_download_page :=
                       Some (''https://netbeans.org/images_www/v6/download/'' @ v @
                             ''/js/files.js'')\<rparr>)))"
proof (cases "find (contains ''/images_www/v6/download/'') (rev (split_sep [CHR 0x0A] decoded))")
  case None
  show ?thesis
  proof (cases "version self")
    case n: None
    with None assms show ?thesis
      by (simp add: netbeans_get_metadata_and_check_license_def version_fold
            FALLBACK_VERSION_def Let_def)
  next
    case (Some w)
    then have eq: "\<And>x. self\<lparr>version := Some w, version_download_page := x\<rparr>
                     = self\<lparr>version_download_page := x\<rparr>"
      by simp
    from Some None assms show ?thesis
      by (cases "w = []")
         (simp_all add: netbeans_get_metadata_and_check_license_def version_fold
            FALLBACK_VERSION_def Let_def eq)
  qed
next
  case (Some line)
  with assms show ?thesis
    by (simp add: netbeans_get_metadata_and_check_license_def version_fold
          FALLBACK_VERSION_def Let_def)
qed

lemma parse_callback_started:
  assumes "started (parse_download_page_callback ext self result) = Some s"
  shows "\<exists>page body decoded ver m line.
           lookup result (version_download_page self) = Some page \<and>
           buffer page = Some body \<and> decode_utf8 ext body = Some decoded \<and>
           version self = Some ver \<and> compile_add_file ext ver (flavour self) = Some m \<and>
           find m (rev (split_sep [CHR 0x0A] decoded)) = Some line \<and>
           3 \<le> length (split_sep '', ''
                  (replace [CHR 0x22] [] (replace '');'' [] (replace ''add_file('' [] line)))) \<and>
           download_requests s = download_requests self @
             [DownloadItem
                (BASE_URL @ ver @ ''/final/'' @
                 split_sep '', ''
                   (replace [CHR 0x22] [] (replace '');'' [] (replace ''add_file('' [] line))) ! 0)
                (Some (Checksum md5
                   (split_sep '', ''
                      (replace [CHR 0x22] [] (replace '');'' [] (replace ''add_file('' [] line)))
                    ! 2)))]"
proof -
  from assms obtain ev where
    "parse_download_page_callback ext self result = StartDownloadAndInstall ev s"
    by (cases "parse_download_page_callback ext self result") auto
  then show ?thesis
    by (auto simp: parse_download_page_callback_def url_fold Let_def
           split: option.splits if_splits)
qed

lemma example_blank_version_lines:
  "decode_ascii example_blank_version_page = Some example_blank_version_page"
  "find (contains ''/images_www/v6/download/'') (rev (split_sep [CHR 0x0A] example_blank_version_page))
     = Some example_blank_version_page"
  "strip (replace (''/'' @ [CHR 0x22] @ '';'') []
            (replace (''var PAGE_ARTIFACTS_LOCATION = '' @ [CHR 0x22] @
                      ''/images_www/v6/download/'') [] example_blank_version_page)) = []"
  by code_simp+

lemma netbeans_blank_version:
  assumes "download_page self = Some ''https://netbeans.org/downloads/zip.html''"
  shows "netbeans_get_metadata_and_check_license example_externals self
     [(''https://netbeans.org/downloads/zip.html'', fetched example_blank_version_page)]
   = DownloadCenter
       [Log WARNING ''Could not determine latest version, using version {} as fallback...''
          [Str ''8.0.2'']]
       [DownloadItem ''https://netbeans.org/images_www/v6/download/8.0.2/js/files.js'' None]
       False
       (parse_download_page_callback example_externals
          (self\<lparr>version := Some ''8.0.2'',
                 version_download_page :=
                   Some ''https://netbeans.org/images_www/v6/download/8.0.2/js/files.js''\<rparr>))"
proof -
  have "lookup [(''https://netbeans.org/downloads/zip.html'', fetched example_blank_version_page)]
          (download_page self) = Some (fetched example_blank_version_page)"
    using assms by (simp add: lookup_def)
  moreover have "buffer (fetched example_blank_version_page) = Some example_blank_version_page"
    by (simp add: fetched_def)
  moreover have "decode_utf8 example_externals example_blank_version_page
                   = Some example_blank_version_page"
    by (simp add: example_decode_utf8 example_blank_version_lines(1))
  ultimately have "netbeans_get_metadata_and_check_license example_externals self
     [(''https://netbeans.org/downloads/zip.html'', fetched example_blank_version_page)]
   = (let scraped =
            (case find (contains ''/images_www/v6/download/'')
                    (rev (split_sep [CHR 0x0A] example_blank_version_page)) of
               None \<Rightarrow> version self
             | Some line \<Rightarrow>
                 Some (strip
                   (replace (''/'' @ [CHR 0x22] @ '';'') []
                      (replace (''var PAGE_ARTIFACTS_LOCATION = '' @ [CHR 0x22] @
                                ''/images_www/v6/download/'') [] line))));
          v = (case scraped of None \<Rightarrow> ''8.0.2'' | Some w \<Rightarrow> if w = [] then ''8.0.2'' else w)
      in DownloadCenter
           (if truthy scraped then []
            else [Log WARNING ''Could not determine latest version, using version {} as fallback...''
                    [Str ''8.0.2'']])
           [DownloadItem (''https://netbeans.org/images_www/v6/download/'' @ v @ ''/js/files.js'')
              None]
           False
           (parse_download_page_callback example_externals
              (self\<lparr>version := Some v,
                     version_download_page :=
                       Some (''https://netbeans.org/images_www/v6/download/'' @ v @
                             ''/js/files.js'')\<rparr>)))"
    by (rule netbeans_version_source)
  then show ?thesis
    apply (simp only: example_blank_version_lines(2,3) option.case Let_def)
    apply simp
    done
qed

text \<open>
  C2, as the claim states it, fails. The line of the NetBeans download page that should
  name the version names none. The resolver finds that it cannot determine the version,
  and does not abort: it logs a warning, takes version 8.0.2 and asks for that version's
  file list. It does so whether the session had no version yet or had one (here 7.4).
\<close>

theorem netbeans_fallback_version_counterexample:
  "aborted (netbeans_get_metadata_and_check_license example_externals
     (BaseNetBeans_init [] ''/opt/netbeans'')
     [(''https://netbeans.org/downloads/zip.html'', fetched example_blank_version_page)]) = None \<and>
   effects (netbeans_get_metadata_and_check_license example_externals
     (BaseNetBeans_init [] ''/opt/netbeans'')
     [(''https://netbeans.org/downloads/zip.html'', fetched example_blank_version_page)])
     = [Log WARNING ''Could not determine latest version, using version {} as fallback...''
          [Str ''8.0.2'']] \<and>
   requested (netbeans_get_metadata_and_check_license example_externals
     (BaseNetBeans_init [] ''/opt/netbeans'')
     [(''https://netbeans.org/downloads/zip.html'', fetched example_blank_version_page)])
     = Some [DownloadItem ''https://netbeans.org/images_www/v6/download/8.0.2/js/files.js'' None] \<and>
   aborted (netbeans_get_metadata_and_check_license example_externals
     ((BaseNetBeans_init [] ''/opt/netbeans'')\<lparr>version := Some ''7.4''\<rparr>)
     [(''https://netbeans.org/downloads/zip.html'', fetched example_blank_version_page)]) = None \<and>
   effects (netbeans_get_metadata_and_check_license example_externals
     ((BaseNetBeans_init [] ''/opt/netbeans'')\<lparr>version := Some ''7.4''\<rparr>)
     [(''https://netbeans.org/downloads/zip.html'', fetched example_blank_version_page)])
     = [Log WARNING ''Could not determine latest version, using version {} as fallback...''
          [Str ''8.0.2'']] \<and>
   requested (netbeans_get_metadata_and_check_license example_externals
     ((BaseNetBeans_init [] ''/opt/netbeans'')\<lparr>version := Some ''7.4''\<rparr>)
     [(''https://netbeans.org/downloads/zip.html'', fetched example_blank_version_page)])
     = Some [DownloadItem ''https://netbeans.org/images_www/v6/download/8.0.2/js/files.js'' None]"
proof -
  have a: "download_page (BaseNetBeans_init [] ''/opt/netbeans'')
             = Some ''https://netbeans.org/downloads/zip.html''"
    and b: "download_page ((BaseNetBeans_init [] ''/opt/netbeans'')\<lparr>version := Some ''7.4''\<rparr>)
             = Some ''https://netbeans.org/downloads/zip.html''"
    by (simp_all add: BaseNetBeans_init_fields)
  show ?thesis
    by (simp add: netbeans_blank_version [OF a] netbeans_blank_version [OF b])
qed

lemma page_callbacks_never_start:
  "started (jetbrains_get_metadata_and_check_license ext jb result) = None"
  "started (download_provider_page ext arch ecl) = None"
  "started (arduino_get_metadata_and_check_license ext os ard result) = None"
  "started (netbeans_get_metadata_and_check_license ext nb result) = None"
  by (auto simp: jetbrains_get_metadata_and_check_license_def download_provider_page_def
        arduino_get_metadata_and_check_license_def netbeans_get_metadata_and_check_license_def
        Let_def split: option.splits if_splits prod.splits sum.splits)

lemma last_callbacks_never_fetch:
  "requested (checksum_downloaded ext jb u result) = None"
  "requested (done_cb ext ecl arch u result) = None"
  "requested (prepare_to_download_archive ext os ard result) = None"
  "requested (parse_download_page_callback ext nb result) = None"
  by (auto simp: checksum_downloaded_def done_cb_def prepare_to_download_archive_def
        parse_download_page_callback_def Let_def
        split: option.splits if_splits prod.splits sum.splits list.splits)

text \<open>
  C2, amended. In each of the eight callbacks of the resolvers (JetBrains, Eclipse,
  Arduino, NetBeans), whenever an error is logged the callback aborts the session with
  status 1: it neither asks for another fetch nor starts the download. And whenever a
  callback does ask for a fetch or start the download, what it passes on was read from
  the fetched page, or is a fixed URL of Eclipse; no resolver but NetBeans puts a default
  in its place.
  \<^item> JetBrains asks for a checksum file only when the page was fetched without error and
    has an anchor labelled HTTPS with an \<open>href\<close>: the URL asked for is the \<open>href\<close> of
    the first such anchor followed by \<open>.sha256\<close>, and the download goes on for that
    \<open>href\<close>. It starts the download only with the first token of the checksum body,
    fetched without error, as SHA-256 digest.
  \<^item> Eclipse asks for the checksum only on \<open>i686\<close> and \<open>x86_64\<close>, at the \<open>.md5\<close> URL
    of its template. It starts the download only on these machines, with the archive
    URL of the template and the first token of the checksum body, fetched without error,
    as MD5 digest.
  \<^item> Arduino, for an installer that has not scraped yet, asks for its two pages only
    when the page was fetched without error and has an anchor with a matching \<open>href\<close>
    and an anchor that reads Checksums with an \<open>href\<close>: the URLs asked for are
    \<open>http:\<close> followed by the \<open>href\<close> of the first of each. It starts the download only
    when both pages were fetched without error, with the digest found in the checksum
    list for its archive and the \<open>href\<close> of the parent of the first button that reads
    JUST DOWNLOAD, joined to the final URL of the download page.
  \<^item> NetBeans starts the download only with the URL suffix and the MD5 digest of the
    last line of the file list that matches its \<open>add_file\<close> pattern.
  \<^item> A callback that reads a page goes on only by asking for the next fetch: it never
    starts the download itself. A callback that receives the last fetch never asks for
    another one: there is no retry.
  \<^item> The one substitution of a default is by design. NetBeans takes as version what
    the last line of the download page that names the download path gives, or, when no
    line does, the version of the session. When this is absent or empty it logs a
    warning and takes \<open>FALLBACK_VERSION\<close>, 8.0.2. With the version so settled it asks
    for that version's file list.
\<close>

theorem logged_error_aborts_except_netbeans_fallback:
  "(list_ex is_error_log (effects (jetbrains_get_metadata_and_check_license ext jb result)) \<longrightarrow>
      aborted (jetbrains_get_metadata_and_check_license ext jb result) = Some 1) \<and>
   (list_ex is_error_log (effects (checksum_downloaded ext jb u result)) \<longrightarrow>
      aborted (checksum_downloaded ext jb u result) = Some 1) \<and>
   (list_ex is_error_log (effects (download_provider_page ext arch ecl)) \<longrightarrow>
      aborted (download_provider_page ext arch ecl) = Some 1) \<and>
   (list_ex is_error_log (effects (done_cb ext ecl arch u result)) \<longrightarrow>
      aborted (done_cb ext ecl arch u result) = Some 1) \<and>
   (list_ex is_error_log (effects (arduino_get_metadata_and_check_license ext os ard result)) \<longrightarrow>
      aborted (arduino_get_metadata_and_check_license ext os ard result) = Some 1) \<and>
   (list_ex is_error_log (effects (prepare_to_download_archive ext os ard result)) \<longrightarrow>
      aborted (prepare_to_download_archive ext os ard result) = Some 1) \<and>
   (list_ex is_error_log (effects (netbeans_get_metadata_and_check_license ext nb result)) \<longrightarrow>
      aborted (netbeans_get_metadata_and_check_license ext nb result) = Some 1) \<and>
   (list_ex is_error_log (effects (parse_download_page_callback ext nb result)) \<longrightarrow>
      aborted (parse_download_page_callback ext nb result) = Some 1) \<and>
   (\<forall>items. requested (jetbrains_get_metadata_and_check_license ext jb result) = Some items \<longrightarrow>
      (\<exists>page body link parent href.
         lookup result (download_page jb) = Some page \<and> \<not> truthy (error page) \<and>
         buffer page = Some body \<and>
         soup_find ''a'' (text_is ''HTTPS'') (BeautifulSoup ext body) = Some (link, parent) \<and>
         map_of (tag_attrs link) ''href'' = Some href \<and>
         items = [DownloadItem (href @ ''.sha256'') None] \<and>
         on_done (jetbrains_get_metadata_and_check_license ext jb result)
           = checksum_downloaded ext jb href)) \<and>
   (\<forall>s. started (checksum_downloaded ext jb u result) = Some s \<longrightarrow>
      (\<exists>body decoded digest.
         result \<noteq> [] \<and> \<not> truthy (error (snd (hd result))) \<and>
         buffer (snd (hd result)) = Some body \<and> decode_utf8 ext body = Some decoded \<and>
         first_token decoded = Some digest \<and>
         download_requests s = download_requests jb @
           [\<lparr>item_url = u, item_checksum = Some (Checksum sha256 digest),
             item_ignore_encoding = True, item_cookies = None\<rparr>])) \<and>
   (\<forall>items. requested (download_provider_page ext arch ecl) = Some items \<longrightarrow>
      (arch = ''i686'' \<or> arch = ''x86_64'') \<and>
      items = [DownloadItem
                 (DOWNLOAD_URL_PAT (if arch = ''i686'' then [] else ''-x86_64'') ''.md5'') None]) \<and>
   (\<forall>s. started (done_cb ext ecl arch u result) = Some s \<longrightarrow>
      (arch = ''i686'' \<or> arch = ''x86_64'') \<and>
      (\<exists>r body decoded digest.
         map_of result u = Some r \<and> \<not> truthy (error r) \<and>
         buffer r = Some body \<and> decode_utf8 ext body = Some decoded \<and>
         first_token decoded = Some digest \<and>
         download_requests s = download_requests ecl @
           [DownloadItem (DOWNLOAD_URL_PAT (if arch = ''i686'' then [] else ''-x86_64'') [])
              (Some (Checksum md5 digest))])) \<and>
   (scraped_download_url ard = None \<and> scraped_checksum_url ard = None \<longrightarrow>
      (\<forall>items.
         requested (arduino_get_metadata_and_check_license ext os ard result) = Some items \<longrightarrow>
         (\<exists>page body a1 p1 h1 a2 p2 h2.
            lookup result (download_page ard) = Some page \<and> \<not> truthy (error page) \<and>
            buffer page = Some body \<and>
            soup_find ''a'' (href_search (bits ard)) (BeautifulSoup ext body) = Some (a1, p1) \<and>
            map_of (tag_attrs a1) ''href'' = Some h1 \<and>
            soup_find ''a'' (text_search ''Checksums'') (BeautifulSoup ext body) = Some (a2, p2) \<and>
            map_of (tag_attrs a2) ''href'' = Some h2 \<and>
            items = [DownloadItem (''http:'' @ h1) None, DownloadItem (''http:'' @ h2) None]))) \<and>
   (\<forall>s. started (prepare_to_download_archive ext os ard result) = Some s \<longrightarrow>
      (\<exists>page body btn parent href sums sums_body checksums digest.
         lookup result (scraped_download_url ard) = Some page \<and>
         \<not> truthy (error page) \<and> buffer page = Some body \<and>
         soup_find ''button'' (text_search ''JUST DOWNLOAD'') (BeautifulSoup ext body)
           = Some (btn, parent) \<and>
         map_of parent ''href'' = Some href \<and>
         lookup result (scraped_checksum_url ard) = Some sums \<and>
         \<not> truthy (error sums) \<and> buffer sums = Some sums_body \<and>
         decode_ascii sums_body = Some checksums \<and>
         search_checksum (bits ard) True checksums = Some digest \<and>
         download_requests s =
           [\<lparr>item_url = urljoin ext (final_url page) href,
             item_checksum = Some (Checksum md5 digest),
             item_ignore_encoding = False,
             item_cookies = Some (cookies page)\<rparr>])) \<and>
   (\<forall>s. started (parse_download_page_callback ext nb result) = Some s \<longrightarrow>
      (\<exists>page body decoded ver m line.
         lookup result (version_download_page nb) = Some page \<and>
         buffer page = Some body \<and> decode_utf8 ext body = Some decoded \<and>
         version nb = Some ver \<and> compile_add_file ext ver (flavour nb) = Some m \<and>
         find m (rev (split_sep [CHR 0x0A] decoded)) = Some line \<and>
         3 \<le> length (split_sep '', ''
                (replace [CHR 0x22] [] (replace '');'' [] (replace ''add_file('' [] line)))) \<and>
         download_requests s = download_requests nb @
           [DownloadItem
              (BASE_URL @ ver @ ''/final/'' @
               split_sep '', ''
                 (replace [CHR 0x22] [] (replace '');'' [] (replace ''add_file('' [] line))) ! 0)
              (Some (Checksum md5
                 (split_sep '', ''
                    (replace [CHR 0x22] [] (replace '');'' [] (replace ''add_file('' [] line)))
                  ! 2)))])) \<and>
   (\<forall>page body decoded.
      lookup result (download_page nb) = Some page \<and> buffer page = Some body \<and>
      decode_utf8 ext body = Some decoded \<longrightarrow>
      netbeans_get_metadata_and_check_license ext nb result =
        (let scraped =
               (case find (contains ''/images_www/v6/download/'')
                       (rev (split_sep [CHR 0x0A] decoded)) of
                  None \<Rightarrow> version nb
                | Some line \<Rightarrow>
                    Some (strip
                      (replace (''/'' @ [CHR 0x22] @ '';'') []
                         (replace (''var PAGE_ARTIFACTS_LOCATION = '' @ [CHR 0x22] @
                                   ''/images_www/v6/download/'') [] line))));
             v = (case scraped of None \<Rightarrow> ''8.0.2'' | Some w \<Rightarrow> if w = [] then ''8.0.2'' else w)
         in DownloadCenter
              (if truthy scraped then []
               else [Log WARNING
                       ''Could not determine latest version, using version {} as fallback...''
                       [Str ''8.0.2'']])
              [DownloadItem
                 (''https://netbeans.org/images_www/v6/download/'' @ v @ ''/js/files.js'') None]
              False
              (parse_download_page_callback ext
                 (nb\<lparr>version := Some v,
                      version_download_page :=
                        Some (''https://netbeans.org/images_www/v6/download/'' @ v @
                              ''/js/files.js'')\<rparr>)))) \<and>
   (started (jetbrains_get_metadata_and_check_license ext jb result) = None \<and>
    started (download_provider_page ext arch ecl) = None \<and>
    started (arduino_get_metadata_and_check_license ext os ard result) = None \<and>
    started (netbeans_get_metadata_and_check_license ext nb result) = None \<and>
    requested (checksum_downloaded ext jb u result) = None \<and>
    requested (done_cb ext ecl arch u result) = None \<and>
    requested (prepare_to_download_archive ext os ard result) = None \<and>
    requested (parse_download_page_callback ext nb result) = None)"
proof -
  note e = jetbrains_error_aborts [of ext jb result]
    checksum_downloaded_error_aborts [of ext jb u result]
    eclipse_error_aborts [of ext arch ecl] done_cb_error_aborts [of ext ecl arch u result]
    arduino_error_aborts [of ext os ard result] prepare_error_aborts [of ext os ard result]
    netbeans_error_aborts [of ext nb result] parse_callback_error_aborts [of ext nb result]
  note p = jetbrains_requested [of ext jb result]
    checksum_downloaded_started [of ext jb u result]
    eclipse_requested [of ext arch ecl]
    done_cb_started [of ext ecl arch u result]
    arduino_requested [of ard ext os result]
    prepare_started [of ext os ard result]
    parse_callback_started [of ext nb result]
    netbeans_version_source [of result nb _ _ ext]
  show ?thesis
    apply (intro conjI allI impI)
    apply (rule e(1), assumption)
    apply (rule e(2), assumption)
    apply (rule e(3), assumption)
    apply (rule e(4), assumption)
    apply (rule e(5), assumption)
    apply (rule e(6), assumption)
    apply (rule e(7), assumption)
    apply (rule e(8), assumption)
    apply (rule p(1), assumption)
    apply (rule p(2), assumption)
    apply (rule p(3) [THEN conjunct1], assumption)
    apply (rule p(3) [THEN conjunct2], assumption)
    apply (rule p(4) [THEN conjunct1], assumption)
    apply (rule p(4) [THEN conjunct2], assumption)
    apply (elim conjE, rule p(5), assumption, assumption, assumption)
    apply (rule p(6), assumption)
    apply (rule p(7), assumption)
    apply (elim conjE, rule p(8), assumption, assumption, assumption)
    apply (rule page_callbacks_never_start(1))
    apply (rule page_callbacks_never_start(2))
    apply (rule page_callbacks_never_start(3))
    apply (rule page_callbacks_never_start(4))
    apply (rule last_callbacks_never_fetch(1))
    apply (rule last_callbacks_never_fetch(2))
    apply (rule last_callbacks_never_fetch(3))
    apply (rule last_callbacks_never_fetch(4))
    done
qed

lemma example_one_anchor_found:
  "soup_find ''a'' (text_is ''HTTPS'')
     [Tag ''a'' [(''href'', ''https://x/archive.tar.gz'')] [NavigableString ''HTTPS'']]
   = Some (Tag ''a'' [(''href'', ''https://x/archive.tar.gz'')] [NavigableString ''HTTPS''], [])"
  by (simp add: soup_find_def soup_find_all_def soup_descendants_def text_is_def)

lemma example_version_found:
  "decode_ascii example_version_page = Some example_version_page"
  "find (contains ''/images_www/v6/download/'') (rev (split_sep [CHR 0x0A] example_version_page))
     = Some example_version_page"
  "strip (replace (''/'' @ [CHR 0x22] @ '';'') []
            (replace (''var PAGE_ARTIFACTS_LOCATION = '' @ [CHR 0x22] @
                      ''/images_www/v6/download/'') [] example_version_page)) = ''8.0.2''"
  by code_simp+

lemma example_files_found:
  "decode_ascii example_files_page = Some example_files_page"
  "find (match_pats (add_file_pat ''8.0.2'' [])) (rev (split_sep [CHR 0x0A] example_files_page))
     = Some example_add_file_line"
  "replace [CHR 0x22] [] (replace '');'' [] (replace ''add_file('' [] example_add_file_line))
     = ''zip/netbeans-8.0.2-201411181905.zip, 215549473, abc123, en''"
  "split_sep '', '' ''zip/netbeans-8.0.2-201411181905.zip, 215549473, abc123, en''
     = [''zip/netbeans-8.0.2-201411181905.zip'', ''215549473'', ''abc123'', ''en'']"
  by code_simp+

lemma netbeans_example_requests: "download_requests netbeans_example = []"
  by (simp add: netbeans_example_def BaseNetBeans_init_def)

lemma parse_files_example:
  "parse_download_page_callback example_externals netbeans_example
     [(example_files_url, fetched example_files_page)]
   = StartDownloadAndInstall [Log INFO ''Netbeans {}'' [OptStr (Some ''8.0.2'')]]
       (netbeans_example\<lparr>complete_name := Some ''netbeans'',
          download_requests :=
            [DownloadItem
               ''http://download.netbeans.org/netbeans/8.0.2/final/zip/netbeans-8.0.2-201411181905.zip''
               (Some (Checksum md5 ''abc123''))]\<rparr>)"
  by (simp add: parse_download_page_callback_def lookup_def netbeans_example_fields
        netbeans_example_requests fetched_fields example_decode_utf8 example_files_found
        compile_add_file_example url_fold BASE_URL_def Let_def)

text \<open>
  Every page of the examples fails to download, and Eclipse runs on an unknown machine:
  each callback logs the error and aborts with status 1. On the pages of the examples
  each resolver passes on what the page gives: the \<open>href\<close> of the anchor and the first
  token of the checksum body (JetBrains), the URLs of the template for \<open>x86_64\<close>
  (Eclipse), the two links and then the button's link with the digest of the 64-bit
  archive (Arduino), version 8.0.2 and the archive of the file list (NetBeans). On the
  NetBeans page that names no version the resolver goes on with version 8.0.2 after a
  warning.
\<close>

theorem logged_error_aborts_except_netbeans_fallback_witness:
  "aborted (jetbrains_get_metadata_and_check_license example_externals
              (PyCharm_init ''/opt/pycharm'') failed_results) = Some 1 \<and>
   aborted (checksum_downloaded example_externals (PyCharm_init ''/opt/pycharm'')
              ''https://x/archive.tar.gz'' failed_results) = Some 1 \<and>
   aborted (download_provider_page example_externals ''armv7l'' (Eclipse_init ''/opt/eclipse''))
     = Some 1 \<and>
   aborted (done_cb example_externals (Eclipse_init ''/opt/eclipse'') ''x86_64''
              (DOWNLOAD_URL_PAT ''-x86_64'' ''.md5'') failed_results) = Some 1 \<and>
   aborted (arduino_get_metadata_and_check_license example_externals example_os
              scraped_example failed_results) = Some 1 \<and>
   aborted (prepare_to_download_archive example_externals example_os
              scraped_example failed_results) = Some 1 \<and>
   aborted (netbeans_get_metadata_and_check_license example_externals
              netbeans_example failed_results) = Some 1 \<and>
   aborted (parse_download_page_callback example_externals
              netbeans_example failed_results) = Some 1 \<and>
   on_done (jetbrains_get_metadata_and_check_license example_externals
              (PyCharm_init ''/opt/pycharm'')
              [(PyCharm_download_page_url, fetched ''<a href=https://x/archive.tar.gz>HTTPS</a>'')])
     = checksum_downloaded example_externals (PyCharm_init ''/opt/pycharm'')
         ''https://x/archive.tar.gz'' \<and>
   download_requests (the (started (checksum_downloaded example_externals
       (PyCharm_init ''/opt/pycharm'') ''https://x/archive.tar.gz''
       [(''https://x/archive.tar.gz.sha256'', fetched ''deadbeef  archive.tar.gz'')])))
     = [\<lparr>item_url = ''https://x/archive.tar.gz'',
         item_checksum = Some (Checksum sha256 ''deadbeef''),
         item_ignore_encoding = True, item_cookies = None\<rparr>] \<and>
   requested (download_provider_page example_externals ''x86_64'' (Eclipse_init ''/opt/eclipse''))
     = Some [DownloadItem (DOWNLOAD_URL_PAT ''-x86_64'' ''.md5'') None] \<and>
   download_requests (the (started (done_cb example_externals (Eclipse_init ''/opt/eclipse'')
       ''x86_64'' (DOWNLOAD_URL_PAT ''-x86_64'' ''.md5'')
       [(DOWNLOAD_URL_PAT ''-x86_64'' ''.md5'', fetched ''deadbeef  archive.tar.gz'')])))
     = [DownloadItem (DOWNLOAD_URL_PAT ''-x86_64'' []) (Some (Checksum md5 ''deadbeef''))] \<and>
   requested (arduino_get_metadata_and_check_license example_externals example_os
       (projr (Arduino_init example_externals example_os ''/opt/arduino''))
       [(''http://www.arduino.cc/en/Main/Software'',
         fetched ''<a href=//d/arduino-1.6.3-linux64.tar.xz>Linux</a><a href=//d/sums.txt>Checksums</a>'')])
     = Some [DownloadItem ''http://d/arduino-1.6.3-linux64.tar.xz'' None,
             DownloadItem ''http://d/sums.txt'' None] \<and>
   download_requests (the (started (prepare_to_download_archive example_externals example_os
       scraped_example example_arduino_results)))
     = [\<lparr>item_url = ''http://d/get/arduino.tar.xz'',
         item_checksum = Some (Checksum md5 ''def456''),
         item_ignore_encoding = False,
         item_cookies = Some [(''session'', ''42'')]\<rparr>] \<and>
   download_requests (the (started (parse_download_page_callback example_externals
       netbeans_example [(example_files_url, fetched example_files_page)])))
     = [DownloadItem
          ''http://download.netbeans.org/netbeans/8.0.2/final/zip/netbeans-8.0.2-201411181905.zip''
          (Some (Checksum md5 ''abc123''))] \<and>
   netbeans_get_metadata_and_check_license example_externals
       (BaseNetBeans_init [] ''/opt/netbeans'')
       [(''https://netbeans.org/downloads/zip.html'', fetched example_version_page)]
     = DownloadCenter [] [DownloadItem example_files_url None] False
         (parse_download_page_callback example_externals netbeans_example) \<and>
   effects (netbeans_get_metadata_and_check_license example_externals
       (BaseNetBeans_init [] ''/opt/netbeans'')
       [(''https://netbeans.org/downloads/zip.html'', fetched example_blank_version_page)])
     = [Log WARNING ''Could not determine latest version, using version {} as fallback...''
          [Str ''8.0.2'']] \<and>
   requested (netbeans_get_metadata_and_check_license example_externals
       (BaseNetBeans_init [] ''/opt/netbeans'')
       [(''https://netbeans.org/downloads/zip.html'', fetched example_blank_version_page)])
     = Some [DownloadItem example_files_url None]"
proof -
  let ?jb = "PyCharm_init ''/opt/pycharm''"
  let ?ecl = "Eclipse_init ''/opt/eclipse''"
  let ?md5 = "DOWNLOAD_URL_PAT ''-x86_64'' ''.md5''"
  let ?nb = "BaseNetBeans_init [] ''/opt/netbeans''"
  let ?ard = "projr (Arduino_init example_externals example_os ''/opt/arduino'')"
  let ?U = "''https://x/archive.tar.gz''"
  let ?B = "''deadbeef  archive.tar.gz''"
  let ?page = "[(PyCharm_download_page_url, fetched ''<a href=https://x/archive.tar.gz>HTTPS</a>'')]"
  let ?sums = "[(''https://x/archive.tar.gz.sha256'', fetched ?B)]"
  let ?md5s = "[(?md5, fetched ?B)]"
  let ?links = "''<a href=//d/arduino-1.6.3-linux64.tar.xz>Linux</a><a href=//d/sums.txt>Checksums</a>''"
  let ?apage = "[(''http://www.arduino.cc/en/Main/Software'', fetched ?links)]"
  let ?nurl = "''https://netbeans.org/downloads/zip.html''"
  let ?vpage = "[(?nurl, fetched example_version_page)]"
  let ?bpage = "[(?nurl, fetched example_blank_version_page)]"
  let ?files = "[(example_files_url, fetched example_files_page)]"
  note a = logged_error_aborts_except_netbeans_fallback
      [where ext = example_externals and jb = ?jb and result = failed_results
         and u = ?U and arch = "''armv7l''" and ecl = ?ecl
         and os = example_os and ard = scraped_example and nb = netbeans_example]
  note b = logged_error_aborts_except_netbeans_fallback
      [where ext = example_externals and result = failed_results and u = ?md5
         and arch = "''x86_64''" and ecl = ?ecl]
  note j = logged_error_aborts_except_netbeans_fallback
      [where ext = example_externals and jb = ?jb and result = ?page]
  note c = logged_error_aborts_except_netbeans_fallback
      [where ext = example_externals and jb = ?jb and u = ?U and result = ?sums]
  note e = logged_error_aborts_except_netbeans_fallback
      [where ext = example_externals and arch = "''x86_64''" and ecl = ?ecl and u = ?md5
         and result = ?md5s]
  note g = logged_error_aborts_except_netbeans_fallback
      [where ext = example_externals and os = example_os and ard = ?ard and result = ?apage]
  note p = logged_error_aborts_except_netbeans_fallback
      [where ext = example_externals and os = example_os and ard = scraped_example
         and result = example_arduino_results]
  note f = logged_error_aborts_except_netbeans_fallback
      [where ext = example_externals and nb = netbeans_example and result = ?files]
  note v = logged_error_aborts_except_netbeans_fallback
      [where ext = example_externals and nb = ?nb and result = ?vpage]
  note k = logged_error_aborts_except_netbeans_fallback
      [where ext = example_externals and nb = ?nb and result = ?bpage]
  have e1: "list_ex is_error_log (effects (jetbrains_get_metadata_and_check_license
              example_externals ?jb failed_results))"
    by (simp add: jetbrains_get_metadata_and_check_license_def PyCharm_init_fields
          failed_results_lookup failed_fields)
  have e2: "list_ex is_error_log (effects (checksum_downloaded example_externals ?jb
              ?U failed_results))"
    by (subst failed_results_first) (simp add: checksum_downloaded_def failed_fields)
  have e3: "list_ex is_error_log (effects (download_provider_page example_externals ''armv7l'' ?ecl))"
    by (simp add: download_provider_page_def)
  have e4: "list_ex is_error_log (effects (done_cb example_externals ?ecl ''x86_64'' ?md5
              failed_results))"
    by (simp add: done_cb_def failed_results_lookup failed_fields)
  have e5: "list_ex is_error_log (effects (arduino_get_metadata_and_check_license
              example_externals example_os scraped_example failed_results))"
    by (simp add: arduino_get_metadata_and_check_license_def scraped_example_def
          Arduino_init_example failed_results_lookup failed_fields)
  have e6: "list_ex is_error_log (effects (prepare_to_download_archive example_externals
              example_os scraped_example failed_results))"
    by (simp add: prepare_to_download_archive_def scraped_example_fields
          failed_results_lookup failed_fields)
  have e7: "list_ex is_error_log (effects (netbeans_get_metadata_and_check_license
              example_externals netbeans_example failed_results))"
    by (simp add: netbeans_get_metadata_and_check_license_def netbeans_example_fields
          failed_results_lookup failed_fields)
  have e8: "list_ex is_error_log (effects (parse_download_page_callback example_externals
              netbeans_example failed_results))"
    by (simp add: parse_download_page_callback_def netbeans_example_fields
          failed_results_lookup failed_fields not_parsable_def)
  have 1: "aborted (jetbrains_get_metadata_and_check_license example_externals ?jb failed_results)
       = Some 1"
    using a [THEN conjunct1] e1 by simp
  have 2: "aborted (checksum_downloaded example_externals ?jb ?U failed_results) = Some 1"
    using a [THEN conjunct2, THEN conjunct1] e2 by simp
  have 3: "aborted (download_provider_page example_externals ''armv7l'' ?ecl) = Some 1"
    using a [THEN conjunct2, THEN conjunct2, THEN conjunct1] e3 by simp
  have 4: "aborted (done_cb example_externals ?ecl ''x86_64'' ?md5 failed_results) = Some 1"
    using b [THEN conjunct2, THEN conjunct2, THEN conjunct2, THEN conjunct1] e4 by simp
  have 5: "aborted (arduino_get_metadata_and_check_license example_externals example_os
              scraped_example failed_results) = Some 1"
    using a [THEN conjunct2, THEN conjunct2, THEN conjunct2, THEN conjunct2, THEN conjunct1] e5 by simp
  have 6: "aborted (prepare_to_download_archive example_externals example_os
              scraped_example failed_results) = Some 1"
    using a [THEN conjunct2, THEN conjunct2, THEN conjunct2, THEN conjunct2, THEN conjunct2, THEN conjunct1] e6 by simp
  have 7: "aborted (netbeans_get_metadata_and_check_license example_externals
              netbeans_example failed_results) = Some 1"
    using a [THEN conjunct2, THEN conjunct2, THEN conjunct2, THEN conjunct2, THEN conjunct2, THEN conjunct2, THEN conjunct1] e7 by simp
  have 8: "aborted (parse_download_page_callback example_externals
              netbeans_example failed_results) = Some 1"
    using a [THEN conjunct2, THEN conjunct2, THEN conjunct2, THEN conjunct2, THEN conjunct2, THEN conjunct2, THEN conjunct2, THEN conjunct1] e8 by simp
  have 9: "on_done (jetbrains_get_metadata_and_check_license example_externals ?jb ?page)
     = checksum_downloaded example_externals ?jb ?U"
  proof -
    have r: "requested (jetbrains_get_metadata_and_check_license example_externals ?jb ?page)
               = Some [DownloadItem ''https://x/archive.tar.gz.sha256'' None]"
      by (simp add: jetbrains_get_metadata_and_check_license_def lookup_def PyCharm_init_fields
            fetched_def example_soup_one_anchor example_one_anchor_found Let_def)
    from j [THEN conjunct2, THEN conjunct2, THEN conjunct2, THEN conjunct2, THEN conjunct2, THEN conjunct2, THEN conjunct2, THEN conjunct2, THEN conjunct1, rule_format, OF r] obtain page body link parent href where
      h: "lookup ?page (download_page ?jb) = Some page" "buffer page = Some body"
         "soup_find ''a'' (text_is ''HTTPS'') (BeautifulSoup example_externals body)
            = Some (link, parent)"
         "map_of (tag_attrs link) ''href'' = Some href"
         "on_done (jetbrains_get_metadata_and_check_license example_externals ?jb ?page)
            = checksum_downloaded example_externals ?jb href"
      by blast
    from h(1) have "page = fetched ''<a href=https://x/archive.tar.gz>HTTPS</a>''"
      by (simp add: lookup_def PyCharm_init_fields)
    with h(2) have "body = ''<a href=https://x/archive.tar.gz>HTTPS</a>''"
      by (simp add: fetched_def)
    with h(3) have "link = Tag ''a'' [(''href'', ''https://x/archive.tar.gz'')]
                             [NavigableString ''HTTPS'']"
      by (simp add: example_soup_one_anchor example_one_anchor_found)
    with h(4) have "href = ?U" by simp
    with h(5) show ?thesis by simp
  qed
  have tok: "first_token ?B = Some ''deadbeef''"
    by (simp add: first_token_def isspace_def)
  have 10: "download_requests (the (started (checksum_downloaded example_externals ?jb ?U ?sums)))
     = [\<lparr>item_url = ?U, item_checksum = Some (Checksum sha256 ''deadbeef''),
         item_ignore_encoding = True, item_cookies = None\<rparr>]"
  proof -
    have "checksum_downloaded example_externals ?jb ?U ?sums = StartDownloadAndInstall
             [Log INFO ''Obtained SHA256 checksum: deadbeef'' []]
             (?jb\<lparr>download_requests := download_requests ?jb @
                [(DownloadItem ?U (Some (Checksum sha256 ''deadbeef'')))
                   \<lparr>item_ignore_encoding := True\<rparr>]\<rparr>)"
      by (simp add: checksum_downloaded_def fetched_def example_decode_utf8
            decode_ascii_checksum_body split_checksum_body)
    then have s: "started (checksum_downloaded example_externals ?jb ?U ?sums)
                  = Some (the (started (checksum_downloaded example_externals ?jb ?U ?sums)))"
      by simp
    from c [THEN conjunct2, THEN conjunct2, THEN conjunct2, THEN conjunct2, THEN conjunct2, THEN conjunct2, THEN conjunct2, THEN conjunct2, THEN conjunct2, THEN conjunct1, rule_format, OF s] obtain body decoded digest where
      h: "buffer (snd (hd ?sums)) = Some body" "decode_utf8 example_externals body = Some decoded"
         "first_token decoded = Some digest"
         "download_requests (the (started (checksum_downloaded example_externals ?jb ?U ?sums)))
            = download_requests ?jb @
              [\<lparr>item_url = ?U, item_checksum = Some (Checksum sha256 digest),
                item_ignore_encoding = True, item_cookies = None\<rparr>]"
      by blast
    from h(1) have "body = ?B" by (simp add: fetched_def)
    with h(2) have "decoded = ?B"
      by (simp add: example_decode_utf8 decode_ascii_checksum_body)
    with h(3) tok have "digest = ''deadbeef''" by simp
    with h(4) show ?thesis by (simp add: PyCharm_init_fields)
  qed
  have 11: "requested (download_provider_page example_externals ''x86_64'' ?ecl)
     = Some [DownloadItem ?md5 None]"
  proof -
    have r: "requested (download_provider_page example_externals ''x86_64'' ?ecl)
       = Some (the (requested (download_provider_page example_externals ''x86_64'' ?ecl)))"
      by (simp add: download_provider_page_def)
    from e [THEN conjunct2, THEN conjunct2, THEN conjunct2, THEN conjunct2, THEN conjunct2, THEN conjunct2, THEN conjunct2, THEN conjunct2, THEN conjunct2, THEN conjunct2, THEN conjunct1, rule_format, OF r] r show ?thesis by simp
  qed
  have 12: "download_requests (the (started (done_cb example_externals ?ecl ''x86_64'' ?md5 ?md5s)))
     = [DownloadItem (DOWNLOAD_URL_PAT ''-x86_64'' []) (Some (Checksum md5 ''deadbeef''))]"
  proof -
    have "done_cb example_externals ?ecl ''x86_64'' ?md5 ?md5s = StartDownloadAndInstall
             [Log DEBUG ''Downloaded MD5 is {}'' [Str ''deadbeef''],
              Log DEBUG ''Preparing to download the main archive.'' []]
             (?ecl\<lparr>download_requests := download_requests ?ecl @
                [DownloadItem (DOWNLOAD_URL_PAT ''-x86_64'' []) (Some (Checksum md5 ''deadbeef''))]\<rparr>)"
      by (simp add: done_cb_def fetched_def example_decode_utf8
            decode_ascii_checksum_body split_checksum_body)
    then have s: "started (done_cb example_externals ?ecl ''x86_64'' ?md5 ?md5s)
                  = Some (the (started (done_cb example_externals ?ecl ''x86_64'' ?md5 ?md5s)))"
      by simp
    from e [THEN conjunct2, THEN conjunct2, THEN conjunct2, THEN conjunct2, THEN conjunct2, THEN conjunct2, THEN conjunct2, THEN conjunct2, THEN conjunct2, THEN conjunct2, THEN conjunct2, THEN conjunct1, rule_format, OF s] obtain r body decoded digest where
      h: "map_of ?md5s ?md5 = Some r" "buffer r = Some body"
         "decode_utf8 example_externals body = Some decoded"
         "first_token decoded = Some digest"
         "download_requests (the (started (done_cb example_externals ?ecl ''x86_64'' ?md5 ?md5s)))
            = download_requests ?ecl @
              [DownloadItem (DOWNLOAD_URL_PAT (if ''x86_64'' = ''i686'' then [] else ''-x86_64'') [])
                 (Some (Checksum md5 digest))]"
      by blast
    from h(1) have "r = fetched ?B" by simp
    with h(2) have "body = ?B" by (simp add: fetched_def)
    with h(3) have "decoded = ?B"
      by (simp add: example_decode_utf8 decode_ascii_checksum_body)
    with h(4) tok have "digest = ''deadbeef''" by simp
    with h(5) show ?thesis by (simp add: Eclipse_init_fields)
  qed
  have 13: "requested (arduino_get_metadata_and_check_license example_externals example_os
       ?ard ?apage)
     = Some [DownloadItem ''http://d/arduino-1.6.3-linux64.tar.xz'' None,
             DownloadItem ''http://d/sums.txt'' None]"
  proof -
    have fresh: "scraped_download_url ?ard = None \<and> scraped_checksum_url ?ard = None"
      by (simp add: example_arduino_init_fields)
    have r: "requested (arduino_get_metadata_and_check_license example_externals example_os
               ?ard ?apage)
       = Some (the (requested (arduino_get_metadata_and_check_license example_externals
               example_os ?ard ?apage)))"
      by (simp add: arduino_get_metadata_example example_arduino_init_fields)
    from g [THEN conjunct2, THEN conjunct2, THEN conjunct2, THEN conjunct2, THEN conjunct2, THEN conjunct2, THEN conjunct2, THEN conjunct2, THEN conjunct2, THEN conjunct2, THEN conjunct2, THEN conjunct2, THEN conjunct1, rule_format, OF fresh r] obtain page body a1 p1 h1 a2 p2 h2 where
      h: "lookup ?apage (download_page ?ard) = Some page" "buffer page = Some body"
         "soup_find ''a'' (href_search (bits ?ard)) (BeautifulSoup example_externals body)
            = Some (a1, p1)"
         "map_of (tag_attrs a1) ''href'' = Some h1"
         "soup_find ''a'' (text_search ''Checksums'') (BeautifulSoup example_externals body)
            = Some (a2, p2)"
         "map_of (tag_attrs a2) ''href'' = Some h2"
         "the (requested (arduino_get_metadata_and_check_license example_externals
               example_os ?ard ?apage))
            = [DownloadItem (''http:'' @ h1) None, DownloadItem (''http:'' @ h2) None]"
      by blast
    from h(1) have "page = fetched ?links"
      by (simp add: lookup_def example_arduino_init_fields)
    with h(2) have bd: "body = ?links" by (simp add: fetched_def)
    with h(3) have "a1 = Tag ''a'' [(''href'', ''//d/arduino-1.6.3-linux64.tar.xz'')]
                           [NavigableString ''Linux'']"
      by (simp add: example_soup_arduino example_arduino_init_fields soup_find_def
            example_arduino_found)
    with h(4) have h1: "h1 = ''//d/arduino-1.6.3-linux64.tar.xz''" by simp
    from bd h(5) have "a2 = Tag ''a'' [(''href'', ''//d/sums.txt'')] [NavigableString ''Checksums'']"
      by (simp add: example_soup_arduino soup_find_def example_arduino_found)
    with h(6) have h2: "h2 = ''//d/sums.txt''" by simp
    from r h(7) h1 h2 show ?thesis by simp
  qed
  have 14: "download_requests (the (started (prepare_to_download_archive example_externals
       example_os scraped_example example_arduino_results)))
     = [\<lparr>item_url = ''http://d/get/arduino.tar.xz'',
         item_checksum = Some (Checksum md5 ''def456''),
         item_ignore_encoding = False,
         item_cookies = Some [(''session'', ''42'')]\<rparr>]"
  proof -
    let ?out = "prepare_to_download_archive example_externals example_os scraped_example
                  example_arduino_results"
    have s: "started ?out = Some (the (started ?out))" by (simp add: prepare_example)
    from p [THEN conjunct2, THEN conjunct2, THEN conjunct2, THEN conjunct2, THEN conjunct2, THEN conjunct2, THEN conjunct2, THEN conjunct2, THEN conjunct2, THEN conjunct2, THEN conjunct2, THEN conjunct2, THEN conjunct2, THEN conjunct1, rule_format, OF s]
    obtain page body btn parent href sums sums_body checksums digest where
      h: "lookup example_arduino_results (scraped_download_url scraped_example) = Some page"
         "buffer page = Some body"
         "soup_find ''button'' (text_search ''JUST DOWNLOAD'')
            (BeautifulSoup example_externals body) = Some (btn, parent)"
         "map_of parent ''href'' = Some href"
         "lookup example_arduino_results (scraped_checksum_url scraped_example) = Some sums"
         "buffer sums = Some sums_body" "decode_ascii sums_body = Some checksums"
         "search_checksum (bits scraped_example) True checksums = Some digest"
         "download_requests (the (started ?out)) =
            [\<lparr>item_url = urljoin example_externals (final_url page) href,
              item_checksum = Some (Checksum md5 digest),
              item_ignore_encoding = False,
              item_cookies = Some (cookies page)\<rparr>]"
      by blast
    from h(1) have pg: "page = example_download_page"
      by (simp add: scraped_example_fields example_results_lookup)
    with h(2) have "body = ''<a href=http://d/get/arduino.tar.xz><button>JUST DOWNLOAD</button></a>''"
      by (simp add: example_download_page_fields)
    with h(3) have "parent = [(''href'', ''http://d/get/arduino.tar.xz'')]"
      by (simp add: example_soup_button example_button)
    with h(4) have hr: "href = ''http://d/get/arduino.tar.xz''" by simp
    from h(5) have "sums = fetched example_checksums"
      by (simp add: scraped_example_fields example_results_lookup)
    with h(6) have "sums_body = example_checksums" by (simp add: fetched_def)
    with h(7) have "checksums = example_checksums" by (simp add: example_checksum_page)
    with h(8) have "digest = ''def456''"
      by (simp add: scraped_example_fields example_checksum_page)
    with h(9) pg hr show ?thesis
      by (simp add: example_urljoin example_download_page_fields)
  qed
  have 15: "download_requests (the (started (parse_download_page_callback example_externals
       netbeans_example ?files)))
     = [DownloadItem
          ''http://download.netbeans.org/netbeans/8.0.2/final/zip/netbeans-8.0.2-201411181905.zip''
          (Some (Checksum md5 ''abc123''))]"
  proof -
    let ?out = "parse_download_page_callback example_externals netbeans_example ?files"
    have s: "started ?out = Some (the (started ?out))" by (simp add: parse_files_example)
    from f [THEN conjunct2, THEN conjunct2, THEN conjunct2, THEN conjunct2, THEN conjunct2, THEN conjunct2, THEN conjunct2, THEN conjunct2, THEN conjunct2, THEN conjunct2, THEN conjunct2, THEN conjunct2, THEN conjunct2, THEN conjunct2, THEN conjunct1, rule_format, OF s] obtain page body decoded ver m line where
      h: "lookup ?files (version_download_page netbeans_example) = Some page"
         "buffer page = Some body" "decode_utf8 example_externals body = Some decoded"
         "version netbeans_example = Some ver"
         "compile_add_file example_externals ver (flavour netbeans_example) = Some m"
         "find m (rev (split_sep [CHR 0x0A] decoded)) = Some line"
         "download_requests (the (started ?out)) = download_requests netbeans_example @
           [DownloadItem
              (BASE_URL @ ver @ ''/final/'' @
               split_sep '', ''
                 (replace [CHR 0x22] [] (replace '');'' [] (replace ''add_file('' [] line))) ! 0)
              (Some (Checksum md5
                 (split_sep '', ''
                    (replace [CHR 0x22] [] (replace '');'' [] (replace ''add_file('' [] line)))
                  ! 2)))]"
      by blast
    from h(1) have "page = fetched example_files_page"
      by (simp add: lookup_def netbeans_example_fields)
    with h(2) have "body = example_files_page" by (simp add: fetched_def)
    with h(3) have d: "decoded = example_files_page"
      by (simp add: example_decode_utf8 example_files_found)
    from h(4) have vr: "ver = ''8.0.2''" by (simp add: netbeans_example_fields)
    with h(5) have "m = match_pats (add_file_pat ''8.0.2'' [])"
      by (simp add: netbeans_example_fields compile_add_file_example)
    with h(6) d have "line = example_add_file_line" by (simp add: example_files_found)
    with h(7) vr show ?thesis
      by (simp add: example_files_found netbeans_example_requests BASE_URL_def)
  qed
  have lk: "\<And>b. lookup [(?nurl, fetched b)] (download_page ?nb) = Some (fetched b) \<and>
                 buffer (fetched b) = Some b"
    by (simp add: lookup_def BaseNetBeans_init_fields fetched_def)
  have 16: "netbeans_get_metadata_and_check_license example_externals ?nb ?vpage
     = DownloadCenter [] [DownloadItem example_files_url None] False
         (parse_download_page_callback example_externals netbeans_example)"
  proof -
    have "lookup ?vpage (download_page ?nb) = Some (fetched example_version_page) \<and>
          buffer (fetched example_version_page) = Some example_version_page \<and>
          decode_utf8 example_externals example_version_page = Some example_version_page"
      using lk [of example_version_page]
      by (simp add: example_decode_utf8 example_version_found(1))
    from v [THEN conjunct2, THEN conjunct2, THEN conjunct2, THEN conjunct2, THEN conjunct2, THEN conjunct2, THEN conjunct2, THEN conjunct2, THEN conjunct2, THEN conjunct2, THEN conjunct2, THEN conjunct2, THEN conjunct2, THEN conjunct2, THEN conjunct2, THEN conjunct1, rule_format, OF this] show ?thesis
      apply (simp only: example_version_found(2,3) option.case Let_def)
      apply (simp add: example_files_url_def netbeans_example_def)
      done
  qed
  have 17: "netbeans_get_metadata_and_check_license example_externals ?nb ?bpage
     = DownloadCenter
         [Log WARNING ''Could not determine latest version, using version {} as fallback...''
            [Str ''8.0.2'']]
         [DownloadItem example_files_url None] False
         (parse_download_page_callback example_externals netbeans_example)"
  proof -
    have "lookup ?bpage (download_page ?nb) = Some (fetched example_blank_version_page) \<and>
          buffer (fetched example_blank_version_page) = Some example_blank_version_page \<and>
          decode_utf8 example_externals example_blank_version_page
            = Some example_blank_version_page"
      using lk [of example_blank_version_page]
      by (simp add: example_decode_utf8 example_blank_version_lines(1))
    from k [THEN conjunct2, THEN conjunct2, THEN conjunct2, THEN conjunct2, THEN conjunct2, THEN conjunct2, THEN conjunct2, THEN conjunct2, THEN conjunct2, THEN conjunct2, THEN conjunct2, THEN conjunct2, THEN conjunct2, THEN conjunct2, THEN conjunct2, THEN conjunct1, rule_format, OF this] show ?thesis
      apply (simp only: example_blank_version_lines(2,3) option.case Let_def)
      apply (simp add: example_files_url_def netbeans_example_def)
      done
  qed
  from 17 have 18: "effects (netbeans_get_metadata_and_check_license example_externals ?nb ?bpage)
     = [Log WARNING ''Could not determine latest version, using version {} as fallback...''
          [Str ''8.0.2'']]"
    and 19: "requested (netbeans_get_metadata_and_check_license example_externals ?nb ?bpage)
     = Some [DownloadItem example_files_url None]"
    by simp_all
  from 1 2 3 4 5 6 7 8 9 10 11 12 13 14 15 16 18 19 show ?thesis by simp
qed

section \<open>Two inputs on which a callback ends in an exception\<close>

lemma example_version_lines:
  "decode_ascii example_version_page = Some example_version_page"
  "fold (\<lambda>line s.
           if contains ''/images_www/v6/download/'' line then
             s\<lparr>version := Some (strip
                (replace (''/'' @ [CHR 0x22] @ '';'') []
                   (replace (''var PAGE_ARTIFACTS_LOCATION = '' @ [CHR 0x22] @
                             ''/images_www/v6/download/'') [] line)))\<rparr>
           else s) (split_sep [CHR 0x0A] example_version_page) (BaseNetBeans_init [] p)
   = (BaseNetBeans_init [] p)\<lparr>version := Some ''8.0.2''\<rparr>"
  by code_simp+

lemma netbeans_get_metadata_example:
  "netbeans_get_metadata_and_check_license example_externals (BaseNetBeans_init [] p)
     [(''https://netbeans.org/downloads/zip.html'', fetched example_version_page)]
   = DownloadCenter [] [DownloadItem example_files_url None] False
       (parse_download_page_callback example_externals
          ((BaseNetBeans_init [] p)
             \<lparr>version := Some ''8.0.2'', version_download_page := Some example_files_url\<rparr>))"
  by (simp add: netbeans_get_metadata_and_check_license_def lookup_def BaseNetBeans_init_fields
        fetched_fields example_decode_utf8 example_version_lines example_files_url_def Let_def)

lemma example_no_files_lines:
  "decode_ascii ''// no files'' = Some ''// no files''"
  "fold (\<lambda>line url_string.
           if match_pats (add_file_pat ''8.0.2'' []) line then
             Some (replace [CHR 0x22] [] (replace '');'' [] (replace ''add_file('' [] line)))
           else url_string)
        (split_sep [CHR 0x0A] ''// no files'') None = None"
  by code_simp+

lemma parse_callback_example:
  "parse_download_page_callback example_externals
     ((BaseNetBeans_init [] p)
        \<lparr>version := Some ''8.0.2'', version_download_page := Some example_files_url\<rparr>)
     [(example_files_url, fetched ''// no files'')]
   = Raised [Log INFO ''Netbeans {}'' [OptStr (Some ''8.0.2'')]] UnboundLocalError"
  by (simp add: parse_download_page_callback_def lookup_def BaseNetBeans_init_def
        fetched_fields example_decode_utf8 example_no_files_lines compile_add_file_example
        Let_def)

text \<open>
  C4 on the NetBeans file list. The download page names version 8.0.2; the file list of
  that version has no \<open>add_file\<close> line for it. \<open>parse_download_page_callback\<close> then
  reads \<open>url_string\<close>, which the loop never assigned: the callback ends in an
  UnboundLocalError, having logged no error and without the abort with status 1 that the
  next two lines of the source were written to perform.
\<close>

theorem netbeans_no_matching_line_raises:
  "on_done
     (netbeans_get_metadata_and_check_license example_externals
        (BaseNetBeans_init [] ''/opt/netbeans'')
        [(''https://netbeans.org/downloads/zip.html'', fetched example_version_page)])
     [(example_files_url, fetched ''// no files'')]
   = Raised [Log INFO ''Netbeans {}'' [OptStr (Some ''8.0.2'')]] UnboundLocalError"
  by (simp add: netbeans_get_metadata_example parse_callback_example)

lemma transport_error_aborts:
  assumes "truthy (error page)"
  shows "lookup result (download_page jb) = Some page \<Longrightarrow>
           aborted (jetbrains_get_metadata_and_check_license ext jb result) = Some 1 \<and>
           list_ex is_error_log (effects (jetbrains_get_metadata_and_check_license ext jb result))"
    and "map_of result u = Some page \<Longrightarrow>
           aborted (done_cb ext ecl arch u result) = Some 1 \<and>
           list_ex is_error_log (effects (done_cb ext ecl arch u result))"
    and "lookup result (scraped_download_url ard) = Some page \<Longrightarrow>
         lookup result (scraped_checksum_url ard) = Some page' \<Longrightarrow>
           aborted (prepare_to_download_archive ext os ard result) = Some 1 \<and>
           list_ex is_error_log (effects (prepare_to_download_archive ext os ard result))"
    and "lookup result (scraped_download_url ard) = Some page' \<Longrightarrow>
         lookup result (scraped_checksum_url ard) = Some page \<Longrightarrow>
           aborted (prepare_to_download_archive ext os ard result) = Some 1 \<and>
           list_ex is_error_log (effects (prepare_to_download_archive ext os ard result))"
  using assms
  by (simp_all add: jetbrains_get_metadata_and_check_license_def done_cb_def
        prepare_to_download_archive_def)

text \<open>
  C6 on an empty checksum body. The checksum file is fetched without error and is empty.
  Eclipse's \<open>done\<close> and JetBrains' \<open>checksum_downloaded\<close> take \<open>split()[0]\<close> of the
  empty text: each ends in an IndexError, with no error logged and no abort with status
  1.
\<close>

theorem empty_checksum_body_raises:
  "on_done (download_provider_page example_externals ''x86_64'' (Eclipse_init ''/opt/eclipse''))
     [(DOWNLOAD_URL_PAT ''-x86_64'' ''.md5'', fetched [])]
   = Raised [] IndexError \<and>
   on_done
     (jetbrains_get_metadata_and_check_license example_externals (PyCharm_init ''/opt/pycharm'')
        [(PyCharm_download_page_url, fetched ''<a href=https://x/archive.tar.gz>HTTPS</a>'')])
     [(''https://x/archive.tar.gz.sha256'', fetched [])]
   = Raised [] IndexError"
  by (simp add: download_provider_page_def done_cb_def jetbrains_get_metadata_and_check_license_def
        checksum_downloaded_def lookup_def PyCharm_init_fields fetched_fields
        example_soup_one_anchor soup_find_def soup_find_all_def soup_descendants_def text_is_def
        example_decode_utf8 decode_ascii_def split_def Let_def)

end
